theory Spec2Isabelle
  imports Complex_Main "HOL-Library.Sublist" "HOL-Library.Word"
begin

section \<open>Python built-ins used by the scripts\<close>

text \<open>
  Python \<open>str\<close> values are modelled as \<open>string\<close> (ASCII text), \<open>bytes\<close> as lists of
  8-bit words, Python \<open>int\<close> as \<open>int\<close>.  A Python number that may be an \<open>int\<close> or a
  \<open>float\<close> (sizes and coordinates handed over by PyMuPDF) is a \<open>pynum\<close>; a finite float
  is represented by its exact rational value (NaN and the infinities are not modelled).
\<close>

type_synonym byte = "8 word"

datatype pynum = PyInt int | PyFloat rat

fun num_val :: "pynum \<Rightarrow> rat" where
  "num_val (PyInt i) = of_int i"
| "num_val (PyFloat r) = r"

text \<open>
  Two library functions are not re-implemented but taken as parameters: the text of a
  float in an f-string (\<open>float.__format__\<close> with an empty format specification) and
  \<open>pathlib.Path(p).stem\<close>.
\<close>

record pyenv =
  float_format :: "rat \<Rightarrow> string"
  path_stem :: "string \<Rightarrow> string"

text \<open>\<open>sep.join(parts)\<close>\<close>

fun join :: "string \<Rightarrow> string list \<Rightarrow> string" where
  "join sep [] = []"
| "join sep [x] = x"
| "join sep (x # y # ys) = x @ sep @ join sep (y # ys)"

text \<open>\<open>sub in s\<close> for strings: \<open>sub\<close> occurs in \<open>s\<close> as a contiguous substring.\<close>

primrec py_in :: "string \<Rightarrow> string \<Rightarrow> bool" where
  "py_in sub [] = (sub = [])"
| "py_in sub (c # s) = (prefix sub (c # s) \<or> py_in sub s)"

text \<open>\<open>str.lower()\<close>, on ASCII text.\<close>

definition ascii_uppercase :: string where
  "ascii_uppercase = ''ABCDEFGHIJKLMNOPQRSTUVWXYZ''"

definition ascii_lowercase :: string where
  "ascii_lowercase = ''abcdefghijklmnopqrstuvwxyz''"

definition lower_char :: "char \<Rightarrow> char" where
  "lower_char c = (case map_of (zip ascii_uppercase ascii_lowercase) c of
                     None \<Rightarrow> c | Some l \<Rightarrow> l)"

definition lower :: "string \<Rightarrow> string" where
  "lower s = map lower_char s"

text \<open>\<open>str(n)\<close> for an \<open>int\<close>: decimal digits, a minus sign when negative.\<close>

definition digit_char :: "nat \<Rightarrow> char" where
  "digit_char d = ''0123456789abcdef'' ! d"

fun str_nat :: "nat \<Rightarrow> string" where
  "str_nat n = (if n < 10 then [digit_char n] else str_nat (n div 10) @ [digit_char (n mod 10)])"

declare str_nat.simps [simp del]

definition str_int :: "int \<Rightarrow> string" where
  "str_int i = (if i < 0 then ''-'' @ str_nat (nat (- i)) else str_nat (nat i))"

text \<open>\<open>f"{c:06x}"\<close>: lower-case hexadecimal, zero-padded after the sign to a total width of
  at least six characters.\<close>

fun hex_nat :: "nat \<Rightarrow> string" where
  "hex_nat n = (if n < 16 then [digit_char n] else hex_nat (n div 16) @ [digit_char (n mod 16)])"

declare hex_nat.simps [simp del]

definition zero_pad :: "nat \<Rightarrow> string \<Rightarrow> string" where
  "zero_pad w s = replicate (w - length s) (CHR ''0'') @ s"

definition format_06x :: "int \<Rightarrow> string" where
  "format_06x c = (if c < 0 then ''-'' @ zero_pad 5 (hex_nat (nat (- c)))
                   else zero_pad 6 (hex_nat (nat c)))"

text \<open>The text of a number in an f-string.\<close>

fun format_num :: "pyenv \<Rightarrow> pynum \<Rightarrow> string" where
  "format_num E (PyInt i) = str_int i"
| "format_num E (PyFloat r) = float_format E r"

text \<open>\<open>html.escape(s)\<close> (with \<open>quote=True\<close>): five successive \<open>str.replace\<close> calls, the
  ampersand first.\<close>

definition replace_char :: "char \<Rightarrow> string \<Rightarrow> string \<Rightarrow> string" where
  "replace_char c r s = concat (map (\<lambda>x. if x = c then r else [x]) s)"

definition html_escape :: "string \<Rightarrow> string" where
  \<open>html_escape s =
     replace_char (CHR 0x27) ''&#x27;''
       (replace_char (CHR 0x22) ''&quot;''
         (replace_char (CHR ''>'') ''&gt;''
           (replace_char (CHR ''<'') ''&lt;''
             (replace_char (CHR ''&'') ''&amp;'' s))))\<close>

text \<open>\<open>base64.b64encode(data).decode()\<close>\<close>

definition b64_alphabet :: string where
  "b64_alphabet = ''ABCDEFGHIJKLMNOPQRSTUVWXYZabcdefghijklmnopqrstuvwxyz0123456789+/''"

definition b64_char :: "nat \<Rightarrow> char" where
  "b64_char k = b64_alphabet ! k"

fun b64encode :: "byte list \<Rightarrow> string" where
  "b64encode [] = []"
| "b64encode [a] =
     (let n = unat a * 65536
      in [b64_char (n div 262144), b64_char (n div 4096 mod 64), CHR ''='', CHR ''=''])"
| "b64encode [a, b] =
     (let n = unat a * 65536 + unat b * 256
      in [b64_char (n div 262144), b64_char (n div 4096 mod 64),
          b64_char (n div 64 mod 64), CHR ''=''])"
| "b64encode (a # b # c # rest) =
     (let n = unat a * 65536 + unat b * 256 + unat c
      in [b64_char (n div 262144), b64_char (n div 4096 mod 64),
          b64_char (n div 64 mod 64), b64_char (n mod 64)] @ b64encode rest)"

text \<open>\<open>d.get(key, default)\<close>\<close>

definition dict_get :: "'a option \<Rightarrow> 'a \<Rightarrow> 'a" where
  "dict_get v dflt = (case v of None \<Rightarrow> dflt | Some x \<Rightarrow> x)"

section \<open>Exceptions and the world outside the scripts\<close>

text \<open>
  Every exception the scripts can meet is a subclass of \<open>Exception\<close>; each carries its
  message, and \<open>str(e)\<close> of a \<open>KeyError\<close> is the \<open>repr\<close> of the missing key.
\<close>

datatype exn =
    FileNotFoundError string
  | IsADirectoryError string
  | FileExistsError string
  | PermissionError string
  | KeyError string
  | IndexError string
  | ValueError string
  | RuntimeError string

fun str_exn :: "exn \<Rightarrow> string" where
  "str_exn (FileNotFoundError m) = m"
| "str_exn (IsADirectoryError m) = m"
| "str_exn (FileExistsError m) = m"
| "str_exn (PermissionError m) = m"
| "str_exn (KeyError k) = [CHR 0x27] @ k @ [CHR 0x27]"
| "str_exn (IndexError m) = m"
| "str_exn (ValueError m) = m"
| "str_exn (RuntimeError m) = m"

datatype level = INFO | WARNING | ERROR

text \<open>
  The state a script can observe and change: the regular files with their contents, the
  directories, the paths that cannot be created or opened for writing (a missing parent
  directory, missing permissions), the records handed to the \<open>logging\<close> module, and the
  lines printed to standard output and standard error.
\<close>

record world =
  fs_files :: "string \<rightharpoonup> string"
  fs_dirs :: "string set"
  fs_readonly :: "string set"
  logged :: "(level \<times> string) list"
  stdout :: "string list"
  stderr :: "string list"

text \<open>A computation that may raise and may change the world.\<close>

type_synonym 'a io = "world \<Rightarrow> (exn + 'a) \<times> world"

definition ret :: "'a \<Rightarrow> 'a io" where
  "ret x w = (Inr x, w)"

definition raise :: "exn \<Rightarrow> 'a io" where
  "raise e w = (Inl e, w)"

text \<open>A call that may raise and has no other effect.\<close>

definition lift :: "exn + 'a \<Rightarrow> 'a io" where
  "lift r w = (r, w)"

text \<open>Sequencing: an exception of the first part skips the second.\<close>

definition io_bind :: "'a io \<Rightarrow> ('a \<Rightarrow> 'b io) \<Rightarrow> 'b io" where
  "io_bind m f w = (case m w of (Inl e, w') \<Rightarrow> (Inl e, w') | (Inr x, w') \<Rightarrow> f x w')"

text \<open>\<open>try: m  except Exception as e: h e\<close>\<close>

definition try_except :: "'a io \<Rightarrow> (exn \<Rightarrow> 'a io) \<Rightarrow> 'a io" where
  "try_except m h w = (case m w of (Inl e, w') \<Rightarrow> h e w' | (Inr x, w') \<Rightarrow> (Inr x, w'))"

definition logger_log :: "level \<Rightarrow> string \<Rightarrow> unit io" where
  "logger_log lvl msg w = (Inr (), w\<lparr>logged := logged w @ [(lvl, msg)]\<rparr>)"

definition print_out :: "string \<Rightarrow> unit io" where
  "print_out msg w = (Inr (), w\<lparr>stdout := stdout w @ [msg]\<rparr>)"

definition print_err :: "string \<Rightarrow> unit io" where
  "print_err msg w = (Inr (), w\<lparr>stderr := stderr w @ [msg]\<rparr>)"

definition quoted :: "string \<Rightarrow> string" where
  "quoted s = [CHR 0x27] @ s @ [CHR 0x27]"

text \<open>\<open>os.path.exists(path)\<close>\<close>

definition os_path_exists :: "world \<Rightarrow> string \<Rightarrow> bool" where
  "os_path_exists w path \<longleftrightarrow> path \<in> dom (fs_files w) \<or> path \<in> fs_dirs w"

text \<open>\<open>os.makedirs(path, exist_ok=True)\<close>; ancestors of \<open>path\<close> are not tracked.\<close>

definition os_makedirs :: "string \<Rightarrow> unit io" where
  "os_makedirs path w =
     (if path \<in> fs_dirs w then (Inr (), w)
      else if path \<in> dom (fs_files w) then
        (Inl (FileExistsError (''[Errno 17] File exists: '' @ quoted path)), w)
      else if path = [] then
        (Inl (FileNotFoundError (''[Errno 2] No such file or directory: '' @ quoted path)), w)
      else if path \<in> fs_readonly w then
        (Inl (PermissionError (''[Errno 13] Permission denied: '' @ quoted path)), w)
      else (Inr (), w\<lparr>fs_dirs := insert path (fs_dirs w)\<rparr>))"

text \<open>\<open>open(path, "rb")\<close> followed by reading the whole file.\<close>

definition read_bytes :: "string \<Rightarrow> string io" where
  "read_bytes path w =
     (if path \<in> fs_dirs w then
        (Inl (IsADirectoryError (''[Errno 21] Is a directory: '' @ quoted path)), w)
      else case fs_files w path of
        None \<Rightarrow> (Inl (FileNotFoundError (''[Errno 2] No such file or directory: '' @ quoted path)), w)
      | Some data \<Rightarrow> (Inr data, w))"

text \<open>\<open>open(path, "w", encoding="utf-8")\<close>: the file is created or truncated; the handle
  is the path.  \<open>f.write(data)\<close> appends to what the handle has written so far.\<close>

definition open_w :: "string \<Rightarrow> string io" where
  "open_w path w =
     (if path \<in> fs_dirs w then
        (Inl (IsADirectoryError (''[Errno 21] Is a directory: '' @ quoted path)), w)
      else if path \<in> fs_readonly w then
        (Inl (PermissionError (''[Errno 13] Permission denied: '' @ quoted path)), w)
      else (Inr path, w\<lparr>fs_files := (fs_files w)(path \<mapsto> [])\<rparr>))"

definition file_write :: "string \<Rightarrow> string \<Rightarrow> unit io" where
  "file_write f data w =
     (Inr (), w\<lparr>fs_files := (fs_files w)(f \<mapsto> dict_get (fs_files w f) [] @ data)\<rparr>)"

text \<open>\<open>os.path.basename\<close>, \<open>os.path.splitext\<close> and \<open>os.path.join\<close> of \<open>posixpath\<close>.\<close>

fun rsplit_at :: "char \<Rightarrow> string \<Rightarrow> (string \<times> string) option" where
  "rsplit_at c [] = None"
| "rsplit_at c (x # xs) =
     (case rsplit_at c xs of
        Some (a, b) \<Rightarrow> Some (x # a, b)
      | None \<Rightarrow> if x = c then Some ([], xs) else None)"

definition os_path_basename :: "string \<Rightarrow> string" where
  "os_path_basename p = (case rsplit_at (CHR ''/'') p of None \<Rightarrow> p | Some (a, b) \<Rightarrow> b)"

definition os_path_splitext :: "string \<Rightarrow> string \<times> string" where
  "os_path_splitext p =
     (let name = os_path_basename p;
          dir = take (length p - length name) p
      in case rsplit_at (CHR ''.'') name of
           None \<Rightarrow> (p, [])
         | Some (base, ext) \<Rightarrow>
             if filter (\<lambda>c. c \<noteq> CHR ''.'') base \<noteq> [] then (dir @ base, CHR ''.'' # ext) else (p, []))"

definition os_path_join :: "string \<Rightarrow> string \<Rightarrow> string" where
  "os_path_join a b =
     (if b \<noteq> [] \<and> hd b = CHR ''/'' then b
      else if a = [] \<or> last a = CHR ''/'' then a @ b
      else a @ ''/'' @ b)"

section \<open>The text structure of PyMuPDF and the converter's records\<close>

text \<open>
  What \<open>page.get_text("dict")\<close> returns.  Keys the converter reads with \<open>dict.get\<close> are
  optional fields; keys it indexes directly (\<open>block["bbox"]\<close>, \<open>line["spans"]\<close>) are
  fields the library always supplies.  A block is a text block when it has the key
  \<open>"lines"\<close>.
\<close>

record raw_span =
  rs_font :: "string option"
  rs_size :: "pynum option"
  rs_color :: "int option"
  rs_text :: "string option"
  rs_bbox :: "pynum list option"

record raw_line =
  rl_bbox :: "pynum list"
  rl_spans :: "raw_span list"

record raw_block =
  rb_bbox :: "pynum list"
  rb_lines :: "raw_line list option"

text \<open>The dictionaries built by \<open>_extract_text_blocks\<close>.\<close>

record font_info =
  fi_font :: string
  fi_size :: pynum
  fi_color :: int
  fi_bold :: bool
  fi_italic :: bool

record span_data =
  sd_text :: string
  sd_bbox :: "pynum list"
  sd_font_info :: font_info

record line_data =
  ld_bbox :: "pynum list"
  ld_spans :: "span_data list"

record block_data =
  bd_type :: string
  bd_bbox :: "pynum list"
  bd_lines :: "line_data list"

text \<open>The body of the loop over \<open>line["spans"]\<close> in \<open>_extract_text_blocks\<close>.\<close>

definition extract_span :: "raw_span \<Rightarrow> span_data" where
  "extract_span sp =
     (let font_info = \<lparr>
            fi_font = dict_get (rs_font sp) '''',
            fi_size = dict_get (rs_size sp) (PyInt 12),
            fi_color = dict_get (rs_color sp) 0,
            fi_bold = py_in ''bold'' (lower (dict_get (rs_font sp) '''')),
            fi_italic = py_in ''italic'' (lower (dict_get (rs_font sp) '''')) \<rparr>
      in \<lparr> sd_text = dict_get (rs_text sp) '''',
           sd_bbox = dict_get (rs_bbox sp) [PyInt 0, PyInt 0, PyInt 0, PyInt 0],
           sd_font_info = font_info \<rparr>)"

definition extract_line :: "raw_line \<Rightarrow> line_data" where
  "extract_line line = \<lparr> ld_bbox = rl_bbox line, ld_spans = map extract_span (rl_spans line) \<rparr>"

text \<open>The loop over \<open>text_dict["blocks"]\<close>: blocks without \<open>"lines"\<close> are skipped.\<close>

fun extract_blocks :: "raw_block list \<Rightarrow> block_data list" where
  "extract_blocks [] = []"
| "extract_blocks (block # blocks) =
     (case rb_lines block of
        None \<Rightarrow> extract_blocks blocks
      | Some lines \<Rightarrow>
          \<lparr> bd_type = ''text'', bd_bbox = rb_bbox block, bd_lines = map extract_line lines \<rparr>
          # extract_blocks blocks)"

section \<open>The PyMuPDF objects the scripts read\<close>

text \<open>
  A \<open>fitz.Pixmap\<close>: its component count, its alpha flag, its size in pixels and what the
  two encodings give.  \<open>to_rgb_jpeg\<close> is \<open>fitz.Pixmap(fitz.csRGB, pix).tobytes("jpeg")\<close>.
\<close>

record pixmap =
  pix_n :: int
  pix_alpha :: int
  pix_width :: int
  pix_height :: int
  tobytes_png :: "exn + byte list"
  to_rgb_jpeg :: "exn + byte list"

text \<open>What \<open>page.get_drawings()\<close> lists; every key is read with \<open>dict.get\<close>.\<close>

record raw_path =
  rp_rect :: "pynum list option"
  rp_color :: "pynum list option"
  rp_fill :: "pynum list option"
  rp_width :: "pynum option"

text \<open>
  A \<open>fitz.Page\<close>, as the answers of the calls the scripts make on it.  An entry of
  \<open>page.get_images()\<close> is represented by its first component, the xref, the only one
  read; \<open>new_pixmap\<close> is \<open>fitz.Pixmap(page.parent, xref)\<close>.
\<close>

record page =
  rect_width :: pynum
  rect_height :: pynum
  get_text_dict :: "exn + raw_block list"
  get_text_html :: "exn + string"
  get_images :: "exn + int list"
  new_pixmap :: "int \<Rightarrow> exn + pixmap"
  get_image_rects :: "int \<Rightarrow> exn + pynum list list"
  get_drawings :: "exn + raw_path list"

text \<open>A \<open>fitz.Document\<close>: what \<open>load_page\<close> answers for each page number, and the
  metadata.\<close>

record document =
  doc_pages :: "(exn + page) list"
  doc_metadata :: "(string \<times> string) list"

text \<open>What \<open>pdfplumber\<close> gives: \<open>page.extract_text()\<close> for each page of \<open>pdf.pages\<close>.\<close>

record plumber_page =
  extract_text :: "exn + string option"

text \<open>
  The third-party libraries, as functions of the bytes of the file they are given:
  \<open>fitz.open\<close>, \<open>pdfplumber.open\<close>, pdfminer's \<open>extract_text_to_fp\<close> with
  \<open>output_type='html'\<close> (without and with layout parameters) and
  \<open>pypdf2htmlEX.PDF(path).to_html()\<close>.
\<close>

record libs =
  fitz_parse :: "string \<Rightarrow> exn + document"
  plumber_parse :: "string \<Rightarrow> exn + plumber_page list"
  pdfminer_html :: "string \<Rightarrow> exn + string"
  pdfminer_html_la :: "string \<Rightarrow> exn + string"
  pdf2htmlEX_html :: "string \<Rightarrow> exn + string"

text \<open>Opening a path with a library: a directory or a missing file raises, the bytes of
  an existing file are handed to the library.\<close>

definition open_with :: "(string \<Rightarrow> exn + 'a) \<Rightarrow> string \<Rightarrow> 'a io" where
  "open_with parse path = io_bind (read_bytes path) (\<lambda>data. lift (parse data))"

definition fitz_open :: "libs \<Rightarrow> string \<Rightarrow> document io" where
  "fitz_open L path = open_with (fitz_parse L) path"

definition pdfplumber_open :: "libs \<Rightarrow> string \<Rightarrow> plumber_page list io" where
  "pdfplumber_open L path = open_with (plumber_parse L) path"

section \<open>PDFToHTMLConverter: extraction\<close>

record converter =
  embed_fonts :: bool
  preserve_layout :: bool

text \<open>\<open>__init__\<close>; the logger is the \<open>logged\<close> component of the world.\<close>

definition init :: "bool \<Rightarrow> bool \<Rightarrow> converter" where
  "init ef pl = \<lparr> embed_fonts = ef, preserve_layout = pl \<rparr>"

record image_info =
  ii_index :: nat
  ii_page :: nat
  ii_format :: string
  ii_data :: string
  ii_width :: int
  ii_height :: int
  ii_rects :: "pynum list list"

record drawing_info =
  di_type :: string
  di_bbox :: "pynum list"
  di_stroke_color :: "pynum list option"
  di_fill_color :: "pynum list option"
  di_width :: pynum

record page_content =
  pc_page_num :: nat
  pc_dimensions :: "pynum \<times> pynum"
  pc_text_blocks :: "block_data list"
  pc_images :: "image_info list"
  pc_drawings :: "drawing_info list"

record content =
  c_pages :: "page_content list"
  c_images :: "image_info list"
  c_fonts :: "string set"
  c_metadata :: "(string \<times> string) list"

definition extract_text_blocks :: "converter \<Rightarrow> page \<Rightarrow> block_data list io" where
  "extract_text_blocks self page =
     io_bind (lift (get_text_dict page)) (\<lambda>blocks. ret (extract_blocks blocks))"

text \<open>The body of the \<open>try\<close> in \<open>_extract_images\<close>, for the image \<open>img\<close> at \<open>img_index\<close>.\<close>

definition encode_pixmap :: "pixmap \<Rightarrow> exn + (byte list \<times> string)" where
  "encode_pixmap pix =
     (if pix_n pix - pix_alpha pix < 4
      then (case tobytes_png pix of Inl e \<Rightarrow> Inl e | Inr img_data \<Rightarrow> Inr (img_data, ''png''))
      else (case to_rgb_jpeg pix of Inl e \<Rightarrow> Inl e | Inr img_data \<Rightarrow> Inr (img_data, ''jpeg'')))"

definition extract_image :: "page \<Rightarrow> nat \<Rightarrow> nat \<Rightarrow> int \<Rightarrow> exn + image_info" where
  "extract_image page page_num img_index xref =
     (case new_pixmap page xref of
        Inl e \<Rightarrow> Inl e
      | Inr pix \<Rightarrow>
         (case encode_pixmap pix of
            Inl e \<Rightarrow> Inl e
          | Inr (img_data, img_format) \<Rightarrow>
             (let img_b64 = b64encode img_data
              in case get_image_rects page xref of
                   Inl e \<Rightarrow> Inl e
                 | Inr img_rects \<Rightarrow>
                     Inr \<lparr> ii_index = img_index, ii_page = page_num, ii_format = img_format,
                           ii_data = img_b64, ii_width = pix_width pix,
                           ii_height = pix_height pix, ii_rects = img_rects \<rparr>)))"

definition image_warning :: "nat \<Rightarrow> nat \<Rightarrow> exn \<Rightarrow> string" where
  "image_warning img_index page_num e =
     ''Could not extract image '' @ str_nat img_index @ '' from page '' @ str_nat page_num
       @ '': '' @ str_exn e"

text \<open>The loop \<open>for img_index, img in enumerate(image_list)\<close>: \<open>images\<close> is the list built
  so far.\<close>

fun images_loop :: "converter \<Rightarrow> page \<Rightarrow> nat \<Rightarrow> image_info list \<Rightarrow> nat \<Rightarrow> int list
                    \<Rightarrow> image_info list io" where
  "images_loop self page page_num images img_index [] = ret images"
| "images_loop self page page_num images img_index (img # rest) =
     (case extract_image page page_num img_index img of
        Inr image_info \<Rightarrow>
          images_loop self page page_num (images @ [image_info]) (Suc img_index) rest
      | Inl e \<Rightarrow>
          io_bind (logger_log WARNING (image_warning img_index page_num e))
            (\<lambda>_. images_loop self page page_num images (Suc img_index) rest))"

definition extract_images :: "converter \<Rightarrow> page \<Rightarrow> nat \<Rightarrow> image_info list io" where
  "extract_images self page page_num =
     io_bind (lift (get_images page))
       (\<lambda>image_list. images_loop self page page_num [] 0 image_list)"

definition drawing_of :: "raw_path \<Rightarrow> drawing_info" where
  "drawing_of path =
     \<lparr> di_type = ''drawing'',
       di_bbox = dict_get (rp_rect path) [PyInt 0, PyInt 0, PyInt 0, PyInt 0],
       di_stroke_color = rp_color path,
       di_fill_color = rp_fill path,
       di_width = dict_get (rp_width path) (PyInt 1) \<rparr>"

text \<open>\<open>_extract_drawings\<close>: the whole body is inside \<open>try\<close>; when \<open>page.get_drawings()\<close> raises, a
  warning is logged and the list, still empty, is returned.\<close>

definition extract_drawings :: "converter \<Rightarrow> page \<Rightarrow> drawing_info list io" where
  "extract_drawings self page =
     try_except
       (io_bind (lift (get_drawings page)) (\<lambda>paths. ret (map drawing_of paths)))
       (\<lambda>e. io_bind (logger_log WARNING (''Could not extract drawings: '' @ str_exn e))
               (\<lambda>_. ret []))"

definition extract_page_content :: "converter \<Rightarrow> page \<Rightarrow> nat \<Rightarrow> page_content io" where
  "extract_page_content self page page_num =
     io_bind (extract_text_blocks self page) (\<lambda>text_blocks.
     io_bind (extract_images self page page_num) (\<lambda>images.
     io_bind (extract_drawings self page) (\<lambda>drawings.
     ret \<lparr> pc_page_num = page_num,
           pc_dimensions = (rect_width page, rect_height page),
           pc_text_blocks = text_blocks,
           pc_images = images,
           pc_drawings = drawings \<rparr>)))"

text \<open>The loop \<open>for page_num in range(len(doc))\<close>: the answers of \<open>doc.load_page\<close> still to
  come, from \<open>page_num\<close> on.\<close>

fun pages_loop :: "converter \<Rightarrow> content \<Rightarrow> nat \<Rightarrow> (exn + page) list \<Rightarrow> content io" where
  "pages_loop self content page_num [] = ret content"
| "pages_loop self content page_num (loaded # rest) =
     io_bind (lift loaded) (\<lambda>page.
     io_bind (extract_page_content self page page_num) (\<lambda>page_content.
     pages_loop self (content\<lparr>c_pages := c_pages content @ [page_content]\<rparr>)
       (Suc page_num) rest))"

definition extract_content_from_pdf :: "converter \<Rightarrow> document \<Rightarrow> content io" where
  "extract_content_from_pdf self doc =
     pages_loop self
       \<lparr> c_pages = [], c_images = [], c_fonts = {}, c_metadata = doc_metadata doc \<rparr>
       0 (doc_pages doc)"

section \<open>PDFToHTMLConverter: HTML generation\<close>

text \<open>
  The body of the loop over \<open>line["spans"]\<close> in \<open>_generate_text_block_html\<close>, in the
  order of the source: the class list, the style list, the two attributes, the element.
\<close>

definition span_classes :: "font_info \<Rightarrow> string list" where
  "span_classes font_info =
     [''text-span'']
     @ (if fi_bold font_info then [''bold''] else [])
     @ (if fi_italic font_info then [''italic''] else [])"

definition span_styles :: "pyenv \<Rightarrow> font_info \<Rightarrow> string list" where
  "span_styles E font_info =
     (if num_val (fi_size font_info) \<noteq> 12
      then [''font-size: '' @ format_num E (fi_size font_info) @ ''px''] else [])
     @ (if fi_color font_info \<noteq> 0
        then [''color: '' @ (''#'' @ format_06x (fi_color font_info))] else [])"

definition class_attr :: "string list \<Rightarrow> string" where
  \<open>class_attr classes =
     (if classes \<noteq> [] then '' class="'' @ join '' '' classes @ ''"'' else '''')\<close>

definition style_attr :: "string list \<Rightarrow> string" where
  \<open>style_attr styles =
     (if styles \<noteq> [] then '' style="'' @ join ''; '' styles @ ''"'' else '''')\<close>

definition span_html :: "pyenv \<Rightarrow> span_data \<Rightarrow> string" where
  "span_html E sp =
     (let text = html_escape (sd_text sp);
          font_info = sd_font_info sp
      in ''<span'' @ class_attr (span_classes font_info)
         @ style_attr (span_styles E font_info) @ ''>'' @ text @ ''</span>'')"

text \<open>One line contributes the concatenation of its spans, and nothing when it has none.\<close>

fun line_parts :: "pyenv \<Rightarrow> line_data list \<Rightarrow> string list" where
  "line_parts E [] = []"
| "line_parts E (line # lines) =
     (let parts = map (span_html E) (ld_spans line)
      in (if parts \<noteq> [] then [concat parts] else []) @ line_parts E lines)"

definition generate_text_block_html :: "converter \<Rightarrow> pyenv \<Rightarrow> block_data \<Rightarrow> string" where
  \<open>generate_text_block_html self E block =
     join ''\<newline>'' ([''<div class="text-block">''] @ line_parts E (bd_lines block) @ [''</div>''])\<close>

definition generate_image_html :: "converter \<Rightarrow> image_info \<Rightarrow> string" where
  \<open>generate_image_html self img =
     (let data_uri = ''data:image/'' @ ii_format img @ '';base64,'' @ ii_data img
      in ''<div class="image-container">\<newline>''
         @ ''                <img src="'' @ data_uri @ ''" \<newline>''
         @ ''                     alt="PDF Image '' @ str_nat (ii_index img) @ ''" \<newline>''
         @ ''                     class="pdf-image"\<newline>''
         @ ''                     width="'' @ str_int (ii_width img) @ ''" \<newline>''
         @ ''                     height="'' @ str_int (ii_height img) @ ''">\<newline>''
         @ ''            </div>'')\<close>

definition generate_page_html :: "converter \<Rightarrow> pyenv \<Rightarrow> page_content \<Rightarrow> string" where
  \<open>generate_page_html self E page_data =
     (let page_num = pc_page_num page_data
      in join ''\<newline>''
           ([''        <div class="pdf-page" id="page-'' @ str_nat (page_num + 1) @ ''">'',
             ''            <div class="page-number">Page '' @ str_nat (page_num + 1) @ ''</div>'']
            @ map (\<lambda>block. ''            '' @ generate_text_block_html self E block)
                (filter (\<lambda>block. bd_type block = ''text'') (pc_text_blocks page_data))
            @ map (\<lambda>img. ''            '' @ generate_image_html self img)
                (pc_images page_data)
            @ [''        </div>'']))\<close>

definition generate_body_html :: "converter \<Rightarrow> pyenv \<Rightarrow> content \<Rightarrow> string" where
  "generate_body_html self E content =
     join ''\<newline>'' (map (generate_page_html self E) (c_pages content))"

definition generate_css :: "converter \<Rightarrow> content \<Rightarrow> string" where
  \<open>generate_css self content =
       ''\<newline>''
     @ ''        body {\<newline>''
     @ ''            font-family: Arial, sans-serif;\<newline>''
     @ ''            margin: 0;\<newline>''
     @ ''            padding: 20px;\<newline>''
     @ ''            background-color: #f5f5f5;\<newline>''
     @ ''        }\<newline>''
     @ ''        \<newline>''
     @ ''        .pdf-container {\<newline>''
     @ ''            max-width: 1200px;\<newline>''
     @ ''            margin: 0 auto;\<newline>''
     @ ''            background-color: white;\<newline>''
     @ ''            box-shadow: 0 0 10px rgba(0, 0, 0, 0.1);\<newline>''
     @ ''            border-radius: 8px;\<newline>''
     @ ''            overflow: hidden;\<newline>''
     @ ''        }\<newline>''
     @ ''        \<newline>''
     @ ''        .pdf-title {\<newline>''
     @ ''            background-color: #2c3e50;\<newline>''
     @ ''            color: white;\<newline>''
     @ ''            padding: 20px;\<newline>''
     @ ''            margin: 0;\<newline>''
     @ ''            font-size: 24px;\<newline>''
     @ ''            font-weight: bold;\<newline>''
     @ ''        }\<newline>''
     @ ''        \<newline>''
     @ ''        .pdf-page {\<newline>''
     @ ''            padding: 20px;\<newline>''
     @ ''            border-bottom: 2px solid #ecf0f1;\<newline>''
     @ ''            position: relative;\<newline>''
     @ ''            min-height: 400px;\<newline>''
     @ ''        }\<newline>''
     @ ''        \<newline>''
     @ ''        .pdf-page:last-child {\<newline>''
     @ ''            border-bottom: none;\<newline>''
     @ ''        }\<newline>''
     @ ''        \<newline>''
     @ ''        .page-number {\<newline>''
     @ ''            position: absolute;\<newline>''
     @ ''            top: 10px;\<newline>''
     @ ''            right: 20px;\<newline>''
     @ ''            background-color: #3498db;\<newline>''
     @ ''            color: white;\<newline>''
     @ ''            padding: 5px 10px;\<newline>''
     @ ''            border-radius: 15px;\<newline>''
     @ ''            font-size: 12px;\<newline>''
     @ ''            font-weight: bold;\<newline>''
     @ ''        }\<newline>''
     @ ''        \<newline>''
     @ ''        .text-block {\<newline>''
     @ ''            margin: 10px 0;\<newline>''
     @ ''            line-height: 1.4;\<newline>''
     @ ''        }\<newline>''
     @ ''        \<newline>''
     @ ''        .text-span {\<newline>''
     @ ''            display: inline;\<newline>''
     @ ''        }\<newline>''
     @ ''        \<newline>''
     @ ''        .bold {\<newline>''
     @ ''            font-weight: bold;\<newline>''
     @ ''        }\<newline>''
     @ ''        \<newline>''
     @ ''        .italic {\<newline>''
     @ ''            font-style: italic;\<newline>''
     @ ''        }\<newline>''
     @ ''        \<newline>''
     @ ''        .pdf-image {\<newline>''
     @ ''            max-width: 100%;\<newline>''
     @ ''            height: auto;\<newline>''
     @ ''            display: block;\<newline>''
     @ ''            margin: 15px 0;\<newline>''
     @ ''            border: 1px solid #ddd;\<newline>''
     @ ''            border-radius: 4px;\<newline>''
     @ ''        }\<newline>''
     @ ''        \<newline>''
     @ ''        .image-container {\<newline>''
     @ ''            text-align: center;\<newline>''
     @ ''            margin: 20px 0;\<newline>''
     @ ''        }\<newline>''
     @ ''        \<newline>''
     @ ''        .drawing-element {\<newline>''
     @ ''            position: absolute;\<newline>''
     @ ''            border: 1px solid #ccc;\<newline>''
     @ ''        }\<newline>''
     @ ''        \<newline>''
     @ ''        @media print {\<newline>''
     @ ''            .pdf-container {\<newline>''
     @ ''                box-shadow: none;\<newline>''
     @ ''                border-radius: 0;\<newline>''
     @ ''            }\<newline>''
     @ ''            \<newline>''
     @ ''            .pdf-page {\<newline>''
     @ ''                page-break-after: always;\<newline>''
     @ ''            }\<newline>''
     @ ''            \<newline>''
     @ ''            .pdf-page:last-child {\<newline>''
     @ ''                page-break-after: auto;\<newline>''
     @ ''            }\<newline>''
     @ ''        }\<newline>''
     @ ''        ''\<close>

definition generate_complete_html :: "converter \<Rightarrow> pyenv \<Rightarrow> content \<Rightarrow> string \<Rightarrow> string" where
  \<open>generate_complete_html self E content pdf_path =
     (let pdf_name = path_stem E pdf_path;
          css = generate_css self content;
          body_html = generate_body_html self E content
      in ''<!DOCTYPE html>\<newline>''
         @ ''<html lang="en">\<newline>''
         @ ''<head>\<newline>''
         @ ''    <meta charset="UTF-8">\<newline>''
         @ ''    <meta name="viewport" content="width=device-width, initial-scale=1.0">\<newline>''
         @ ''    <title>'' @ html_escape pdf_name @ ''</title>\<newline>''
         @ ''    <style>\<newline>''
         @ css @ ''\<newline>''
         @ ''    </style>\<newline>''
         @ ''</head>\<newline>''
         @ ''<body>\<newline>''
         @ ''    <div class="pdf-container">\<newline>''
         @ ''        <h1 class="pdf-title">'' @ html_escape pdf_name @ ''</h1>\<newline>''
         @ body_html @ ''\<newline>''
         @ ''    </div>\<newline>''
         @ ''</body>\<newline>''
         @ ''</html>'')\<close>

section \<open>PDFToHTMLConverter: the conversion\<close>

text \<open>
  \<open>convert_pdf_to_html(self, pdf_path, output_path)\<close>.  The existence test stands before
  the \<open>try\<close>; everything after it is inside, and the handler logs the exception and raises
  it again.
\<close>

definition convert_body :: "converter \<Rightarrow> pyenv \<Rightarrow> libs \<Rightarrow> string \<Rightarrow> string option \<Rightarrow> string io" where
  "convert_body self E L pdf_path output_path =
     io_bind (fitz_open L pdf_path) (\<lambda>doc.
     io_bind (extract_content_from_pdf self doc) (\<lambda>html_content.
     (let full_html = generate_complete_html self E html_content pdf_path;
          output_path' = (case output_path of
                            None \<Rightarrow> path_stem E pdf_path @ ''.html''
                          | Some p \<Rightarrow> p)
      in io_bind (open_w output_path') (\<lambda>f.
         io_bind (file_write f full_html) (\<lambda>_.
         io_bind (logger_log INFO
                    (''Successfully converted '' @ pdf_path @ '' to '' @ output_path')) (\<lambda>_.
         ret output_path'))))))"

definition convert_pdf_to_html :: "converter \<Rightarrow> pyenv \<Rightarrow> libs \<Rightarrow> string \<Rightarrow> string option \<Rightarrow> string io" where
  "convert_pdf_to_html self E L pdf_path output_path w =
     (if \<not> os_path_exists w pdf_path
      then raise (FileNotFoundError (''PDF file not found: '' @ pdf_path)) w
      else try_except (convert_body self E L pdf_path output_path)
             (\<lambda>e. io_bind (logger_log ERROR (''Error converting PDF to HTML: '' @ str_exn e))
                     (\<lambda>_. raise e)) w)"

text \<open>The module-level convenience function of the same name: it builds a converter from
  the two flags and calls the method.\<close>

definition convert_pdf_to_html_fn :: "pyenv \<Rightarrow> libs \<Rightarrow> string \<Rightarrow> string option \<Rightarrow> bool \<Rightarrow> bool \<Rightarrow> string io" where
  "convert_pdf_to_html_fn E L pdf_path output_path ef pl =
     (let converter = init ef pl
      in convert_pdf_to_html converter E L pdf_path output_path)"

section \<open>The other conversion scripts\<close>

text \<open>Each script defines a function \<open>convert_pdf_to_html\<close>; the model prefixes the name
  with the script's.\<close>

subsection \<open>\<open>fritz_test.py\<close>\<close>

definition fritz_test_header :: string where
  \<open>fritz_test_header =
       ''\<newline>''
     @ ''<!DOCTYPE html>\<newline>''
     @ ''<html>\<newline>''
     @ ''<head>\<newline>''
     @ ''    <meta charset="utf-8">\<newline>''
     @ ''    <style>\<newline>''
     @ ''        body { font-family: Arial, sans-serif; }\<newline>''
     @ ''        .page { margin: 1em; padding: 1em; border-bottom: 1px solid #ddd; }\<newline>''
     @ ''        pre { white-space: pre-wrap; }\<newline>''
     @ ''        table { border-collapse: collapse; }\<newline>''
     @ ''        td, th { border: 1px solid #ddd; padding: 8px; }\<newline>''
     @ ''    </style>\<newline>''
     @ ''</head>\<newline>''
     @ ''<body>\<newline>''\<close>

text \<open>The loop \<open>for page_num, page in enumerate(doc, 1)\<close> over the pages still to come.\<close>

fun fritz_test_pages :: "string list \<Rightarrow> nat \<Rightarrow> (exn + page) list \<Rightarrow> string list io" where
  "fritz_test_pages html_content page_num [] = ret html_content"
| \<open>fritz_test_pages html_content page_num (loaded # rest) =
     io_bind (lift loaded) (\<lambda>page.
     (let html_content1 = html_content @ [''<div class="page" id="page-'' @ str_nat page_num @ ''">'']
      in io_bind (lift (get_text_html page)) (\<lambda>page_html.
         fritz_test_pages (html_content1 @ [page_html] @ [''</div>'']) (Suc page_num) rest)))\<close>

definition fritz_test_body :: "libs \<Rightarrow> string \<Rightarrow> string \<Rightarrow> unit io" where
  "fritz_test_body L pdf_path output_folder =
     io_bind (os_makedirs output_folder) (\<lambda>_.
     (let pdf_name = fst (os_path_splitext (os_path_basename pdf_path));
          output_path = os_path_join output_folder (pdf_name @ ''.html'');
          html_content = [fritz_test_header]
      in io_bind (fitz_open L pdf_path) (\<lambda>doc.
         io_bind (fritz_test_pages html_content 1 (doc_pages doc)) (\<lambda>html_content.
         (let html_content = html_content @ [''</body></html>'']
          in io_bind (open_w output_path) (\<lambda>html_file.
             io_bind (file_write html_file (join ''\<newline>'' html_content)) (\<lambda>_.
             print_out (''Successfully converted '' @ quoted pdf_path @ '' to ''
                        @ quoted output_path))))))))"

definition fritz_test_convert_pdf_to_html :: "libs \<Rightarrow> string \<Rightarrow> string \<Rightarrow> unit io" where
  "fritz_test_convert_pdf_to_html L pdf_path output_folder =
     try_except (fritz_test_body L pdf_path output_folder)
       (\<lambda>e. print_err (''An error occurred: '' @ str_exn e))"

subsection \<open>\<open>pdfplumber_test.py\<close>\<close>

definition pdfplumber_test_header :: string where
  \<open>pdfplumber_test_header =
       ''<!DOCTYPE html>\<newline>''
     @ ''<html>\<newline>''
     @ ''<head>\<newline>''
     @ ''<meta charset="utf-8">\<newline>''
     @ ''<title>PDF to HTML</title>\<newline>''
     @ ''<style>\<newline>''
     @ ''body { font-family: sans-serif; margin: 20px; }\<newline>''
     @ ''.page { margin-bottom: 20px; border: 1px solid #eee; padding: 15px; }\<newline>''
     @ ''.text-block { margin-bottom: 10px; }\<newline>''
     @ ''.image-container { text-align: center; margin: 10px 0; }\<newline>''
     @ ''img { max-width: 100%; height: auto; border: 1px solid #ddd; }\<newline>''
     @ ''</style>\<newline>''
     @ ''</head>\<newline>''
     @ ''<body>''\<close>

text \<open>The loop \<open>for i, page in enumerate(pdf.pages)\<close>; \<open>if text:\<close> holds for a string
  that is not empty.\<close>

fun pdfplumber_test_pages :: "string list \<Rightarrow> nat \<Rightarrow> plumber_page list \<Rightarrow> string list io" where
  "pdfplumber_test_pages html_content i [] = ret html_content"
| \<open>pdfplumber_test_pages html_content i (page # rest) =
     (let html_content1 = html_content
            @ [''<div class="page" id="page-'' @ str_nat (i + 1) @ ''">'']
            @ [''<h2>Page '' @ str_nat (i + 1) @ ''</h2>'']
      in io_bind (lift (extract_text page)) (\<lambda>text.
         (let html_content2 =
                (case text of
                   None \<Rightarrow> html_content1
                 | Some t \<Rightarrow>
                     if t \<noteq> [] then
                       html_content1 @ [''<div class="text-block">'']
                         @ [''<pre>'' @ t @ ''</pre>''] @ [''</div>'']
                     else html_content1)
          in pdfplumber_test_pages (html_content2 @ [''</div>'']) (Suc i) rest)))\<close>

definition pdfplumber_test_body :: "libs \<Rightarrow> string \<Rightarrow> string \<Rightarrow> string option io" where
  "pdfplumber_test_body L pdf_path output_folder =
     io_bind (os_makedirs output_folder) (\<lambda>_.
     (let pdf_name = fst (os_path_splitext (os_path_basename pdf_path));
          output_path = os_path_join output_folder (pdf_name @ ''.html'');
          html_content = [pdfplumber_test_header]
      in io_bind (pdfplumber_open L pdf_path) (\<lambda>pdf.
         io_bind (pdfplumber_test_pages html_content 0 pdf) (\<lambda>html_content.
         (let html_content = html_content @ [''</body>\<newline></html>'']
          in io_bind (open_w output_path) (\<lambda>f.
             io_bind (file_write f (join ''\<newline>'' html_content)) (\<lambda>_.
             ret (Some output_path))))))))"

definition pdfplumber_test_convert_pdf_to_html :: "libs \<Rightarrow> string \<Rightarrow> string \<Rightarrow> string option io" where
  "pdfplumber_test_convert_pdf_to_html L pdf_path output_folder =
     try_except (pdfplumber_test_body L pdf_path output_folder)
       (\<lambda>e. io_bind (print_out (''Error converting PDF: '' @ str_exn e)) (\<lambda>_. ret None))"

subsection \<open>\<open>new.py\<close>\<close>

text \<open>The loop \<open>for page in doc: html_content += page.get_text("html")\<close>.\<close>

fun new_pages :: "string \<Rightarrow> (exn + page) list \<Rightarrow> string io" where
  "new_pages html_content [] = ret html_content"
| "new_pages html_content (loaded # rest) =
     io_bind (lift loaded) (\<lambda>page.
     io_bind (lift (get_text_html page)) (\<lambda>page_html.
     new_pages (html_content @ page_html) rest))"

definition new_body :: "libs \<Rightarrow> string \<Rightarrow> string \<Rightarrow> string io" where
  "new_body L pdf_path output_path =
     io_bind (fitz_open L pdf_path) (\<lambda>doc.
     io_bind (new_pages [] (doc_pages doc)) (\<lambda>html_content.
     io_bind (open_w output_path) (\<lambda>f.
     io_bind (file_write f (''<html><body>'' @ html_content @ ''</body></html>'')) (\<lambda>_.
     ret output_path))))"

definition new_convert_pdf_to_html :: "libs \<Rightarrow> string \<Rightarrow> string \<Rightarrow> string io" where
  "new_convert_pdf_to_html L pdf_path output_path =
     try_except (new_body L pdf_path output_path)
       (\<lambda>e. raise (ValueError (''Conversion failed: '' @ str_exn e)))"

subsection \<open>\<open>pdfminer_test.py\<close>\<close>

definition pdfminer_test_body :: "libs \<Rightarrow> string \<Rightarrow> string \<Rightarrow> unit io" where
  "pdfminer_test_body L pdf_path output_folder =
     io_bind (os_makedirs output_folder) (\<lambda>_.
     (let pdf_name = fst (os_path_splitext (os_path_basename pdf_path));
          output_path = os_path_join output_folder (pdf_name @ ''.html'')
      in io_bind (open_with (pdfminer_html L) pdf_path) (\<lambda>output_string.
         io_bind (open_w output_path) (\<lambda>fout.
         io_bind (file_write fout output_string) (\<lambda>_.
         print_out (''Successfully converted '' @ quoted pdf_path @ '' to ''
                    @ quoted output_path))))))"

definition pdfminer_test_convert_pdf_to_html :: "libs \<Rightarrow> string \<Rightarrow> string \<Rightarrow> unit io" where
  "pdfminer_test_convert_pdf_to_html L pdf_path output_folder =
     try_except (pdfminer_test_body L pdf_path output_folder)
       (\<lambda>e. io_bind (print_err (''An error occurred: '' @ str_exn e)) (\<lambda>_. raise e))"

subsection \<open>\<open>poppdf_test.py\<close>\<close>

definition poppdf_test_html_template :: string where
  \<open>poppdf_test_html_template =
       ''\<newline>''
     @ ''<!DOCTYPE html>\<newline>''
     @ ''<html>\<newline>''
     @ ''<head>\<newline>''
     @ ''    <meta charset="utf-8">\<newline>''
     @ ''    <style>\<newline>''
     @ ''        body { font-family: Arial, sans-serif; line-height: 1.6; }\<newline>''
     @ ''        div { margin-bottom: 1em; }\<newline>''
     @ ''        table { border-collapse: collapse; width: 100%; }\<newline>''
     @ ''        td, th { border: 1px solid #ddd; padding: 8px; }\<newline>''
     @ ''        pre { white-space: pre-wrap; }\<newline>''
     @ ''    </style>\<newline>''
     @ ''</head>\<newline>''
     @ ''<body>\<newline>''
     @ ''{}\<newline>''
     @ ''</body>\<newline>''
     @ ''</html>\<newline>''\<close>

text \<open>
  \<open>template.format(arg)\<close> with one positional argument and no keyword argument.  Outside a
  replacement field (\<open>field = None\<close>) a doubled brace is a literal brace and a single
  \<open>{\<close> opens a field; inside one (\<open>field = Some f\<close>, \<open>f\<close> the text read so far) the
  field ends at \<open>}\<close>.  Its name is the text before the first \<open>:\<close> or \<open>!\<close>: an empty name
  or \<open>0\<close> selects the argument, another number is out of range, any other name is looked
  up among the keyword arguments and is missing.  Conversions and format specifications
  are not applied, nested fields and the mixing of automatic and explicit numbering are
  not examined: the template of the script does not get that far.
\<close>

datatype format_error = FormatValueError string | FormatIndexError string | FormatKeyError string

fun str_format :: "string \<Rightarrow> string option \<Rightarrow> string \<Rightarrow> format_error + string" where
  "str_format arg None [] = Inr []"
| "str_format arg (Some f) [] = Inl (FormatValueError ''expected } before end of string'')"
| "str_format arg None (c # cs) =
     (if c = CHR ''{'' then
        (case cs of
           d # ds \<Rightarrow>
             if d = CHR ''{'' then
               (case str_format arg None ds of Inl e \<Rightarrow> Inl e | Inr r \<Rightarrow> Inr (CHR ''{'' # r))
             else str_format arg (Some []) cs
         | [] \<Rightarrow> str_format arg (Some []) cs)
      else if c = CHR ''}'' then
        (case cs of
           d # ds \<Rightarrow>
             if d = CHR ''}'' then
               (case str_format arg None ds of Inl e \<Rightarrow> Inl e | Inr r \<Rightarrow> Inr (CHR ''}'' # r))
             else Inl (FormatValueError ''Single } encountered in format string'')
         | [] \<Rightarrow> Inl (FormatValueError ''Single } encountered in format string''))
      else (case str_format arg None cs of Inl e \<Rightarrow> Inl e | Inr r \<Rightarrow> Inr (c # r)))"
| "str_format arg (Some f) (c # cs) =
     (if c = CHR ''}'' then
        (let name = takeWhile (\<lambda>x. x \<noteq> CHR '':'' \<and> x \<noteq> CHR ''!'') f
         in if name = [] \<or> name = ''0'' then
              (case str_format arg None cs of Inl e \<Rightarrow> Inl e | Inr r \<Rightarrow> Inr (arg @ r))
            else if filter (\<lambda>x. x \<notin> set ''0123456789'') name = [] then
              Inl (FormatIndexError ''Replacement index out of range for positional args tuple'')
            else Inl (FormatKeyError name))
      else str_format arg (Some (f @ [c])) cs)"

fun exn_of_format_error :: "format_error \<Rightarrow> exn" where
  "exn_of_format_error (FormatValueError m) = ValueError m"
| "exn_of_format_error (FormatIndexError m) = IndexError m"
| "exn_of_format_error (FormatKeyError k) = KeyError k"

definition format_template :: "string \<Rightarrow> string \<Rightarrow> string io" where
  "format_template template arg =
     lift (case str_format arg None template of
             Inl e \<Rightarrow> Inl (exn_of_format_error e) | Inr r \<Rightarrow> Inr r)"

definition poppdf_test_body :: "libs \<Rightarrow> string \<Rightarrow> string \<Rightarrow> unit io" where
  "poppdf_test_body L pdf_path output_folder =
     io_bind (os_makedirs output_folder) (\<lambda>_.
     (let pdf_name = fst (os_path_splitext (os_path_basename pdf_path));
          output_path = os_path_join output_folder (pdf_name @ ''.html'')
      in io_bind (open_with (pdfminer_html_la L) pdf_path) (\<lambda>output_string.
         io_bind (open_w output_path) (\<lambda>fout.
         (let content = output_string
          in io_bind (format_template poppdf_test_html_template content) (\<lambda>formatted.
             io_bind (file_write fout formatted) (\<lambda>_.
             print_out (''Successfully converted '' @ quoted pdf_path @ '' to ''
                        @ quoted output_path))))))))"

definition poppdf_test_convert_pdf_to_html :: "libs \<Rightarrow> string \<Rightarrow> string \<Rightarrow> unit io" where
  "poppdf_test_convert_pdf_to_html L pdf_path output_folder =
     try_except (poppdf_test_body L pdf_path output_folder)
       (\<lambda>e. io_bind (print_err (''An error occurred: '' @ str_exn e)) (\<lambda>_. raise e))"

subsection \<open>\<open>pdf2htmlEX.py\<close>\<close>

text \<open>\<open>pypdf2htmlEX.PDF(pdf_path).to_html()\<close> is taken to read the file at the path, as the
  other libraries do.\<close>

definition pdf2htmlEX_body :: "libs \<Rightarrow> string \<Rightarrow> string option \<Rightarrow> string io" where
  "pdf2htmlEX_body L pdf_path output_path =
     io_bind (open_with (pdf2htmlEX_html L) pdf_path) (\<lambda>html.
     (case output_path of
        None \<Rightarrow> ret html
      | Some p \<Rightarrow>
          if p \<noteq> [] then
            io_bind (open_w p) (\<lambda>f.
            io_bind (file_write f html) (\<lambda>_. ret html))
          else ret html))"

definition pdf2htmlEX_convert_pdf_to_html :: "libs \<Rightarrow> string \<Rightarrow> string option \<Rightarrow> string io" where
  "pdf2htmlEX_convert_pdf_to_html L pdf_path output_path =
     try_except (pdf2htmlEX_body L pdf_path output_path)
       (\<lambda>e. raise (ValueError (''Conversion failed: '' @ str_exn e)))"

section \<open>Example inputs\<close>

definition env0 :: pyenv where
  "env0 = \<lparr> float_format = (\<lambda>r. if r = 21 / 2 then ''10.5'' else ''0.0''),
             path_stem = (\<lambda>p. fst (os_path_splitext (os_path_basename p))) \<rparr>"

definition demo_font :: font_info where
  "demo_font = \<lparr> fi_font = ''Helvetica-Bold'', fi_size = PyFloat (21 / 2),
                  fi_color = 0xFF0000, fi_bold = True, fi_italic = False \<rparr>"

definition demo_span :: raw_span where
  "demo_span = \<lparr> rs_font = Some ''Times-BoldItalic'', rs_size = Some (PyFloat (21 / 2)),
                  rs_color = Some 255, rs_text = Some ''a<b'', rs_bbox = None \<rparr>"

definition demo_block :: raw_block where
  "demo_block = \<lparr> rb_bbox = [], rb_lines = Some [\<lparr> rl_bbox = [], rl_spans = [demo_span] \<rparr>] \<rparr>"

text \<open>A text block as \<open>_extract_text_blocks\<close> builds it: a line of two spans, the second in
  the default size and colour, and a line without spans.\<close>

definition demo_text_block :: block_data where
  "demo_text_block =
     \<lparr> bd_type = ''text'', bd_bbox = [],
       bd_lines =
         [\<lparr> ld_bbox = [],
            ld_spans =
              [\<lparr> sd_text = ''a<b'', sd_bbox = [], sd_font_info = demo_font \<rparr>,
               \<lparr> sd_text = ''c'', sd_bbox = [],
                 sd_font_info = \<lparr> fi_font = ''Times'', fi_size = PyInt 12, fi_color = 0,
                                   fi_bold = False, fi_italic = False \<rparr> \<rparr>] \<rparr>,
          \<lparr> ld_bbox = [], ld_spans = [] \<rparr>] \<rparr>"

definition demo_pixmap :: pixmap where
  "demo_pixmap = \<lparr> pix_n = 3, pix_alpha = 0, pix_width = 2, pix_height = 1,
                    tobytes_png = Inr [0x4d, 0x61, 0x6e], to_rgb_jpeg = Inr [] \<rparr>"

text \<open>A page with one text block, two images of which the second cannot be read, and
  drawings that cannot be read.\<close>

definition demo_page :: page where
  "demo_page =
     \<lparr> rect_width = PyFloat 595, rect_height = PyFloat 842,
       get_text_dict = Inr [demo_block],
       get_text_html = Inr ''<p>a&lt;b</p>'',
       get_images = Inr [7, 9],
       new_pixmap = (\<lambda>xref. if xref = 7 then Inr demo_pixmap
                              else Inl (RuntimeError ''bad image'')),
       get_image_rects = (\<lambda>xref. Inr []),
       get_drawings = Inl (RuntimeError ''no drawings'') \<rparr>"

definition demo_doc :: document where
  "demo_doc = \<lparr> doc_pages = [Inr demo_page], doc_metadata = [] \<rparr>"

text \<open>A one-page document whose text is an HTML tag.\<close>

definition tag_text :: string where
  \<open>tag_text = ''<div class="page" id="page-2">''\<close>

definition libs0 :: libs where
  "libs0 =
     \<lparr> fitz_parse = (\<lambda>data. if data = ''%PDF-demo'' then Inr demo_doc
                              else Inl (RuntimeError ''cannot open broken document'')),
       plumber_parse = (\<lambda>data. Inr [\<lparr> extract_text = Inr (Some tag_text) \<rparr>]),
       pdfminer_html = (\<lambda>data. Inr ''<html></html>''),
       pdfminer_html_la = (\<lambda>data. Inr ''<html></html>''),
       pdf2htmlEX_html = (\<lambda>data. Inr ''<html></html>'') \<rparr>"

definition world0 :: world where
  "world0 =
     \<lparr> fs_files = [''pdf/a.pdf'' \<mapsto> ''%PDF-demo''],
       fs_dirs = {''pdf''}, fs_readonly = {},
       logged = [], stdout = [], stderr = [] \<rparr>"


section \<open>What a conversion computes, without the world\<close>

text \<open>
  The images \<open>_extract_images\<close> keeps, and the warnings it logs, for the entries
  \<open>xrefs\<close> of \<open>page.get_images()\<close> numbered from \<open>k\<close>: an entry whose extraction raises
  gives a warning and no image.
\<close>

definition kept_images :: "page \<Rightarrow> nat \<Rightarrow> nat \<Rightarrow> int list \<Rightarrow> image_info list" where
  "kept_images page page_num k xrefs =
     List.map_filter
       (\<lambda>(i, xref). case extract_image page page_num i xref of
                       Inl e \<Rightarrow> None | Inr info \<Rightarrow> Some info)
       (List.enumerate k xrefs)"

definition image_warnings :: "page \<Rightarrow> nat \<Rightarrow> nat \<Rightarrow> int list \<Rightarrow> (level \<times> string) list" where
  "image_warnings page page_num k xrefs =
     List.map_filter
       (\<lambda>(i, xref). case extract_image page page_num i xref of
                       Inl e \<Rightarrow> Some (WARNING, image_warning i page_num e) | Inr info \<Rightarrow> None)
       (List.enumerate k xrefs)"

definition kept_drawings :: "page \<Rightarrow> drawing_info list" where
  "kept_drawings page =
     (case get_drawings page of Inl e \<Rightarrow> [] | Inr paths \<Rightarrow> map drawing_of paths)"

definition drawing_warnings :: "page \<Rightarrow> (level \<times> string) list" where
  "drawing_warnings page =
     (case get_drawings page of
        Inl e \<Rightarrow> [(WARNING, ''Could not extract drawings: '' @ str_exn e)]
      | Inr paths \<Rightarrow> [])"

text \<open>The exception that ends the extraction of a page, if any: only \<open>get_text\<close> and
  \<open>get_images\<close> can.\<close>

definition page_failure :: "page \<Rightarrow> exn option" where
  "page_failure page =
     (case get_text_dict page of
        Inl e \<Rightarrow> Some e
      | Inr blocks \<Rightarrow> (case get_images page of Inl e \<Rightarrow> Some e | Inr xrefs \<Rightarrow> None))"

definition page_content_of :: "page \<Rightarrow> nat \<Rightarrow> page_content" where
  "page_content_of page page_num =
     \<lparr> pc_page_num = page_num,
       pc_dimensions = (rect_width page, rect_height page),
       pc_text_blocks = (case get_text_dict page of Inl e \<Rightarrow> [] | Inr blocks \<Rightarrow> extract_blocks blocks),
       pc_images = (case get_images page of
                      Inl e \<Rightarrow> [] | Inr xrefs \<Rightarrow> kept_images page page_num 0 xrefs),
       pc_drawings = kept_drawings page \<rparr>"

definition page_log :: "page \<Rightarrow> nat \<Rightarrow> (level \<times> string) list" where
  "page_log page page_num =
     (case get_images page of
        Inl e \<Rightarrow> [] | Inr xrefs \<Rightarrow> image_warnings page page_num 0 xrefs)
     @ drawing_warnings page"

text \<open>The first exception that ends the extraction of a document: a page that cannot be
  loaded, or a page failure.\<close>

fun first_failure :: "(exn + page) list \<Rightarrow> exn option" where
  "first_failure [] = None"
| "first_failure (Inl e # rest) = Some e"
| "first_failure (Inr page # rest) =
     (case page_failure page of Some e \<Rightarrow> Some e | None \<Rightarrow> first_failure rest)"

text \<open>The page records, and the warnings, of the pages before the first failure.\<close>

fun contents_of :: "nat \<Rightarrow> (exn + page) list \<Rightarrow> page_content list" where
  "contents_of page_num [] = []"
| "contents_of page_num (Inl e # rest) = []"
| "contents_of page_num (Inr page # rest) =
     (case page_failure page of
        Some e \<Rightarrow> []
      | None \<Rightarrow> page_content_of page page_num # contents_of (Suc page_num) rest)"

fun warnings_of :: "nat \<Rightarrow> (exn + page) list \<Rightarrow> (level \<times> string) list" where
  "warnings_of page_num [] = []"
| "warnings_of page_num (Inl e # rest) = []"
| "warnings_of page_num (Inr page # rest) =
     (case page_failure page of
        Some e \<Rightarrow> []
      | None \<Rightarrow> page_log page page_num @ warnings_of (Suc page_num) rest)"

definition content_of :: "document \<Rightarrow> content" where
  "content_of doc =
     \<lparr> c_pages = contents_of 0 (doc_pages doc), c_images = [], c_fonts = {},
       c_metadata = doc_metadata doc \<rparr>"

text \<open>The output path of the class's conversion.\<close>

definition output_path_of :: "pyenv \<Rightarrow> string \<Rightarrow> string option \<Rightarrow> string" where
  "output_path_of E pdf_path output_path =
     (case output_path of None \<Rightarrow> path_stem E pdf_path @ ''.html'' | Some p \<Rightarrow> p)"

text \<open>
  The outcome of \<open>PDFToHTMLConverter.convert_pdf_to_html\<close> as the failure policy
  describes it: the missing file, then the exceptions of opening the document, of the
  extraction and of opening the output file, in this order.
\<close>

definition conversion_result :: "pyenv \<Rightarrow> libs \<Rightarrow> string \<Rightarrow> string option \<Rightarrow> world \<Rightarrow> exn + string" where
  "conversion_result E L pdf_path output_path w =
     (if \<not> os_path_exists w pdf_path
      then Inl (FileNotFoundError (''PDF file not found: '' @ pdf_path))
      else case fst (fitz_open L pdf_path w) of
        Inl e \<Rightarrow> Inl e
      | Inr doc \<Rightarrow>
         (case first_failure (doc_pages doc) of
            Some e \<Rightarrow> Inl e
          | None \<Rightarrow>
             (case fst (open_w (output_path_of E pdf_path output_path) w) of
                Inl e \<Rightarrow> Inl e
              | Inr f \<Rightarrow> Inr (output_path_of E pdf_path output_path))))"

text \<open>
  The styling policy.  Two characters are the same letter when they are equal or the
  first is the upper-case form of the second; a sub-word of \<open>name\<close> reads \<open>word\<close>,
  ignoring case, when it has the letters of \<open>word\<close> (given in lower case) one by one.
\<close>

definition same_letter :: "char \<Rightarrow> char \<Rightarrow> bool" where
  "same_letter a b \<longleftrightarrow>
     a = b \<or> (a, b) \<in> set (zip ''ABCDEFGHIJKLMNOPQRSTUVWXYZ'' ''abcdefghijklmnopqrstuvwxyz'')"

definition occurs_ignoring_case :: "string \<Rightarrow> string \<Rightarrow> bool" where
  "occurs_ignoring_case word name \<longleftrightarrow>
     (\<exists>pre mid post. name = pre @ mid @ post \<and> list_all2 same_letter mid word)"

text \<open>
  The HTML of a text block whose lines are given as lists of spans, \<open>element\<close> being the
  element of one span: the opening \<open>div\<close>, one row for each line that has spans, which
  holds the elements of its spans in order, and the closing \<open>div\<close>, joined by newlines.
\<close>

definition text_block_with :: "('s \<Rightarrow> string) \<Rightarrow> 's list list \<Rightarrow> string" where
  \<open>text_block_with element lines =
     join ''\<newline>''
       ([''<div class="text-block">'']
        @ map (\<lambda>spans. concat (map element spans)) (filter (\<lambda>spans. spans \<noteq> []) lines)
        @ [''</div>''])\<close>

section \<open>What the other scripts write\<close>

text \<open>The HTML of the pages of a document, in order, or the first exception of loading a
  page or of \<open>page.get_text("html")\<close>.\<close>

fun page_htmls :: "(exn + page) list \<Rightarrow> exn + string list" where
  "page_htmls [] = Inr []"
| "page_htmls (Inl e # rest) = Inl e"
| "page_htmls (Inr page # rest) =
     (case get_text_html page of
        Inl e \<Rightarrow> Inl e
      | Inr h \<Rightarrow> (case page_htmls rest of Inl e \<Rightarrow> Inl e | Inr hs \<Rightarrow> Inr (h # hs)))"

text \<open>The texts of the pages that \<open>pdfplumber\<close> extracts, or the first exception.\<close>

fun page_texts :: "plumber_page list \<Rightarrow> exn + string option list" where
  "page_texts [] = Inr []"
| "page_texts (page # rest) =
     (case extract_text page of
        Inl e \<Rightarrow> Inl e
      | Inr t \<Rightarrow> (case page_texts rest of Inl e \<Rightarrow> Inl e | Inr ts \<Rightarrow> Inr (t # ts)))"

text \<open>The lines a page contributes in \<open>fritz_test.py\<close> and in \<open>pdfplumber_test.py\<close>; the
  number is the one in the \<open>id\<close> attribute.\<close>

definition fritz_test_block :: "nat \<Rightarrow> string \<Rightarrow> string list" where
  \<open>fritz_test_block k page_html =
     [''<div class="page" id="page-'' @ str_nat k @ ''">'', page_html, ''</div>'']\<close>

definition pdfplumber_test_block :: "nat \<Rightarrow> string option \<Rightarrow> string list" where
  \<open>pdfplumber_test_block k text =
     [''<div class="page" id="page-'' @ str_nat k @ ''">'', ''<h2>Page '' @ str_nat k @ ''</h2>'']
     @ (case text of
          None \<Rightarrow> []
        | Some t \<Rightarrow> if t \<noteq> [] then [''<div class="text-block">'', ''<pre>'' @ t @ ''</pre>'', ''</div>'']
                    else [])
     @ [''</div>'']\<close>

text \<open>The blocks of the pages numbered from \<open>k\<close>.\<close>

fun blocks_from :: "(nat \<Rightarrow> 'a \<Rightarrow> string list) \<Rightarrow> nat \<Rightarrow> 'a list \<Rightarrow> string list" where
  "blocks_from block k [] = []"
| "blocks_from block k (x # xs) = block k x @ blocks_from block (Suc k) xs"

definition fritz_test_document :: "string list \<Rightarrow> string" where
  "fritz_test_document hs =
     join ''\<newline>'' ([fritz_test_header] @ blocks_from fritz_test_block 1 hs
                      @ [''</body></html>''])"

definition pdfplumber_test_document :: "string option list \<Rightarrow> string" where
  "pdfplumber_test_document texts =
     join ''\<newline>'' ([pdfplumber_test_header] @ blocks_from pdfplumber_test_block 1 texts
                      @ [''</body>\<newline></html>''])"

definition new_document :: "string list \<Rightarrow> string" where
  "new_document hs = ''<html><body>'' @ concat hs @ ''</body></html>''"

text \<open>The output path of the scripts that take an output folder.\<close>

definition folder_output_path :: "string \<Rightarrow> string \<Rightarrow> string" where
  "folder_output_path pdf_path output_folder =
     os_path_join output_folder (fst (os_path_splitext (os_path_basename pdf_path)) @ ''.html'')"

text \<open>The number of places of \<open>s\<close> at which \<open>sub\<close> starts.\<close>

primrec count_occurrences :: "string \<Rightarrow> string \<Rightarrow> nat" where
  "count_occurrences sub [] = 0"
| "count_occurrences sub (c # s) =
     (if prefix sub (c # s) then 1 else 0) + count_occurrences sub s"

text \<open>
  The block of one page in the documents of the three scripts that write one: the
  opening tag with the page number, the page-number marker, the text and the images of
  the page, the closing tag.  In \<open>fritz_test.py\<close> and \<open>pdfplumber_test.py\<close> the block starts
  with the newline that separates it from what precedes.
\<close>

definition class_page_block :: "converter \<Rightarrow> pyenv \<Rightarrow> page_content \<Rightarrow> string" where
  \<open>class_page_block self E page_data =
     ''        <div class="pdf-page" id="page-'' @ str_nat (pc_page_num page_data + 1) @ ''">\<newline>''
     @ ''            <div class="page-number">Page '' @ str_nat (pc_page_num page_data + 1) @ ''</div>''
     @ concat (map (\<lambda>block. ''\<newline>            '' @ generate_text_block_html self E block)
                 (filter (\<lambda>block. bd_type block = ''text'') (pc_text_blocks page_data)))
     @ concat (map (\<lambda>img. ''\<newline>            '' @ generate_image_html self img)
                 (pc_images page_data))
     @ ''\<newline>        </div>''\<close>

definition fritz_test_page_block :: "nat \<times> string \<Rightarrow> string" where
  \<open>fritz_test_page_block = (\<lambda>(k, page_html).
     ''\<newline><div class="page" id="page-'' @ str_nat k @ ''">\<newline>'' @ page_html @ ''\<newline></div>'')\<close>

definition pdfplumber_test_page_block :: "nat \<times> string option \<Rightarrow> string" where
  \<open>pdfplumber_test_page_block = (\<lambda>(k, text).
     ''\<newline><div class="page" id="page-'' @ str_nat k @ ''">\<newline><h2>Page '' @ str_nat k @ ''</h2>''
     @ (case text of
          None \<Rightarrow> []
        | Some t \<Rightarrow> if t \<noteq> [] then ''\<newline><div class="text-block">\<newline><pre>'' @ t @ ''</pre>\<newline></div>''
                    else [])
     @ ''\<newline></div>'')\<close>


text \<open>
  The text with which the class opens a page container, and two properties of a piece
  \<open>s\<close> of a document with respect to it: \<open>quiet\<close>, no occurrence of the text starts in
  \<open>s\<close>, whatever follows; \<open>loud\<close>, exactly one does.
\<close>

definition page_marker :: string where
  \<open>page_marker = ''<div class="pdf-page" id="page-''\<close>

definition quiet :: "string \<Rightarrow> bool" where
  "quiet s \<longleftrightarrow> (\<forall>rest. count_occurrences page_marker (s @ rest) = count_occurrences page_marker rest)"

definition loud :: "string \<Rightarrow> bool" where
  "loud s \<longleftrightarrow> (\<forall>rest. count_occurrences page_marker (s @ rest) = 1 + count_occurrences page_marker rest)"

section \<open>Facts about the built-ins\<close>

lemma py_in_sublist: "py_in sub s \<longleftrightarrow> sublist sub s"
  by (induction s) (simp_all add: sublist_Cons_right)

lemma lower_append: "lower (xs @ ys) = lower xs @ lower ys"
  by (simp add: lower_def)

lemma distinct_uppercase: "distinct ascii_uppercase"
  unfolding ascii_uppercase_def by simp

lemma upper_lower_disjoint: "set ascii_uppercase \<inter> set ascii_lowercase = {}"
  unfolding ascii_uppercase_def ascii_lowercase_def by simp

lemma length_upper_lower: "length ascii_uppercase = length ascii_lowercase"
  unfolding ascii_uppercase_def ascii_lowercase_def by simp

lemma lower_char_same_letter:
  assumes "b \<in> set ascii_lowercase"
  shows "lower_char a = b \<longleftrightarrow> a = b \<or> (a, b) \<in> set (zip ascii_uppercase ascii_lowercase)"
proof (cases "map_of (zip ascii_uppercase ascii_lowercase) a")
  case None
  then have "a \<notin> fst ` set (zip ascii_uppercase ascii_lowercase)"
    by (simp add: map_of_eq_None_iff)
  then have "(a, b) \<notin> set (zip ascii_uppercase ascii_lowercase)"
    by force
  with None show ?thesis by (simp add: lower_char_def)
next
  case (Some l)
  have d: "distinct (map fst (zip ascii_uppercase ascii_lowercase))"
    using distinct_uppercase length_upper_lower by simp
  from Some have m: "(a, l) \<in> set (zip ascii_uppercase ascii_lowercase)"
    by (rule map_of_SomeD)
  then have "a \<in> set ascii_uppercase" by (rule set_zip_leftD)
  with assms upper_lower_disjoint have ne: "a \<noteq> b" by blast
  have "(a, b) \<in> set (zip ascii_uppercase ascii_lowercase) \<longleftrightarrow> l = b"
    using d Some by (metis map_of_eq_Some_iff option.inject)
  with Some ne show ?thesis by (simp add: lower_char_def)
qed

lemma lower_same_letter:
  assumes "set word \<subseteq> set ascii_lowercase"
  shows "lower mid = word \<longleftrightarrow> list_all2 same_letter mid word"
proof -
  have "lower mid = word \<longleftrightarrow> list_all2 (\<lambda>a b. lower_char a = b) mid word"
    unfolding lower_def by (simp add: list_all2_conv_all_nth list_eq_iff_nth_eq)
  also have "\<dots> \<longleftrightarrow> list_all2 same_letter mid word"
  proof (rule list.rel_cong[OF refl refl])
    fix a b assume "a \<in> set mid" "b \<in> set word"
    then have "b \<in> set ascii_lowercase" using assms by blast
    then show "(lower_char a = b) = same_letter a b"
      unfolding same_letter_def
      using lower_char_same_letter[of b a]
      by (simp add: ascii_uppercase_def ascii_lowercase_def del: set_simps list.set zip_Cons_Cons)
  qed
  finally show ?thesis .
qed

lemma py_in_lower_ci:
  assumes "set word \<subseteq> set ascii_lowercase"
  shows "py_in word (lower name) \<longleftrightarrow> occurs_ignoring_case word name"
proof
  assume "py_in word (lower name)"
  then obtain ps ss where h: "map lower_char name = ps @ word @ ss"
    by (auto simp: py_in_sublist sublist_def lower_def)
  have "\<exists>us vs. name = us @ vs \<and> ps = map lower_char us \<and> word @ ss = map lower_char vs"
    using h by (simp only: map_eq_append_conv)
  then obtain pre rest where a: "name = pre @ rest" and b: "word @ ss = map lower_char rest"
    by blast
  have "\<exists>us vs. rest = us @ vs \<and> word = map lower_char us \<and> ss = map lower_char vs"
    using b by (simp only: append_eq_map_conv)
  then obtain mid post where c: "rest = mid @ post" and d: "lower mid = word"
    unfolding lower_def by blast
  from d have "list_all2 same_letter mid word"
    by (simp only: lower_same_letter[OF assms])
  with a c show "occurs_ignoring_case word name"
    unfolding occurs_ignoring_case_def by blast
next
  assume "occurs_ignoring_case word name"
  then obtain pre mid post where n: "name = pre @ mid @ post" and "list_all2 same_letter mid word"
    unfolding occurs_ignoring_case_def by blast
  then have "lower mid = word"
    by (simp only: lower_same_letter[OF assms])
  with n have "lower name = lower pre @ word @ lower post"
    by (simp add: lower_append)
  then show "py_in word (lower name)"
    unfolding py_in_sublist sublist_def by blast
qed

lemma bold_lowercase: "set ''bold'' \<subseteq> set ascii_lowercase"
  unfolding ascii_lowercase_def by simp

lemma italic_lowercase: "set ''italic'' \<subseteq> set ascii_lowercase"
  unfolding ascii_lowercase_def by simp

lemma digit_char_hex: "d < 16 \<Longrightarrow> digit_char d \<in> set ''0123456789abcdef''"
  unfolding digit_char_def by (rule nth_mem) simp

lemma hex_nat_chars: "set (hex_nat n) \<subseteq> set ''0123456789abcdef''"
proof (induction n rule: hex_nat.induct)
  case (1 n)
  show ?case
  proof (cases "n < 16")
    case True
    then show ?thesis using digit_char_hex[of n] by (subst hex_nat.simps) simp
  next
    case False
    have "n mod 16 < 16" by simp
    from digit_char_hex[OF this] 1[OF False] False show ?thesis
      by (subst hex_nat.simps) simp
  qed
qed

lemma hex_nat_length: "n < 16 ^ k \<Longrightarrow> 0 < k \<Longrightarrow> length (hex_nat n) \<le> k"
proof (induction n arbitrary: k rule: hex_nat.induct)
  case (1 n)
  show ?case
  proof (cases "n < 16")
    case True
    then show ?thesis using 1(3) by (subst hex_nat.simps) simp
  next
    case False
    then obtain j where k: "k = Suc j" using 1(3) by (cases k) auto
    with 1(2) False have j: "0 < j" by (cases j) auto
    from 1(2) k have "n div 16 < 16 ^ j"
      by (simp add: less_mult_imp_div_less mult.commute)
    from 1(1)[OF False this j] False k show ?thesis
      by (subst hex_nat.simps) simp
  qed
qed

lemma format_06x_packed:
  assumes "0 \<le> c" "c < 2 ^ 24"
  shows "length (format_06x c) = 6 \<and> set (format_06x c) \<subseteq> set ''0123456789abcdef''"
proof -
  have "nat c < 16 ^ 6" using assms by simp
  then have "length (hex_nat (nat c)) \<le> 6" by (rule hex_nat_length) simp
  moreover have "set (hex_nat (nat c)) \<subseteq> set ''0123456789abcdef''" by (rule hex_nat_chars)
  ultimately show ?thesis using assms(1)
    by (auto simp: format_06x_def zero_pad_def)
qed

lemma not_py_in: "c \<in> set sub \<Longrightarrow> c \<notin> set s \<Longrightarrow> \<not> py_in sub s"
  unfolding py_in_sublist using set_mono_sublist by fastforce

lemma py_in_mid: "py_in sub (pre @ sub @ post)"
  unfolding py_in_sublist sublist_def by blast

section \<open>Facts about the effects\<close>

lemma io_bind_ret [simp]: "io_bind (ret x) f w = f x w"
  by (simp add: io_bind_def ret_def)

lemma io_bind_lift_Inr [simp]: "io_bind (lift (Inr x)) f w = f x w"
  by (simp add: io_bind_def lift_def)

lemma io_bind_lift_Inl [simp]: "io_bind (lift (Inl e)) f w = (Inl e, w)"
  by (simp add: io_bind_def lift_def)

lemma io_bind_log [simp]:
  "io_bind (logger_log lvl msg) f w = f () (w\<lparr>logged := logged w @ [(lvl, msg)]\<rparr>)"
  by (simp add: io_bind_def logger_log_def)

lemma io_bind_eq_Inr: "m w = (Inr x, w') \<Longrightarrow> io_bind m f w = f x w'"
  by (simp add: io_bind_def)

lemma io_bind_eq_Inl: "m w = (Inl e, w') \<Longrightarrow> io_bind m f w = (Inl e, w')"
  by (simp add: io_bind_def)

lemma map_filter_Cons:
  "List.map_filter f (x # xs) = (case f x of None \<Rightarrow> List.map_filter f xs | Some y \<Rightarrow> y # List.map_filter f xs)"
  by (simp add: List.map_filter_def split: option.splits)

lemma images_loop_eq:
  "images_loop self page page_num images k xrefs w =
     (Inr (images @ kept_images page page_num k xrefs),
      w\<lparr>logged := logged w @ image_warnings page page_num k xrefs\<rparr>)"
proof (induction xrefs arbitrary: images k w)
  case Nil
  show ?case by (simp add: kept_images_def image_warnings_def ret_def List.map_filter_def)
next
  case (Cons x xs)
  show ?case
  proof (cases "extract_image page page_num k x")
    case (Inl e)
    then show ?thesis
      by (simp add: Cons.IH kept_images_def image_warnings_def map_filter_Cons)
  next
    case (Inr info)
    then show ?thesis
      by (simp add: Cons.IH kept_images_def image_warnings_def map_filter_Cons)
  qed
qed

lemma extract_images_eq:
  "extract_images self page page_num w =
     (case get_images page of
        Inl e \<Rightarrow> (Inl e, w)
      | Inr xrefs \<Rightarrow> (Inr (kept_images page page_num 0 xrefs),
                     w\<lparr>logged := logged w @ image_warnings page page_num 0 xrefs\<rparr>))"
  by (simp add: extract_images_def images_loop_eq split: sum.splits)

lemma extract_drawings_eq:
  "extract_drawings self page w =
     (Inr (kept_drawings page), w\<lparr>logged := logged w @ drawing_warnings page\<rparr>)"
  by (cases "get_drawings page")
     (simp_all add: extract_drawings_def try_except_def kept_drawings_def drawing_warnings_def ret_def)

lemma extract_text_blocks_eq:
  "extract_text_blocks self page w =
     (case get_text_dict page of Inl e \<Rightarrow> (Inl e, w) | Inr blocks \<Rightarrow> (Inr (extract_blocks blocks), w))"
  by (simp add: extract_text_blocks_def ret_def split: sum.splits)

lemma extract_page_content_eq:
  "extract_page_content self page page_num w =
     (case page_failure page of
        Some e \<Rightarrow> (Inl e, w)
      | None \<Rightarrow> (Inr (page_content_of page page_num),
                  w\<lparr>logged := logged w @ page_log page page_num\<rparr>))"
  by (simp add: extract_page_content_def page_failure_def page_content_of_def page_log_def
        io_bind_def extract_text_blocks_eq extract_images_eq extract_drawings_eq ret_def
      split: sum.splits)

lemma pages_loop_eq:
  "pages_loop self content page_num loaded w =
     (case first_failure loaded of
        Some e \<Rightarrow> Inl e
      | None \<Rightarrow> Inr (content\<lparr>c_pages := c_pages content @ contents_of page_num loaded\<rparr>),
      w\<lparr>logged := logged w @ warnings_of page_num loaded\<rparr>)"
proof (induction loaded arbitrary: content page_num w)
  case Nil
  show ?case by (simp add: ret_def)
next
  case (Cons l ls)
  show ?case
  proof (cases l)
    case (Inl e)
    then show ?thesis by simp
  next
    case (Inr page)
    then show ?thesis
      apply (cases "page_failure page")
       apply simp_all
       apply (simp_all add: io_bind_def extract_page_content_eq Cons.IH split: option.splits)
      done
  qed
qed

lemma open_with_world: "snd (open_with parse path w) = w"
  by (simp add: open_with_def io_bind_def read_bytes_def lift_def split: option.splits sum.splits)

lemma io_bind_open_with:
  "io_bind (open_with parse path) f w =
     (case fst (open_with parse path w) of Inl e \<Rightarrow> (Inl e, w) | Inr x \<Rightarrow> f x w)"
proof -
  have "open_with parse path w = (fst (open_with parse path w), w)"
    using open_with_world[of parse path w] by (metis prod.collapse)
  then show ?thesis
    by (cases "fst (open_with parse path w)") (simp_all add: io_bind_def)
qed

lemma open_with_missing:
  "fs_files w path = None \<Longrightarrow> \<exists>e. fst (open_with parse path w) = Inl e"
  by (simp add: open_with_def io_bind_def read_bytes_def)

lemma open_with_found:
  "fs_files w path = Some data \<Longrightarrow> path \<notin> fs_dirs w \<Longrightarrow> fst (open_with parse path w) = parse data"
  by (simp add: open_with_def io_bind_def read_bytes_def lift_def)

lemma io_bind_open_w_write:
  "io_bind (open_w path) (\<lambda>f. io_bind (file_write f data) g) w =
     (case fst (open_w path w) of
        Inl e \<Rightarrow> (Inl e, w)
      | Inr f \<Rightarrow> g () (w\<lparr>fs_files := (fs_files w)(path \<mapsto> data)\<rparr>))"
  by (simp add: io_bind_def open_w_def file_write_def dict_get_def)

lemma io_bind_extract_content:
  "io_bind (extract_content_from_pdf self doc) f w =
     (case first_failure (doc_pages doc) of
        Some e \<Rightarrow> (Inl e, w\<lparr>logged := logged w @ warnings_of 0 (doc_pages doc)\<rparr>)
      | None \<Rightarrow> f (content_of doc) (w\<lparr>logged := logged w @ warnings_of 0 (doc_pages doc)\<rparr>))"
  by (simp add: io_bind_def extract_content_from_pdf_def pages_loop_eq content_of_def
      split: option.splits)

lemma open_w_logged: "fst (open_w p (w\<lparr>logged := l\<rparr>)) = fst (open_w p w)"
  by (simp add: open_w_def)

lemma convert_body_eq:
  "convert_body self E L pdf_path output_path w =
     (case fst (fitz_open L pdf_path w) of
        Inl e \<Rightarrow> (Inl e, w)
      | Inr doc \<Rightarrow>
         (let w1 = w\<lparr>logged := logged w @ warnings_of 0 (doc_pages doc)\<rparr>;
              out = output_path_of E pdf_path output_path
          in case first_failure (doc_pages doc) of
               Some e \<Rightarrow> (Inl e, w1)
             | None \<Rightarrow>
                (case fst (open_w out w) of
                   Inl e \<Rightarrow> (Inl e, w1)
                 | Inr f \<Rightarrow>
                    (Inr out,
                     w1\<lparr>fs_files := (fs_files w)(out \<mapsto>
                            generate_complete_html self E (content_of doc) pdf_path),
                        logged := logged w1 @
                          [(INFO, ''Successfully converted '' @ pdf_path @ '' to '' @ out)]\<rparr>))))"
  by (simp add: convert_body_def fitz_open_def io_bind_open_with io_bind_extract_content
        io_bind_open_w_write output_path_of_def[symmetric] open_w_logged Let_def ret_def
      split: sum.splits option.splits)

lemma convert_pdf_to_html_eq:
  "convert_pdf_to_html self E L pdf_path output_path w =
     (if \<not> os_path_exists w pdf_path
      then (Inl (FileNotFoundError (''PDF file not found: '' @ pdf_path)), w)
      else case convert_body self E L pdf_path output_path w of
             (Inl e, w') \<Rightarrow>
               (Inl e, w'\<lparr>logged := logged w' @
                           [(ERROR, ''Error converting PDF to HTML: '' @ str_exn e)]\<rparr>)
           | (Inr p, w') \<Rightarrow> (Inr p, w'))"
  by (simp add: convert_pdf_to_html_def try_except_def raise_def split: prod.splits sum.splits)

lemma convert_pdf_to_html_result:
  "fst (convert_pdf_to_html self E L pdf_path output_path w) =
     conversion_result E L pdf_path output_path w"
  by (auto simp: convert_pdf_to_html_eq convert_body_eq conversion_result_def Let_def
      split: sum.splits option.splits)

lemma demo_open: "fst (fitz_open libs0 ''pdf/a.pdf'' world0) = Inr demo_doc"
  by (simp add: fitz_open_def open_with_def io_bind_def read_bytes_def lift_def world0_def libs0_def)

lemma demo_first_failure: "first_failure (doc_pages demo_doc) = None"
  by (simp add: demo_doc_def demo_page_def page_failure_def)

lemma generate_text_block_html_self:
  "generate_text_block_html self = generate_text_block_html (init True True)"
  by (intro ext) (simp add: generate_text_block_html_def)

lemma generate_image_html_self:
  "generate_image_html self = generate_image_html (init True True)"
  by (intro ext) (simp add: generate_image_html_def)

lemma generate_page_html_self:
  "generate_page_html self = generate_page_html (init True True)"
  by (intro ext)
     (simp add: generate_page_html_def generate_text_block_html_self[of self]
        generate_image_html_self[of self])

lemma generate_body_html_self:
  "generate_body_html self = generate_body_html (init True True)"
  by (intro ext) (simp add: generate_body_html_def generate_page_html_self[of self])

lemma generate_css_self: "generate_css self = generate_css (init True True)"
  by (intro ext) (simp only: generate_css_def)

lemma generate_complete_html_self:
  "generate_complete_html self = generate_complete_html (init True True)"
  by (intro ext)
     (simp only: generate_complete_html_def generate_body_html_self[of self]
        generate_css_self[of self])

lemma convert_pdf_to_html_self:
  "convert_pdf_to_html self E L pdf_path output_path w =
   convert_pdf_to_html self' E L pdf_path output_path w"
  by (simp add: convert_pdf_to_html_eq convert_body_eq Let_def
        generate_complete_html_self[of self] generate_complete_html_self[of self']
      cong: sum.case_cong option.case_cong)

section \<open>Facts about the other scripts and about the documents\<close>

lemma fritz_test_pages_eq:
  "fritz_test_pages html_content k loaded w =
     (case page_htmls loaded of
        Inl e \<Rightarrow> Inl e
      | Inr hs \<Rightarrow> Inr (html_content @ blocks_from fritz_test_block k hs), w)"
proof (induction loaded arbitrary: html_content k)
  case Nil
  show ?case by (simp add: ret_def)
next
  case (Cons l ls)
  show ?case
  proof (cases l)
    case (Inl e)
    then show ?thesis by simp
  next
    case (Inr page)
    then show ?thesis
      by (cases "get_text_html page")
         (simp_all add: Let_def Cons.IH fritz_test_block_def split: sum.splits)
  qed
qed

lemma pdfplumber_test_pages_eq:
  "pdfplumber_test_pages html_content i pages w =
     (case page_texts pages of
        Inl e \<Rightarrow> Inl e
      | Inr ts \<Rightarrow> Inr (html_content @ blocks_from pdfplumber_test_block (Suc i) ts), w)"
proof (induction pages arbitrary: html_content i)
  case Nil
  show ?case by (simp add: ret_def)
next
  case (Cons p ps)
  show ?case
    by (cases "extract_text p")
       (simp_all add: Let_def Cons.IH pdfplumber_test_block_def split: sum.splits option.splits)
qed

lemma new_pages_eq:
  "new_pages html_content loaded w =
     (case page_htmls loaded of
        Inl e \<Rightarrow> Inl e
      | Inr hs \<Rightarrow> Inr (html_content @ concat hs), w)"
proof (induction loaded arbitrary: html_content)
  case Nil
  show ?case by (simp add: ret_def)
next
  case (Cons l ls)
  show ?case
  proof (cases l)
    case (Inl e)
    then show ?thesis by simp
  next
    case (Inr page)
    then show ?thesis
      by (cases "get_text_html page") (simp_all add: Cons.IH split: sum.splits)
  qed
qed

lemma os_makedirs_files: "fs_files (snd (os_makedirs path w)) = fs_files w"
  by (simp add: os_makedirs_def)

lemma os_makedirs_frame:
  "logged (snd (os_makedirs path w)) = logged w \<and> stdout (snd (os_makedirs path w)) = stdout w
   \<and> stderr (snd (os_makedirs path w)) = stderr w
   \<and> fs_readonly (snd (os_makedirs path w)) = fs_readonly w"
  by (simp add: os_makedirs_def)

lemma os_makedirs_Inl: "fst (os_makedirs path w) = Inl e \<Longrightarrow> snd (os_makedirs path w) = w"
  by (simp add: os_makedirs_def split: if_splits)

lemma io_bind_pair:
  "io_bind m f w = (case fst (m w) of Inl e \<Rightarrow> (Inl e, snd (m w)) | Inr x \<Rightarrow> f x (snd (m w)))"
  by (simp add: io_bind_def split: prod.splits sum.splits)

lemma fritz_test_body_eq:
  "fritz_test_body L pdf_path output_folder w =
     (let w1 = snd (os_makedirs output_folder w);
          out = folder_output_path pdf_path output_folder
      in case fst (os_makedirs output_folder w) of
           Inl e \<Rightarrow> (Inl e, w)
         | Inr u \<Rightarrow>
            (case fst (fitz_open L pdf_path w1) of
               Inl e \<Rightarrow> (Inl e, w1)
             | Inr doc \<Rightarrow>
                (case page_htmls (doc_pages doc) of
                   Inl e \<Rightarrow> (Inl e, w1)
                 | Inr hs \<Rightarrow>
                    (case fst (open_w out w1) of
                       Inl e \<Rightarrow> (Inl e, w1)
                     | Inr f \<Rightarrow>
                        (Inr (),
                         w1\<lparr>fs_files := (fs_files w1)(out \<mapsto> fritz_test_document hs),
                            stdout := stdout w1 @
                              [''Successfully converted '' @ quoted pdf_path @ '' to ''
                               @ quoted out]\<rparr>)))))"
  unfolding fritz_test_body_def io_bind_pair[of "os_makedirs output_folder"]
  by (auto simp: Let_def fitz_open_def io_bind_open_with io_bind_open_w_write
        io_bind_def[of "fritz_test_pages _ _ _"] fritz_test_pages_eq
        folder_output_path_def fritz_test_document_def print_out_def os_makedirs_Inl
      split: sum.splits)

lemma pdfplumber_test_body_eq:
  "pdfplumber_test_body L pdf_path output_folder w =
     (let w1 = snd (os_makedirs output_folder w);
          out = folder_output_path pdf_path output_folder
      in case fst (os_makedirs output_folder w) of
           Inl e \<Rightarrow> (Inl e, w)
         | Inr u \<Rightarrow>
            (case fst (pdfplumber_open L pdf_path w1) of
               Inl e \<Rightarrow> (Inl e, w1)
             | Inr pdf \<Rightarrow>
                (case page_texts pdf of
                   Inl e \<Rightarrow> (Inl e, w1)
                 | Inr ts \<Rightarrow>
                    (case fst (open_w out w1) of
                       Inl e \<Rightarrow> (Inl e, w1)
                     | Inr f \<Rightarrow>
                        (Inr (Some out),
                         w1\<lparr>fs_files := (fs_files w1)(out \<mapsto> pdfplumber_test_document ts)\<rparr>)))))"
  unfolding pdfplumber_test_body_def io_bind_pair[of "os_makedirs output_folder"]
  by (auto simp: Let_def pdfplumber_open_def io_bind_open_with io_bind_open_w_write
        io_bind_def[of "pdfplumber_test_pages _ _ _"] pdfplumber_test_pages_eq
        folder_output_path_def pdfplumber_test_document_def ret_def os_makedirs_Inl
      split: sum.splits)

lemma new_body_eq:
  "new_body L pdf_path output_path w =
     (case fst (fitz_open L pdf_path w) of
        Inl e \<Rightarrow> (Inl e, w)
      | Inr doc \<Rightarrow>
         (case page_htmls (doc_pages doc) of
            Inl e \<Rightarrow> (Inl e, w)
          | Inr hs \<Rightarrow>
             (case fst (open_w output_path w) of
                Inl e \<Rightarrow> (Inl e, w)
              | Inr f \<Rightarrow>
                 (Inr output_path,
                  w\<lparr>fs_files := (fs_files w)(output_path \<mapsto> new_document hs)\<rparr>))))"
  unfolding new_body_def
  by (auto simp: fitz_open_def io_bind_open_with io_bind_open_w_write
        io_bind_def[of "new_pages _ _"] new_pages_eq new_document_def ret_def
      split: sum.splits)

lemma pdfminer_test_body_eq:
  "pdfminer_test_body L pdf_path output_folder w =
     (let w1 = snd (os_makedirs output_folder w);
          out = folder_output_path pdf_path output_folder
      in case fst (os_makedirs output_folder w) of
           Inl e \<Rightarrow> (Inl e, w)
         | Inr u \<Rightarrow>
            (case fst (open_with (pdfminer_html L) pdf_path w1) of
               Inl e \<Rightarrow> (Inl e, w1)
             | Inr html \<Rightarrow>
                (case fst (open_w out w1) of
                   Inl e \<Rightarrow> (Inl e, w1)
                 | Inr f \<Rightarrow>
                    (Inr (),
                     w1\<lparr>fs_files := (fs_files w1)(out \<mapsto> html),
                        stdout := stdout w1 @
                          [''Successfully converted '' @ quoted pdf_path @ '' to ''
                           @ quoted out]\<rparr>))))"
  unfolding pdfminer_test_body_def io_bind_pair[of "os_makedirs output_folder"]
  by (auto simp: Let_def io_bind_open_with io_bind_open_w_write
        folder_output_path_def print_out_def os_makedirs_Inl
      split: sum.splits)

lemma poppdf_template_fails:
  "str_format arg None poppdf_test_html_template = Inl (FormatKeyError '' font-family'')"
  by (simp add: poppdf_test_html_template_def)

lemma poppdf_test_body_eq:
  "poppdf_test_body L pdf_path output_folder w =
     (let w1 = snd (os_makedirs output_folder w);
          out = folder_output_path pdf_path output_folder
      in case fst (os_makedirs output_folder w) of
           Inl e \<Rightarrow> (Inl e, w)
         | Inr u \<Rightarrow>
            (case fst (open_with (pdfminer_html_la L) pdf_path w1) of
               Inl e \<Rightarrow> (Inl e, w1)
             | Inr html \<Rightarrow>
                (case fst (open_w out w1) of
                   Inl e \<Rightarrow> (Inl e, w1)
                 | Inr f \<Rightarrow>
                    (Inl (KeyError '' font-family''),
                     w1\<lparr>fs_files := (fs_files w1)(out \<mapsto> [])\<rparr>))))"
  unfolding poppdf_test_body_def io_bind_pair[of "os_makedirs output_folder"]
  by (auto simp: Let_def io_bind_open_with io_bind_pair[of "open_w _"] open_w_def
        format_template_def poppdf_template_fails
        folder_output_path_def os_makedirs_Inl
      split: sum.splits)

lemma pdf2htmlEX_body_eq:
  "pdf2htmlEX_body L pdf_path output_path w =
     (case fst (open_with (pdf2htmlEX_html L) pdf_path w) of
        Inl e \<Rightarrow> (Inl e, w)
      | Inr html \<Rightarrow>
         (case output_path of
            None \<Rightarrow> (Inr html, w)
          | Some p \<Rightarrow>
             if p = [] then (Inr html, w)
             else (case fst (open_w p w) of
                     Inl e \<Rightarrow> (Inl e, w)
                   | Inr f \<Rightarrow> (Inr html, w\<lparr>fs_files := (fs_files w)(p \<mapsto> html)\<rparr>))))"
  unfolding pdf2htmlEX_body_def
  by (auto simp: io_bind_open_with io_bind_open_w_write ret_def split: sum.splits option.splits)

lemma open_with_missing_eq:
  "fs_files w path = None \<Longrightarrow>
   fst (open_with parse path w) =
     Inl (if path \<in> fs_dirs w
          then IsADirectoryError (''[Errno 21] Is a directory: '' @ quoted path)
          else FileNotFoundError (''[Errno 2] No such file or directory: '' @ quoted path))"
  by (simp add: open_with_def io_bind_def read_bytes_def)

lemma missing_after_makedirs:
  "fs_files w path = None \<Longrightarrow>
   \<exists>e. fst (open_with parse path (snd (os_makedirs d w))) = Inl e"
  by (rule open_with_missing) (simp add: os_makedirs_files)

lemma convert_pdf_to_html_missing:
  assumes "fs_files w pdf_path = None"
  shows "convert_pdf_to_html self E L pdf_path output_path w =
     (if pdf_path \<in> fs_dirs w
      then (Inl (IsADirectoryError (''[Errno 21] Is a directory: '' @ quoted pdf_path)),
            w\<lparr>logged := logged w @
                [(ERROR, ''Error converting PDF to HTML: ''
                         @ (''[Errno 21] Is a directory: '' @ quoted pdf_path))]\<rparr>)
      else (Inl (FileNotFoundError (''PDF file not found: '' @ pdf_path)), w))"
  using assms
  by (simp add: convert_pdf_to_html_eq convert_body_eq fitz_open_def open_with_missing_eq
        os_path_exists_def dom_def)

lemma fritz_test_missing:
  assumes "fs_files w pdf_path = None"
  shows "fst (fritz_test_convert_pdf_to_html L pdf_path output_folder w) = Inr ()
    \<and> fs_files (snd (fritz_test_convert_pdf_to_html L pdf_path output_folder w)) = fs_files w
    \<and> stdout (snd (fritz_test_convert_pdf_to_html L pdf_path output_folder w)) = stdout w
    \<and> (\<exists>e. stderr (snd (fritz_test_convert_pdf_to_html L pdf_path output_folder w)) =
              stderr w @ [''An error occurred: '' @ str_exn e])"
proof -
  obtain e where "fst (fitz_open L pdf_path (snd (os_makedirs output_folder w))) = Inl e"
    unfolding fitz_open_def using missing_after_makedirs[OF assms] by blast
  then show ?thesis
    by (cases "fst (os_makedirs output_folder w)")
       (auto simp: fritz_test_convert_pdf_to_html_def try_except_def fritz_test_body_eq
          Let_def print_err_def os_makedirs_files os_makedirs_frame)
qed

lemma pdfplumber_test_missing:
  assumes "fs_files w pdf_path = None"
  shows "fst (pdfplumber_test_convert_pdf_to_html L pdf_path output_folder w) = Inr None
    \<and> fs_files (snd (pdfplumber_test_convert_pdf_to_html L pdf_path output_folder w)) = fs_files w
    \<and> (\<exists>e. stdout (snd (pdfplumber_test_convert_pdf_to_html L pdf_path output_folder w)) =
              stdout w @ [''Error converting PDF: '' @ str_exn e])"
proof -
  obtain e where "fst (pdfplumber_open L pdf_path (snd (os_makedirs output_folder w))) = Inl e"
    unfolding pdfplumber_open_def using missing_after_makedirs[OF assms] by blast
  then show ?thesis
    by (cases "fst (os_makedirs output_folder w)")
       (auto simp: pdfplumber_test_convert_pdf_to_html_def try_except_def
          pdfplumber_test_body_eq Let_def print_out_def io_bind_def ret_def
          os_makedirs_files os_makedirs_frame)
qed

lemma new_missing:
  assumes "fs_files w pdf_path = None"
  shows "\<exists>e. new_convert_pdf_to_html L pdf_path output_path w =
              (Inl (ValueError (''Conversion failed: '' @ str_exn e)), w)"
proof -
  obtain e where "fst (fitz_open L pdf_path w) = Inl e"
    unfolding fitz_open_def using open_with_missing[OF assms] by blast
  then show ?thesis
    by (auto simp: new_convert_pdf_to_html_def try_except_def new_body_eq raise_def)
qed

lemma pdfminer_test_missing:
  assumes "fs_files w pdf_path = None"
  shows "\<exists>e. fst (pdfminer_test_convert_pdf_to_html L pdf_path output_folder w) = Inl e
    \<and> fs_files (snd (pdfminer_test_convert_pdf_to_html L pdf_path output_folder w)) = fs_files w
    \<and> stderr (snd (pdfminer_test_convert_pdf_to_html L pdf_path output_folder w)) =
              stderr w @ [''An error occurred: '' @ str_exn e]"
proof -
  obtain e where "fst (open_with (pdfminer_html L) pdf_path (snd (os_makedirs output_folder w))) = Inl e"
    using missing_after_makedirs[OF assms] by blast
  then show ?thesis
    by (cases "fst (os_makedirs output_folder w)")
       (auto simp: pdfminer_test_convert_pdf_to_html_def try_except_def
          pdfminer_test_body_eq Let_def print_err_def io_bind_def raise_def
          os_makedirs_files os_makedirs_frame)
qed

lemma poppdf_test_missing:
  assumes "fs_files w pdf_path = None"
  shows "\<exists>e. fst (poppdf_test_convert_pdf_to_html L pdf_path output_folder w) = Inl e
    \<and> fs_files (snd (poppdf_test_convert_pdf_to_html L pdf_path output_folder w)) = fs_files w
    \<and> stderr (snd (poppdf_test_convert_pdf_to_html L pdf_path output_folder w)) =
              stderr w @ [''An error occurred: '' @ str_exn e]"
proof -
  obtain e where "fst (open_with (pdfminer_html_la L) pdf_path (snd (os_makedirs output_folder w))) = Inl e"
    using missing_after_makedirs[OF assms] by blast
  then show ?thesis
    by (cases "fst (os_makedirs output_folder w)")
       (auto simp: poppdf_test_convert_pdf_to_html_def try_except_def
          poppdf_test_body_eq Let_def print_err_def io_bind_def raise_def
          os_makedirs_files os_makedirs_frame)
qed

lemma pdf2htmlEX_missing:
  assumes "fs_files w pdf_path = None"
  shows "\<exists>e. pdf2htmlEX_convert_pdf_to_html L pdf_path output_path w =
              (Inl (ValueError (''Conversion failed: '' @ str_exn e)), w)"
proof -
  obtain e where "fst (open_with (pdf2htmlEX_html L) pdf_path w) = Inl e"
    using open_with_missing[OF assms] by blast
  then show ?thesis
    by (auto simp: pdf2htmlEX_convert_pdf_to_html_def try_except_def pdf2htmlEX_body_eq raise_def)
qed

lemma pdfplumber_demo_run:
  "pdfplumber_test_convert_pdf_to_html libs0 ''pdf/a.pdf'' ''output'' world0 =
     (Inr (Some ''output/a.html''),
      world0\<lparr>fs_dirs := insert ''output'' (fs_dirs world0),
              fs_files := (fs_files world0)(''output/a.html'' \<mapsto>
                            pdfplumber_test_document [Some tag_text])\<rparr>)"
proof -
  have mk: "os_makedirs ''output'' world0 =
      (Inr (), world0\<lparr>fs_dirs := insert ''output'' (fs_dirs world0)\<rparr>)"
    by (simp add: os_makedirs_def world0_def)
  have op: "fst (pdfplumber_open libs0 ''pdf/a.pdf''
               (world0\<lparr>fs_dirs := insert ''output'' (fs_dirs world0)\<rparr>)) =
            Inr [\<lparr> extract_text = Inr (Some tag_text) \<rparr>]"
    by (simp add: pdfplumber_open_def open_with_def io_bind_def read_bytes_def lift_def
          world0_def libs0_def)
  have out: "folder_output_path ''pdf/a.pdf'' ''output'' = ''output/a.html''"
    by (simp add: folder_output_path_def os_path_join_def os_path_splitext_def
          os_path_basename_def)
  have ow: "fst (open_w ''output/a.html'' (world0\<lparr>fs_dirs := insert ''output'' (fs_dirs world0)\<rparr>))
            = Inr ''output/a.html''"
    by (simp add: open_w_def world0_def)
  show ?thesis
    by (simp add: pdfplumber_test_convert_pdf_to_html_def try_except_def pdfplumber_test_body_eq
          mk op out ow Let_def)
qed

lemma pdfplumber_demo_document:
  \<open>pdfplumber_test_document [Some tag_text] =
     pdfplumber_test_header @ ''\<newline><div class="page" id="page-1">\<newline><h2>Page 1</h2>\<newline>''
     @ ''<div class="text-block">\<newline><pre><div class="page" id="page-2"></pre>\<newline></div>\<newline>''
     @ ''</div>\<newline></body>\<newline></html>''\<close>
  by (simp add: pdfplumber_test_document_def pdfplumber_test_block_def tag_text_def
        str_nat.simps digit_char_def pdfplumber_test_header_def)

lemma join_Cons_concat: "join sep (x # xs) = x @ concat (map ((@) sep) xs)"
  by (induction xs arbitrary: x) simp_all

lemma concat_blocks_from:
  "concat (map ((@) sep) (blocks_from block k xs)) =
   concat (map (\<lambda>(i, x). concat (map ((@) sep) (block i x))) (List.enumerate k xs))"
  by (induction xs arbitrary: k) simp_all

lemma generate_page_html_block:
  "generate_page_html self E page_data = class_page_block self E page_data"
  by (simp add: generate_page_html_def class_page_block_def join_Cons_concat Let_def o_def)

lemma fritz_test_document_blocks:
  "fritz_test_document hs =
     fritz_test_header @ concat (map fritz_test_page_block (List.enumerate 1 hs))
     @ ''\<newline></body></html>''"
proof -
  have "(\<lambda>(i, x). concat (map ((@) ''\<newline>'') (fritz_test_block i x))) = fritz_test_page_block"
    by (auto simp: fritz_test_block_def fritz_test_page_block_def fun_eq_iff)
  then show ?thesis
    by (simp add: fritz_test_document_def join_Cons_concat concat_blocks_from)
qed

lemma pdfplumber_test_document_blocks:
  "pdfplumber_test_document ts =
     pdfplumber_test_header @ concat (map pdfplumber_test_page_block (List.enumerate 1 ts))
     @ ''\<newline></body>\<newline></html>''"
proof -
  have "(\<lambda>(i, x). concat (map ((@) ''\<newline>'') (pdfplumber_test_block i x))) =
        pdfplumber_test_page_block"
    by (auto simp: pdfplumber_test_block_def pdfplumber_test_page_block_def fun_eq_iff
        split: option.splits)
  then show ?thesis
    by (simp add: pdfplumber_test_document_def join_Cons_concat concat_blocks_from)
qed

lemma length_contents_of:
  "first_failure ps = None \<Longrightarrow> map pc_page_num (contents_of k ps) = [k..<k + length ps]"
proof (induction ps arbitrary: k)
  case Nil
  show ?case by simp
next
  case (Cons l ls)
  have u: "[k..<k + length (l # ls)] = k # [Suc k..<Suc k + length ls]"
    by (subst upt_rec) simp
  from Cons.prems obtain page where l: "l = Inr page" and pf: "page_failure page = None"
    and ff: "first_failure ls = None"
    by (cases l) (auto split: option.splits)
  show ?case
    unfolding u using Cons.IH[OF ff, of "Suc k"]
    by (simp add: l pf page_content_of_def)
qed

lemma length_page_htmls: "page_htmls ps = Inr hs \<Longrightarrow> length hs = length ps"
proof (induction ps arbitrary: hs)
  case Nil
  then show ?case by simp
next
  case (Cons l ls)
  then show ?case
    by (cases l) (auto split: sum.splits)
qed

lemma length_page_texts: "page_texts ps = Inr ts \<Longrightarrow> length ts = length ps"
  by (induction ps arbitrary: ts) (auto split: sum.splits)

lemma convert_pdf_to_html_written:
  assumes "fst (convert_pdf_to_html self E L pdf_path output_path w) = Inr out"
  shows "\<exists>doc. fst (fitz_open L pdf_path w) = Inr doc
           \<and> first_failure (doc_pages doc) = None
           \<and> out = output_path_of E pdf_path output_path
           \<and> fs_files (snd (convert_pdf_to_html self E L pdf_path output_path w)) =
               (fs_files w)(out \<mapsto> generate_complete_html self E (content_of doc) pdf_path)"
  using assms
  by (auto simp: convert_pdf_to_html_eq convert_body_eq Let_def
      split: if_splits sum.splits option.splits)

lemma fritz_test_written:
  assumes "stdout (snd (fritz_test_convert_pdf_to_html L pdf_path output_folder w)) \<noteq> stdout w"
  shows "\<exists>doc hs. fst (fitz_open L pdf_path (snd (os_makedirs output_folder w))) = Inr doc
           \<and> page_htmls (doc_pages doc) = Inr hs
           \<and> fs_files (snd (fritz_test_convert_pdf_to_html L pdf_path output_folder w)) =
               (fs_files w)(folder_output_path pdf_path output_folder \<mapsto> fritz_test_document hs)"
  using assms
  by (auto simp: fritz_test_convert_pdf_to_html_def try_except_def fritz_test_body_eq Let_def
        print_err_def os_makedirs_files os_makedirs_frame
      split: sum.splits)

lemma pdfplumber_test_written:
  assumes "fst (pdfplumber_test_convert_pdf_to_html L pdf_path output_folder w) = Inr (Some out)"
  shows "\<exists>pdf ts. fst (pdfplumber_open L pdf_path (snd (os_makedirs output_folder w))) = Inr pdf
           \<and> page_texts pdf = Inr ts
           \<and> out = folder_output_path pdf_path output_folder
           \<and> fs_files (snd (pdfplumber_test_convert_pdf_to_html L pdf_path output_folder w)) =
               (fs_files w)(out \<mapsto> pdfplumber_test_document ts)"
  using assms
  by (auto simp: pdfplumber_test_convert_pdf_to_html_def try_except_def pdfplumber_test_body_eq
        Let_def print_out_def io_bind_def ret_def os_makedirs_files
      split: sum.splits)

lemma new_written:
  assumes "fst (new_convert_pdf_to_html L pdf_path output_path w) = Inr out"
  shows "\<exists>doc hs. fst (fitz_open L pdf_path w) = Inr doc
           \<and> page_htmls (doc_pages doc) = Inr hs
           \<and> out = output_path
           \<and> fs_files (snd (new_convert_pdf_to_html L pdf_path output_path w)) =
               (fs_files w)(out \<mapsto> new_document hs)"
  using assms
  by (auto simp: new_convert_pdf_to_html_def try_except_def new_body_eq raise_def
      split: sum.splits)

lemma generate_complete_html_parts:
  \<open>\<exists>head. generate_complete_html self E content pdf_path =
       head @ join ''\<newline>'' (map (class_page_block self E) (c_pages content))
       @ ''\<newline>    </div>\<newline></body>\<newline></html>''
     \<and> prefix ''<!DOCTYPE html>\<newline><html lang="en">\<newline><head>\<newline>'' head
     \<and> suffix (''</head>\<newline><body>\<newline>    <div class="pdf-container">\<newline>''
               @ ''        <h1 class="pdf-title">'' @ html_escape (path_stem E pdf_path)
               @ ''</h1>\<newline>'') head\<close>
proof -
  let ?mid = \<open>''    <meta charset="UTF-8">\<newline>''
         @ ''    <meta name="viewport" content="width=device-width, initial-scale=1.0">\<newline>''
         @ ''    <title>'' @ html_escape (path_stem E pdf_path) @ ''</title>\<newline>''
         @ ''    <style>\<newline>''
         @ generate_css self content @ ''\<newline>''
         @ ''    </style>\<newline>''\<close>
  let ?a = \<open>''<!DOCTYPE html>\<newline><html lang="en">\<newline><head>\<newline>''\<close>
  let ?b = \<open>''</head>\<newline><body>\<newline>    <div class="pdf-container">\<newline>''
               @ ''        <h1 class="pdf-title">'' @ html_escape (path_stem E pdf_path)
               @ ''</h1>\<newline>''\<close>
  have eq: \<open>generate_complete_html self E content pdf_path =
       (?a @ ?mid @ ?b) @ join ''\<newline>'' (map (class_page_block self E) (c_pages content))
       @ ''\<newline>    </div>\<newline></body>\<newline></html>''\<close>
    unfolding generate_complete_html_def generate_body_html_def Let_def
    by (simp add: generate_page_html_block[abs_def])
  have p: "prefix ?a (?a @ ?mid @ ?b)"
    by (rule prefixI) (rule refl)
  have s: "suffix ?b (?a @ ?mid @ ?b)"
    by (rule suffixI[of _ "?a @ ?mid"]) simp
  from eq p s show ?thesis by (intro exI[of _ "?a @ ?mid @ ?b"] conjI)
qed

lemma fritz_test_header_shape:
  \<open>prefix ''\<newline><!DOCTYPE html>\<newline><html>\<newline><head>\<newline>'' fritz_test_header
   \<and> suffix ''</head>\<newline><body>\<newline>'' fritz_test_header\<close>
  by (simp add: fritz_test_header_def suffix_def)

lemma pdfplumber_test_header_shape:
  \<open>prefix ''<!DOCTYPE html>\<newline><html>\<newline><head>\<newline>'' pdfplumber_test_header
   \<and> suffix ''</head>\<newline><body>'' pdfplumber_test_header\<close>
  by (simp add: pdfplumber_test_header_def suffix_def)

lemma demo_class_run:
  "fst (convert_pdf_to_html (init True True) env0 libs0 ''pdf/a.pdf'' (Some ''a.html'') world0) =
     Inr ''a.html''"
  by (simp add: convert_pdf_to_html_result conversion_result_def demo_open demo_first_failure)
     (simp add: world0_def os_path_exists_def open_w_def output_path_of_def)

lemma demo_page_htmls: "page_htmls (doc_pages demo_doc) = Inr [''<p>a&lt;b</p>'']"
  by (simp add: demo_doc_def demo_page_def)

lemma demo_open_any:
  "fs_files w = fs_files world0 \<Longrightarrow> fs_dirs w \<subseteq> {''pdf'', ''output''} \<Longrightarrow>
   fst (fitz_open libs0 ''pdf/a.pdf'' w) = Inr demo_doc"
  by (auto simp: fitz_open_def open_with_def io_bind_def read_bytes_def lift_def world0_def
        libs0_def)

lemma demo_makedirs:
  "os_makedirs ''output'' world0 =
     (Inr (), world0\<lparr>fs_dirs := insert ''output'' (fs_dirs world0)\<rparr>)"
  by (simp add: os_makedirs_def world0_def)

lemma demo_folder_output: "folder_output_path ''pdf/a.pdf'' ''output'' = ''output/a.html''"
  by (simp add: folder_output_path_def os_path_join_def os_path_splitext_def
        os_path_basename_def)

lemma fritz_test_demo_run:
  "stdout (snd (fritz_test_convert_pdf_to_html libs0 ''pdf/a.pdf'' ''output'' world0)) \<noteq>
     stdout world0"
proof -
  have op: "fst (fitz_open libs0 ''pdf/a.pdf''
               (world0\<lparr>fs_dirs := insert ''output'' (fs_dirs world0)\<rparr>)) = Inr demo_doc"
    by (rule demo_open_any) (simp_all add: world0_def)
  have ow: "fst (open_w ''output/a.html'' (world0\<lparr>fs_dirs := insert ''output'' (fs_dirs world0)\<rparr>))
            = Inr ''output/a.html''"
    by (simp add: open_w_def world0_def)
  show ?thesis
    by (simp add: fritz_test_convert_pdf_to_html_def try_except_def fritz_test_body_eq
          demo_makedirs op demo_page_htmls demo_folder_output ow Let_def)
qed

lemma new_demo_run:
  "new_convert_pdf_to_html libs0 ''pdf/a.pdf'' ''a.html'' world0 =
     (Inr ''a.html'',
      world0\<lparr>fs_files := (fs_files world0)(''a.html'' \<mapsto> ''<html><body><p>a&lt;b</p></body></html>'')\<rparr>)"
proof -
  have ow: "fst (open_w ''a.html'' world0) = Inr ''a.html''"
    by (simp add: open_w_def world0_def)
  show ?thesis
    by (simp add: new_convert_pdf_to_html_def try_except_def new_body_eq demo_open
          demo_page_htmls ow new_document_def)
qed
















section \<open>Facts about paths\<close>

lemma rsplit_at_None: "rsplit_at c s = None \<longleftrightarrow> c \<notin> set s"
  by (induction s) (auto split: option.splits)

lemma rsplit_at_Some: "rsplit_at c s = Some (a, b) \<Longrightarrow> s = a @ c # b \<and> c \<notin> set b"
proof (induction s arbitrary: a b)
  case Nil
  then show ?case by simp
next
  case (Cons x xs)
  then show ?case
    by (cases "rsplit_at c xs") (auto simp: rsplit_at_None split: if_splits)
qed

lemma basename_no_slash: "CHR ''/'' \<notin> set (os_path_basename p)"
proof (cases "rsplit_at (CHR ''/'') p")
  case None
  then have "CHR ''/'' \<notin> set p" by (simp add: rsplit_at_None)
  with None show ?thesis by (simp add: os_path_basename_def)
next
  case (Some ab)
  obtain a b where ab: "ab = (a, b)" by (cases ab)
  from rsplit_at_Some[OF Some[unfolded ab]] Some ab show ?thesis
    by (simp add: os_path_basename_def)
qed

lemma splitext_subset: "set (fst (os_path_splitext p)) \<subseteq> set p"
proof (cases "rsplit_at (CHR ''.'') (os_path_basename p)")
  case None
  then show ?thesis by (simp add: os_path_splitext_def Let_def)
next
  case (Some be)
  obtain base ext where be: "be = (base, ext)" by (cases be)
  from rsplit_at_Some[OF Some[unfolded be]]
  have n: "os_path_basename p = base @ CHR ''.'' # ext" by simp
  have "set (os_path_basename p) \<subseteq> set p"
  proof (cases "rsplit_at (CHR ''/'') p")
    case None
    then show ?thesis by (simp add: os_path_basename_def)
  next
    case (Some ab)
    obtain a b where ab: "ab = (a, b)" by (cases ab)
    from rsplit_at_Some[OF Some[unfolded ab]] Some ab show ?thesis
      by (auto simp: os_path_basename_def)
  qed
  with n have "set base \<subseteq> set p" by auto
  moreover have "set (take k p) \<subseteq> set p" for k by (rule set_take_subset)
  ultimately show ?thesis
    using Some be by (auto simp: os_path_splitext_def Let_def)
qed

lemma folder_output_path_new: "folder_output_path pdf_path output_folder \<noteq> output_folder"
proof -
  let ?stem = "fst (os_path_splitext (os_path_basename pdf_path))"
  have "CHR ''/'' \<notin> set ?stem"
    using splitext_subset[of "os_path_basename pdf_path"] basename_no_slash[of pdf_path] by auto
  then have "hd (?stem @ ''.html'') \<noteq> CHR ''/''"
    by (cases ?stem) auto
  then have "length (folder_output_path pdf_path output_folder) > length output_folder"
    by (simp add: folder_output_path_def os_path_join_def)
  then show ?thesis by auto
qed

lemma os_makedirs_dirs:
  "fs_dirs (snd (os_makedirs d w)) = fs_dirs w \<or> fs_dirs (snd (os_makedirs d w)) = insert d (fs_dirs w)"
  by (simp add: os_makedirs_def)

lemma folder_output_not_made:
  "folder_output_path pdf_path d \<in> fs_dirs (snd (os_makedirs d w)) \<longleftrightarrow>
   folder_output_path pdf_path d \<in> fs_dirs w"
  using os_makedirs_dirs[of d w] folder_output_path_new[of pdf_path d] by auto

lemma fritz_test_dirs:
  "fs_dirs (snd (fritz_test_convert_pdf_to_html L pdf_path d w)) = fs_dirs w
   \<or> fs_dirs (snd (fritz_test_convert_pdf_to_html L pdf_path d w)) = fs_dirs (snd (os_makedirs d w))"
  by (auto simp: fritz_test_convert_pdf_to_html_def try_except_def fritz_test_body_eq Let_def
        print_err_def split: sum.splits)

lemma pdfplumber_test_dirs:
  "fs_dirs (snd (pdfplumber_test_convert_pdf_to_html L pdf_path d w)) = fs_dirs w
   \<or> fs_dirs (snd (pdfplumber_test_convert_pdf_to_html L pdf_path d w)) = fs_dirs (snd (os_makedirs d w))"
  by (auto simp: pdfplumber_test_convert_pdf_to_html_def try_except_def pdfplumber_test_body_eq
        Let_def print_out_def io_bind_def ret_def split: sum.splits)

lemma pdfminer_test_dirs:
  "fs_dirs (snd (pdfminer_test_convert_pdf_to_html L pdf_path d w)) = fs_dirs w
   \<or> fs_dirs (snd (pdfminer_test_convert_pdf_to_html L pdf_path d w)) = fs_dirs (snd (os_makedirs d w))"
  by (auto simp: pdfminer_test_convert_pdf_to_html_def try_except_def pdfminer_test_body_eq
        Let_def print_err_def io_bind_def raise_def split: sum.splits)

lemma poppdf_test_dirs:
  "fs_dirs (snd (poppdf_test_convert_pdf_to_html L pdf_path d w)) = fs_dirs w
   \<or> fs_dirs (snd (poppdf_test_convert_pdf_to_html L pdf_path d w)) = fs_dirs (snd (os_makedirs d w))"
  by (auto simp: poppdf_test_convert_pdf_to_html_def try_except_def poppdf_test_body_eq
        Let_def print_err_def io_bind_def raise_def split: sum.splits)

lemma output_path_not_made:
  "(folder_output_path pdf_path d \<in> fs_dirs (snd (fritz_test_convert_pdf_to_html L pdf_path d w))
      \<longleftrightarrow> folder_output_path pdf_path d \<in> fs_dirs w)
   \<and> (folder_output_path pdf_path d \<in> fs_dirs (snd (pdfplumber_test_convert_pdf_to_html L pdf_path d w))
      \<longleftrightarrow> folder_output_path pdf_path d \<in> fs_dirs w)
   \<and> (folder_output_path pdf_path d \<in> fs_dirs (snd (pdfminer_test_convert_pdf_to_html L pdf_path d w))
      \<longleftrightarrow> folder_output_path pdf_path d \<in> fs_dirs w)
   \<and> (folder_output_path pdf_path d \<in> fs_dirs (snd (poppdf_test_convert_pdf_to_html L pdf_path d w))
      \<longleftrightarrow> folder_output_path pdf_path d \<in> fs_dirs w)"
  using fritz_test_dirs[of L pdf_path d w] pdfplumber_test_dirs[of L pdf_path d w]
    pdfminer_test_dirs[of L pdf_path d w] poppdf_test_dirs[of L pdf_path d w]
    folder_output_not_made[of pdf_path d w]
  by auto

section \<open>The class escapes the text and opens one container per page\<close>

text \<open>
  In the HTML of \<open>PDFToHTMLConverter\<close> every span's text occurs escaped, and, the text of
  a float holding no \<open><\<close>, the opening text of a page container occurs once for each
  page of the document and nowhere else: titles and span texts are escaped, image data
  is base64, numbers are digits.
\<close>

lemma py_in_refl: "py_in s s"
  by (simp add: py_in_sublist)

lemma py_in_trans: "py_in a b \<Longrightarrow> py_in b c \<Longrightarrow> py_in a c"
  unfolding py_in_sublist by (rule sublist_order.order.trans)

lemma py_in_append: "py_in a b \<Longrightarrow> py_in a (pre @ b @ post)"
  unfolding py_in_sublist sublist_def by (metis append.assoc)

lemma py_in_appendR: "py_in a b \<Longrightarrow> py_in a (pre @ b)"
  using py_in_append[of a b pre "[]"] by simp

lemma py_in_appendL: "py_in a b \<Longrightarrow> py_in a (b @ post)"
  using py_in_append[of a b "[]" post] by simp

lemma py_in_concat: "x \<in> set xs \<Longrightarrow> py_in x (concat xs)"
proof (induction xs)
  case Nil
  then show ?case by simp
next
  case (Cons y ys)
  then show ?case
    by (auto intro: py_in_appendL py_in_appendR py_in_refl)
qed

lemma py_in_join: "x \<in> set xs \<Longrightarrow> py_in x (join sep xs)"
proof (induction sep xs rule: join.induct)
  case (1 sep)
  then show ?case by simp
next
  case (2 sep y)
  then show ?case by (simp add: py_in_refl)
next
  case (3 sep y z zs)
  show ?case
  proof (cases "x = y")
    case True
    then show ?thesis by (simp add: py_in_appendL py_in_refl)
  next
    case False
    with 3 have "py_in x (join sep (z # zs))" by simp
    then have "py_in x (y @ sep @ join sep (z # zs))"
      using py_in_appendR[of x "join sep (z # zs)" "y @ sep"] by simp
    then show ?thesis by simp
  qed
qed

lemma span_text_in_block:
  assumes "line \<in> set (bd_lines block)" and "sp \<in> set (ld_spans line)"
  shows "py_in (html_escape (sd_text sp)) (generate_text_block_html self E block)"
proof -
  have a: "py_in (html_escape (sd_text sp)) (span_html E sp)"
    unfolding span_html_def Let_def
    using py_in_append[OF py_in_refl, of "html_escape (sd_text sp)"
        "''<span'' @ class_attr (span_classes (sd_font_info sp))
         @ style_attr (span_styles E (sd_font_info sp)) @ ''>''" "''</span>''"]
    by simp
  have b: "py_in (span_html E sp) (concat (map (span_html E) (ld_spans line)))"
    using assms(2) by (intro py_in_concat) simp
  have c: "concat (map (span_html E) (ld_spans line)) \<in> set (line_parts E ls)"
    if "line \<in> set ls" for ls
    using that assms(2) by (induction ls) (auto simp: Let_def)
  have d: "py_in (concat (map (span_html E) (ld_spans line))) (generate_text_block_html self E block)"
    unfolding generate_text_block_html_def
    using c[OF assms(1)] by (intro py_in_join) simp
  from a b d show ?thesis by (blast intro: py_in_trans)
qed

lemma block_in_page:
  assumes "block \<in> set (pc_text_blocks page_data)" and "bd_type block = ''text''"
  shows "py_in (generate_text_block_html self E block) (generate_page_html self E page_data)"
proof -
  have "''            '' @ generate_text_block_html self E block
        \<in> set ([''        <div class=\"pdf-page\" id=\"page-'' @ str_nat (pc_page_num page_data + 1) @ ''\">'',
             ''            <div class=\"page-number\">Page '' @ str_nat (pc_page_num page_data + 1) @ ''</div>'']
            @ map (\<lambda>block. ''            '' @ generate_text_block_html self E block)
                (filter (\<lambda>block. bd_type block = ''text'') (pc_text_blocks page_data))
            @ map (\<lambda>img. ''            '' @ generate_image_html self img)
                (pc_images page_data)
            @ [''        </div>''])"
    using assms by auto
  then have "py_in (''            '' @ generate_text_block_html self E block)
               (generate_page_html self E page_data)"
    unfolding generate_page_html_def Let_def by (rule py_in_join)
  moreover have "py_in (generate_text_block_html self E block)
                   (''            '' @ generate_text_block_html self E block)"
    by (intro py_in_appendR py_in_refl)
  ultimately show ?thesis by (blast intro: py_in_trans)
qed

lemma page_in_document:
  assumes "page_data \<in> set (c_pages content)"
  shows "py_in (generate_page_html self E page_data)
           (generate_complete_html self E content pdf_path)"
proof -
  have "py_in (generate_page_html self E page_data) (generate_body_html self E content)"
    unfolding generate_body_html_def using assms by (intro py_in_join) simp
  moreover have "py_in (generate_body_html self E content)
                   (generate_complete_html self E content pdf_path)"
    unfolding generate_complete_html_def Let_def
    using py_in_append[OF py_in_refl, of "generate_body_html self E content"
        "''<!DOCTYPE html>\<newline>''
         @ ''<html lang=\"en\">\<newline>''
         @ ''<head>\<newline>''
         @ ''    <meta charset=\"UTF-8\">\<newline>''
         @ ''    <meta name=\"viewport\" content=\"width=device-width, initial-scale=1.0\">\<newline>''
         @ ''    <title>'' @ html_escape (path_stem E pdf_path) @ ''</title>\<newline>''
         @ ''    <style>\<newline>''
         @ generate_css self content @ ''\<newline>''
         @ ''    </style>\<newline>''
         @ ''</head>\<newline>''
         @ ''<body>\<newline>''
         @ ''    <div class=\"pdf-container\">\<newline>''
         @ ''        <h1 class=\"pdf-title\">'' @ html_escape (path_stem E pdf_path) @ ''</h1>\<newline>''"
        "''\<newline>''
         @ ''    </div>\<newline>''
         @ ''</body>\<newline>''
         @ ''</html>''"]
    by simp
  ultimately show ?thesis by (blast intro: py_in_trans)
qed

lemma class_span_text_escaped:
  assumes "page_data \<in> set (c_pages content)"
    and "block \<in> set (pc_text_blocks page_data)" and "bd_type block = ''text''"
    and "line \<in> set (bd_lines block)" and "sp \<in> set (ld_spans line)"
  shows "py_in (html_escape (sd_text sp)) (generate_complete_html self E content pdf_path)"
  using span_text_in_block[OF assms(4,5)] block_in_page[OF assms(2,3)] page_in_document[OF assms(1)]
  by (blast intro: py_in_trans)

lemma quiet_Nil [simp]: "quiet []"
  by (simp add: quiet_def)

lemma quiet_append: "quiet s \<Longrightarrow> quiet t \<Longrightarrow> quiet (s @ t)"
  by (simp add: quiet_def)

lemma quiet_concat: "(\<And>x. x \<in> set xs \<Longrightarrow> quiet x) \<Longrightarrow> quiet (concat xs)"
  by (induction xs) (simp_all add: quiet_append)

lemma quiet_no_lt: "CHR ''<'' \<notin> set s \<Longrightarrow> quiet s"
  unfolding quiet_def
proof (induction s)
  case Nil
  show ?case by simp
next
  case (Cons c s)
  then have "c \<noteq> CHR ''<''" by auto
  then have "\<not> prefix page_marker (c # s @ rest)" for rest
    by (simp add: page_marker_def)
  with Cons show ?case by simp
qed

lemma quiet_count: "quiet s \<Longrightarrow> count_occurrences page_marker s = 0"
  using quiet_def[of s] by (metis append_Nil2 count_occurrences.simps(1))

lemma quiet_join:
  assumes "quiet sep" and "\<And>x. x \<in> set xs \<Longrightarrow> quiet x"
  shows "quiet (join sep xs)"
  using assms by (induction sep xs rule: join.induct) (simp_all add: quiet_append)

lemma html_escape_no_lt: "CHR ''<'' \<notin> set (html_escape s)"
  by (auto simp: html_escape_def replace_char_def split: if_splits)

lemma digit_char_no_lt: "d < 16 \<Longrightarrow> digit_char d \<noteq> CHR ''<''"
  using digit_char_hex[of d] by auto

lemma str_nat_no_lt: "CHR ''<'' \<notin> set (str_nat n)"
proof (induction n rule: str_nat.induct)
  case (1 n)
  show ?case
  proof (cases "n < 10")
    case True
    then show ?thesis using digit_char_no_lt[of n] by (subst str_nat.simps) auto
  next
    case False
    have "n mod 10 < 16" using mod_less_divisor[of 10 n] by linarith
    from digit_char_no_lt[OF this] 1[OF False] False show ?thesis
      by (subst str_nat.simps) auto
  qed
qed

lemma str_int_no_lt: "CHR ''<'' \<notin> set (str_int i)"
  by (simp add: str_int_def str_nat_no_lt)

lemma format_06x_no_lt: "CHR ''<'' \<notin> set (format_06x c)"
  using hex_nat_chars[of "nat c"] hex_nat_chars[of "nat (- c)"]
  by (auto simp: format_06x_def zero_pad_def)

lemma b64_char_no_lt: "k < 64 \<Longrightarrow> b64_char k \<noteq> CHR ''<''"
proof -
  assume "k < 64"
  then have "b64_char k \<in> set b64_alphabet"
    unfolding b64_char_def by (intro nth_mem) (simp add: b64_alphabet_def)
  then show ?thesis by (auto simp: b64_alphabet_def)
qed

lemma byte_bound: "unat (a :: byte) < 256"
  using unsigned_less[of a, where 'a=nat] by simp

lemma b64encode_no_lt: "CHR ''<'' \<notin> set (b64encode data)"
proof (induction data rule: b64encode.induct)
  case 1
  show ?case by simp
next
  case (2 a)
  have "unat a < 256" by (rule byte_bound)
  then have "unat a * 65536 div 262144 < 64" by simp
  then show ?case
    using b64_char_no_lt[of "unat a * 65536 div 262144"]
      b64_char_no_lt[of "unat a * 65536 div 4096 mod 64"]
    by (auto simp: Let_def)
next
  case (3 a b)
  have "unat a < 256" "unat b < 256" by (rule byte_bound)+
  then have "(unat a * 65536 + unat b * 256) div 262144 < 64" by simp
  then show ?case
    using b64_char_no_lt[of "(unat a * 65536 + unat b * 256) div 262144"]
      b64_char_no_lt[of "(unat a * 65536 + unat b * 256) div 4096 mod 64"]
      b64_char_no_lt[of "(unat a * 65536 + unat b * 256) div 64 mod 64"]
    by (auto simp: Let_def)
next
  case (4 a b c rest)
  have "unat a < 256" "unat b < 256" "unat c < 256" by (rule byte_bound)+
  then have "(unat a * 65536 + unat b * 256 + unat c) div 262144 < 64" by simp
  then show ?case
    using 4 b64_char_no_lt[of "(unat a * 65536 + unat b * 256 + unat c) div 262144"]
      b64_char_no_lt[of "(unat a * 65536 + unat b * 256 + unat c) div 4096 mod 64"]
      b64_char_no_lt[of "(unat a * 65536 + unat b * 256 + unat c) div 64 mod 64"]
      b64_char_no_lt[of "(unat a * 65536 + unat b * 256 + unat c) mod 64"]
    by (auto simp: Let_def)
qed

lemma loud_quiet: "loud s \<Longrightarrow> quiet t \<Longrightarrow> loud (s @ t)"
  by (simp add: loud_def quiet_def)

lemma count_join_loud:
  assumes "quiet sep" and "\<And>x. x \<in> set xs \<Longrightarrow> loud x"
  shows "count_occurrences page_marker (join sep xs @ rest) =
         length xs + count_occurrences page_marker rest"
  using assms
proof (induction sep xs rule: join.induct)
  case (1 sep)
  show ?case by simp
next
  case (2 sep x)
  then show ?case by (simp add: loud_def)
next
  case (3 sep x y ys)
  then have "loud x" "quiet sep" by simp_all
  moreover have "count_occurrences page_marker (join sep (y # ys) @ rest) =
         length (y # ys) + count_occurrences page_marker rest"
    using 3 by simp
  ultimately show ?case by (simp add: loud_def quiet_def)
qed

lemma class_attr_no_lt: "CHR ''<'' \<notin> set (class_attr (span_classes fi))"
  by (simp add: class_attr_def span_classes_def)

lemma format_num_no_lt:
  assumes "\<And>r. CHR ''<'' \<notin> set (float_format E r)"
  shows "CHR ''<'' \<notin> set (format_num E x)"
  using assms by (cases x) (simp_all add: str_int_no_lt)

lemma style_attr_no_lt:
  assumes "\<And>r. CHR ''<'' \<notin> set (float_format E r)"
  shows "CHR ''<'' \<notin> set (style_attr (span_styles E fi))"
  using format_num_no_lt[OF assms, of "fi_size fi"] format_06x_no_lt[of "fi_color fi"]
  by (simp add: style_attr_def span_styles_def)

lemma quiet_span_html:
  assumes "\<And>r. CHR ''<'' \<notin> set (float_format E r)"
  shows "quiet (span_html E sp)"
proof -
  have a: "quiet ''<span''" and b: "quiet ''>''" and c: "quiet ''</span>''"
    by (simp_all add: quiet_def page_marker_def)
  have d: "quiet (class_attr (span_classes (sd_font_info sp)))"
    by (rule quiet_no_lt) (rule class_attr_no_lt)
  have e: "quiet (style_attr (span_styles E (sd_font_info sp)))"
    by (rule quiet_no_lt) (rule style_attr_no_lt[OF assms])
  have f: "quiet (html_escape (sd_text sp))"
    by (rule quiet_no_lt) (rule html_escape_no_lt)
  show ?thesis
    unfolding span_html_def Let_def
    by (intro quiet_append a b c d e f)
qed

lemma quiet_text_block:
  assumes "\<And>r. CHR ''<'' \<notin> set (float_format E r)"
  shows "quiet (generate_text_block_html self E block)"
proof -
  have parts: "quiet x" if "x \<in> set (line_parts E ls)" for x ls
    using that
  proof (induction ls)
    case Nil
    then show ?case by simp
  next
    case (Cons l ls)
    have "quiet (concat (map (span_html E) (ld_spans l)))"
      by (rule quiet_concat) (auto simp: quiet_span_html[OF assms])
    with Cons show ?case by (auto simp: Let_def split: if_splits)
  qed
  have a: \<open>quiet ''<div class="text-block">''\<close> and b: "quiet ''</div>''" and n: "quiet ''\<newline>''"
    by (simp_all add: quiet_def page_marker_def)
  show ?thesis
    unfolding generate_text_block_html_def
    by (rule quiet_join[OF n]) (use a b parts in auto)
qed

lemma quiet_image:
  assumes "CHR ''<'' \<notin> set (ii_format img)" and "CHR ''<'' \<notin> set (ii_data img)"
  shows "quiet (generate_image_html self img)"
proof -
  have l: \<open>quiet (''<div class="image-container">\<newline>'' @ ''                <img src="'')\<close>
      \<open>quiet (''" \<newline>'' @ ''                     alt="PDF Image '')\<close>
      \<open>quiet (''" \<newline>'' @ ''                     class="pdf-image"\<newline>''
              @ ''                     width="'')\<close>
      \<open>quiet (''" \<newline>'' @ ''                     height="'')\<close>
      \<open>quiet (''">\<newline>'' @ ''            </div>'')\<close>
    by (simp_all add: quiet_def page_marker_def)
  have u: "quiet (''data:image/'' @ ii_format img @ '';base64,'' @ ii_data img)"
    by (rule quiet_no_lt) (use assms in simp)
  have i: "quiet (str_nat (ii_index img))" "quiet (str_int (ii_width img))"
      "quiet (str_int (ii_height img))"
    by (rule quiet_no_lt, simp add: str_nat_no_lt str_int_no_lt)+
  have \<open>quiet ((''<div class="image-container">\<newline>'' @ ''                <img src="'')
       @ (''data:image/'' @ ii_format img @ '';base64,'' @ ii_data img)
       @ (''" \<newline>'' @ ''                     alt="PDF Image '')
       @ str_nat (ii_index img)
       @ (''" \<newline>'' @ ''                     class="pdf-image"\<newline>''
              @ ''                     width="'')
       @ str_int (ii_width img)
       @ (''" \<newline>'' @ ''                     height="'')
       @ str_int (ii_height img)
       @ (''">\<newline>'' @ ''            </div>''))\<close>
    by (intro quiet_append l u i)
  then show ?thesis
    by (simp add: generate_image_html_def Let_def)
qed

lemma loud_page:
  assumes "\<And>r. CHR ''<'' \<notin> set (float_format E r)"
    and "\<And>img. img \<in> set (pc_images page_data) \<Longrightarrow>
           CHR ''<'' \<notin> set (ii_format img) \<and> CHR ''<'' \<notin> set (ii_data img)"
  shows "loud (generate_page_html self E page_data)"
proof -
  let ?k = "str_nat (pc_page_num page_data + 1)"
  have first: \<open>loud (''        <div class="pdf-page" id="page-'')\<close>
    by (simp add: loud_def page_marker_def)
  have lits: \<open>quiet ''">\<newline>''\<close> \<open>quiet ''            <div class="page-number">Page ''\<close>
      \<open>quiet ''</div>''\<close> \<open>quiet ''\<newline>        </div>''\<close> \<open>quiet ''\<newline>            ''\<close>
    by (simp_all add: quiet_def page_marker_def)
  have k: "quiet ?k"
    by (rule quiet_no_lt) (rule str_nat_no_lt)
  have blocks: "quiet (concat (map (\<lambda>block. ''\<newline>            '' @ generate_text_block_html self E block)
                 (filter (\<lambda>block. bd_type block = ''text'') (pc_text_blocks page_data))))"
  proof (rule quiet_concat)
    fix x
    assume "x \<in> set (map (\<lambda>block. ''\<newline>            '' @ generate_text_block_html self E block)
                 (filter (\<lambda>block. bd_type block = ''text'') (pc_text_blocks page_data)))"
    then obtain block where "x = ''\<newline>            '' @ generate_text_block_html self E block"
      by auto
    then show "quiet x"
      using quiet_append[OF lits(5) quiet_text_block[OF assms(1), of self block]] by simp
  qed
  have images: "quiet (concat (map (\<lambda>img. ''\<newline>            '' @ generate_image_html self img)
                 (pc_images page_data)))"
  proof (rule quiet_concat)
    fix x
    assume "x \<in> set (map (\<lambda>img. ''\<newline>            '' @ generate_image_html self img)
                 (pc_images page_data))"
    then obtain img where i: "img \<in> set (pc_images page_data)"
      and x: "x = ''\<newline>            '' @ generate_image_html self img"
      by auto
    from assms(2)[OF i] have "quiet (generate_image_html self img)"
      by (intro quiet_image) simp_all
    from quiet_append[OF lits(5) this] x show "quiet x" by simp
  qed
  have \<open>loud (''        <div class="pdf-page" id="page-'' @ (?k @ ''">\<newline>''
     @ ''            <div class="page-number">Page '' @ ?k @ ''</div>''
     @ concat (map (\<lambda>block. ''\<newline>            '' @ generate_text_block_html self E block)
                 (filter (\<lambda>block. bd_type block = ''text'') (pc_text_blocks page_data)))
     @ concat (map (\<lambda>img. ''\<newline>            '' @ generate_image_html self img)
                 (pc_images page_data))
     @ ''\<newline>        </div>''))\<close>
    by (intro loud_quiet first quiet_append lits k blocks images)
  then show ?thesis
    by (simp add: generate_page_html_block class_page_block_def)
qed

lemma extract_image_clean:
  "extract_image page page_num i xref = Inr img \<Longrightarrow>
   CHR ''<'' \<notin> set (ii_format img) \<and> CHR ''<'' \<notin> set (ii_data img)"
  by (auto simp: extract_image_def encode_pixmap_def Let_def b64encode_no_lt
      split: sum.splits if_splits)

lemma kept_images_clean:
  assumes "img \<in> set (kept_images page page_num k xrefs)"
  shows "CHR ''<'' \<notin> set (ii_format img) \<and> CHR ''<'' \<notin> set (ii_data img)"
proof -
  from assms obtain i xref where "extract_image page page_num i xref = Inr img"
    by (auto simp: kept_images_def List.map_filter_def split: sum.splits)
  then show ?thesis by (rule extract_image_clean)
qed

lemma contents_of_clean:
  assumes "page_data \<in> set (contents_of k loaded)" and "img \<in> set (pc_images page_data)"
  shows "CHR ''<'' \<notin> set (ii_format img) \<and> CHR ''<'' \<notin> set (ii_data img)"
  using assms
proof (induction k loaded rule: contents_of.induct)
  case (1 k)
  then show ?case by simp
next
  case (2 k e rest)
  then show ?case by simp
next
  case (3 k page rest)
  show ?case
  proof (cases "page_failure page")
    case (Some e)
    with 3 show ?thesis by simp
  next
    case None
    show ?thesis
    proof (cases "page_data = page_content_of page k")
      case True
      with 3(3) show ?thesis
        by (auto simp: page_content_of_def split: sum.splits dest: kept_images_clean)
    next
      case False
      with 3 None show ?thesis by simp
    qed
  qed
qed

lemma generate_css_no_lt: "CHR ''<'' \<notin> set (generate_css self content)"
  by (simp add: generate_css_def)

lemma count_document:
  assumes "\<And>r. CHR ''<'' \<notin> set (float_format E r)"
    and "\<And>page_data img. page_data \<in> set (c_pages content) \<Longrightarrow> img \<in> set (pc_images page_data) \<Longrightarrow>
           CHR ''<'' \<notin> set (ii_format img) \<and> CHR ''<'' \<notin> set (ii_data img)"
  shows "count_occurrences page_marker (generate_complete_html self E content pdf_path) =
         length (c_pages content)"
proof -
  let ?t = "html_escape (path_stem E pdf_path)"
  let ?body = "join ''\<newline>'' (map (generate_page_html self E) (c_pages content))"
  have l: \<open>quiet (''<!DOCTYPE html>\<newline>'' @ ''<html lang="en">\<newline>'' @ ''<head>\<newline>''
            @ ''    <meta charset="UTF-8">\<newline>''
            @ ''    <meta name="viewport" content="width=device-width, initial-scale=1.0">\<newline>''
            @ ''    <title>'')\<close>
      \<open>quiet (''</title>\<newline>'' @ ''    <style>\<newline>'')\<close>
      \<open>quiet (''\<newline>'' @ ''    </style>\<newline>'' @ ''</head>\<newline>'' @ ''<body>\<newline>''
            @ ''    <div class="pdf-container">\<newline>'' @ ''        <h1 class="pdf-title">'')\<close>
      \<open>quiet ''</h1>\<newline>''\<close>
      \<open>quiet (''\<newline>'' @ ''    </div>\<newline>'' @ ''</body>\<newline>'' @ ''</html>'')\<close>
      \<open>quiet ''\<newline>''\<close>
    by (simp_all add: quiet_def page_marker_def)
  have t: "quiet ?t"
    by (rule quiet_no_lt) (rule html_escape_no_lt)
  have c: "quiet (generate_css self content)"
    by (rule quiet_no_lt) (rule generate_css_no_lt)
  have head: \<open>quiet ((''<!DOCTYPE html>\<newline>'' @ ''<html lang="en">\<newline>'' @ ''<head>\<newline>''
            @ ''    <meta charset="UTF-8">\<newline>''
            @ ''    <meta name="viewport" content="width=device-width, initial-scale=1.0">\<newline>''
            @ ''    <title>'') @ ?t @ (''</title>\<newline>'' @ ''    <style>\<newline>'')
            @ generate_css self content
            @ (''\<newline>'' @ ''    </style>\<newline>'' @ ''</head>\<newline>'' @ ''<body>\<newline>''
            @ ''    <div class="pdf-container">\<newline>'' @ ''        <h1 class="pdf-title">'')
            @ ?t @ ''</h1>\<newline>'')\<close> (is "quiet ?head")
    by (intro quiet_append l t c)
  have pages: "loud x" if "x \<in> set (map (generate_page_html self E) (c_pages content))" for x
  proof -
    from that obtain pd where pd: "pd \<in> set (c_pages content)" and x: "x = generate_page_html self E pd"
      by auto
    show ?thesis
      unfolding x by (rule loud_page[OF assms(1)]) (rule assms(2)[OF pd])
  qed
  let ?tail = \<open>''\<newline>'' @ ''    </div>\<newline>'' @ ''</body>\<newline>'' @ ''</html>''\<close>
  have "generate_complete_html self E content pdf_path = ?head @ ?body @ ?tail"
    by (simp add: generate_complete_html_def generate_body_html_def Let_def)
  then have "count_occurrences page_marker (generate_complete_html self E content pdf_path) =
        count_occurrences page_marker (?body @ ?tail)"
    using head by (simp only: quiet_def)
  also have "\<dots> = length (map (generate_page_html self E) (c_pages content))
                + count_occurrences page_marker ?tail"
    by (rule count_join_loud[OF l(6)]) (rule pages)
  also have "count_occurrences page_marker ?tail = 0"
    by (rule quiet_count) (rule l(5))
  finally show ?thesis by simp
qed

lemma class_page_containers_counted:
  assumes "\<And>r. CHR ''<'' \<notin> set (float_format E r)"
    and "first_failure (doc_pages doc) = None"
  shows "count_occurrences page_marker
           (generate_complete_html self E (content_of doc) pdf_path) = length (doc_pages doc)"
proof -
  have "count_occurrences page_marker (generate_complete_html self E (content_of doc) pdf_path) =
         length (c_pages (content_of doc))"
    by (rule count_document[OF assms(1)]) (auto simp: content_of_def dest: contents_of_clean)
  also have "length (c_pages (content_of doc)) = length (map pc_page_num (c_pages (content_of doc)))"
    by simp
  also have "\<dots> = length (doc_pages doc)"
    using length_contents_of[OF assms(2), of 0] by (simp add: content_of_def)
  finally show ?thesis .
qed

section \<open>The text blocks in closed form\<close>

text \<open>
  The two nested loops of \<open>_generate_text_block_html\<close>, and the three of
  \<open>_extract_text_blocks\<close>, as maps over the lines and spans.
\<close>

lemma line_parts_eq:
  "line_parts E lines =
     map (\<lambda>spans. concat (map (span_html E) spans))
       (filter (\<lambda>spans. spans \<noteq> []) (map ld_spans lines))"
  by (induction lines) (simp_all add: Let_def)

lemma generate_text_block_html_eq:
  "generate_text_block_html self E block =
     text_block_with (span_html E) (map ld_spans (bd_lines block))"
  by (simp add: generate_text_block_html_def text_block_with_def line_parts_eq)

lemma text_block_with_map:
  "text_block_with element (map (map f) lines) = text_block_with (\<lambda>x. element (f x)) lines"
  by (simp add: text_block_with_def filter_map comp_def)

lemma bd_lines_extract_blocks:
  "map bd_lines (extract_blocks blocks) = map (map extract_line) (List.map_filter rb_lines blocks)"
  by (induction blocks) (simp_all add: map_filter_Cons List.map_filter_def split: option.splits)

lemma text_block_of_raw_lines:
  "text_block_with (span_html E) (map ld_spans (map extract_line lines)) =
     text_block_with (\<lambda>sp. span_html E (extract_span sp)) (map rl_spans lines)"
proof -
  have "map ld_spans (map extract_line lines) = map (map extract_span) (map rl_spans lines)"
    by (simp add: extract_line_def)
  then show ?thesis by (simp only: text_block_with_map)
qed

lemma extracted_blocks_html:
  "map (generate_text_block_html self E) (extract_blocks blocks) =
     map (\<lambda>lines. text_block_with (\<lambda>sp. span_html E (extract_span sp)) (map rl_spans lines))
       (List.map_filter rb_lines blocks)"
proof -
  have "map (generate_text_block_html self E) (extract_blocks blocks) =
        map (\<lambda>ls. text_block_with (span_html E) (map ld_spans ls)) (map bd_lines (extract_blocks blocks))"
    by (simp add: generate_text_block_html_eq comp_def)
  also have "\<dots> = map (\<lambda>lines. text_block_with (span_html E) (map ld_spans (map extract_line lines)))
                     (List.map_filter rb_lines blocks)"
    by (simp only: bd_lines_extract_blocks map_map comp_def)
  finally show ?thesis by (simp only: text_block_of_raw_lines)
qed

section \<open>The claims\<close>

text \<open>
  C1.  For every span of the text structure of a page: \<open>_extract_text_blocks\<close> returns one
  text block for each block of the structure that has lines, in order, and sets the flag
  \<open>bold\<close> (\<open>italic\<close>) of each span exactly when a sub-word of the span's font name reads
  \<open>bold\<close> (\<open>italic\<close>) ignoring case, a span without a font name having the empty name;
  the HTML that \<open>_generate_text_block_html\<close> gives for an extracted block holds, line by
  line and span by span, the element of each span, whose class attribute is \<open>text-span\<close>
  followed by \<open>bold\<close> exactly when \<open>bold\<close> occurs in the font name ignoring case, and
  by \<open>italic\<close> exactly when \<open>italic\<close> occurs in it ignoring case.
\<close>

theorem span_bold_italic_classes:
  assumes "get_text_dict page = Inr blocks"
  shows \<open>\<exists>text_blocks.
      extract_text_blocks self page w = (Inr text_blocks, w)
    \<and> map (generate_text_block_html self E) text_blocks =
        map (\<lambda>lines. text_block_with
               (\<lambda>sp. ''<span class="text-span''
                  @ (if occurs_ignoring_case ''bold'' (dict_get (rs_font sp) '''')
                     then '' bold'' else '''')
                  @ (if occurs_ignoring_case ''italic'' (dict_get (rs_font sp) '''')
                     then '' italic'' else '''')
                  @ ''"'' @ style_attr (span_styles E (sd_font_info (extract_span sp)))
                  @ ''>'' @ html_escape (dict_get (rs_text sp) '''') @ ''</span>'')
               (map rl_spans lines))
          (List.map_filter rb_lines blocks)
    \<and> map (map (map (\<lambda>s. (fi_bold (sd_font_info s), fi_italic (sd_font_info s))) \<circ> ld_spans)
             \<circ> bd_lines) text_blocks =
        map (map (map (\<lambda>sp. (occurs_ignoring_case ''bold'' (dict_get (rs_font sp) ''''),
                               occurs_ignoring_case ''italic'' (dict_get (rs_font sp) '''')))
                  \<circ> rl_spans))
          (List.map_filter rb_lines blocks)\<close>
proof -
  have run: "extract_text_blocks self page w = (Inr (extract_blocks blocks), w)"
    using assms by (simp add: extract_text_blocks_eq)
  have element: \<open>span_html E (extract_span sp) =
       ''<span class="text-span''
       @ (if occurs_ignoring_case ''bold'' (dict_get (rs_font sp) '''') then '' bold'' else '''')
       @ (if occurs_ignoring_case ''italic'' (dict_get (rs_font sp) '''') then '' italic'' else '''')
       @ ''"'' @ style_attr (span_styles E (sd_font_info (extract_span sp)))
       @ ''>'' @ html_escape (dict_get (rs_text sp) '''') @ ''</span>''\<close> for sp
  proof -
    have classes: "span_classes (sd_font_info (extract_span sp)) =
       [''text-span'']
       @ (if occurs_ignoring_case ''bold'' (dict_get (rs_font sp) '''') then [''bold''] else [])
       @ (if occurs_ignoring_case ''italic'' (dict_get (rs_font sp) '''') then [''italic''] else [])"
      by (simp add: span_classes_def extract_span_def
          py_in_lower_ci[OF bold_lowercase] py_in_lower_ci[OF italic_lowercase])
    have content: "sd_text (extract_span sp) = dict_get (rs_text sp) ''''"
      by (simp add: extract_span_def)
    show ?thesis
      unfolding span_html_def Let_def classes content
      by (simp add: class_attr_def)
  qed
  have html: \<open>map (generate_text_block_html self E) (extract_blocks blocks) =
        map (\<lambda>lines. text_block_with
               (\<lambda>sp. ''<span class="text-span''
                  @ (if occurs_ignoring_case ''bold'' (dict_get (rs_font sp) '''')
                     then '' bold'' else '''')
                  @ (if occurs_ignoring_case ''italic'' (dict_get (rs_font sp) '''')
                     then '' italic'' else '''')
                  @ ''"'' @ style_attr (span_styles E (sd_font_info (extract_span sp)))
                  @ ''>'' @ html_escape (dict_get (rs_text sp) '''') @ ''</span>'')
               (map rl_spans lines))
          (List.map_filter rb_lines blocks)\<close>
    unfolding extracted_blocks_html element ..
  have flag: "(fi_bold (sd_font_info (extract_span sp)), fi_italic (sd_font_info (extract_span sp))) =
        (occurs_ignoring_case ''bold'' (dict_get (rs_font sp) ''''),
         occurs_ignoring_case ''italic'' (dict_get (rs_font sp) ''''))" for sp
    by (simp add: extract_span_def
        py_in_lower_ci[OF bold_lowercase] py_in_lower_ci[OF italic_lowercase])
  have "map (map (map (\<lambda>s. (fi_bold (sd_font_info s), fi_italic (sd_font_info s))) \<circ> ld_spans)
             \<circ> bd_lines) (extract_blocks blocks) =
        map (map (map (\<lambda>s. (fi_bold (sd_font_info s), fi_italic (sd_font_info s))) \<circ> ld_spans))
          (map bd_lines (extract_blocks blocks))"
    by simp
  also have "\<dots> = map (map (map (\<lambda>sp. (fi_bold (sd_font_info (extract_span sp)),
                                          fi_italic (sd_font_info (extract_span sp))))
                  \<circ> rl_spans))
          (List.map_filter rb_lines blocks)"
    unfolding bd_lines_extract_blocks by (simp add: extract_line_def comp_def)
  finally have flags: "map (map (map (\<lambda>s. (fi_bold (sd_font_info s), fi_italic (sd_font_info s))) \<circ> ld_spans)
             \<circ> bd_lines) (extract_blocks blocks) =
        map (map (map (\<lambda>sp. (occurs_ignoring_case ''bold'' (dict_get (rs_font sp) ''''),
                               occurs_ignoring_case ''italic'' (dict_get (rs_font sp) '''')))
                  \<circ> rl_spans))
          (List.map_filter rb_lines blocks)"
    unfolding flag .
  show ?thesis
    by (intro exI[of _ "extract_blocks blocks"] conjI run html flags)
qed

text \<open>The span of the example page has the font \<open>Times-BoldItalic\<close>: both flags are set
  and the element carries both classes.\<close>

theorem span_bold_italic_classes_witness:
  \<open>get_text_dict demo_page = Inr [demo_block]
   \<and> (\<exists>text_blocks.
        extract_text_blocks (init True True) demo_page world0 = (Inr text_blocks, world0)
      \<and> map (generate_text_block_html (init True True) env0) text_blocks =
          [''<div class="text-block">\<newline>''
           @ ''<span class="text-span bold italic" style="font-size: 10.5px; color: #0000ff">''
           @ ''a&lt;b</span>\<newline>''
           @ ''</div>'']
      \<and> map (map (map (\<lambda>s. (fi_bold (sd_font_info s), fi_italic (sd_font_info s))) \<circ> ld_spans)
               \<circ> bd_lines) text_blocks = [[[(True, True)]]])\<close>
proof -
  have h: "get_text_dict demo_page = Inr [demo_block]"
    by (simp add: demo_page_def)
  have b: "occurs_ignoring_case ''bold'' ''Times-BoldItalic''"
    unfolding occurs_ignoring_case_def
    by (intro exI[of _ "''Times-''"] exI[of _ "''Bold''"] exI[of _ "''Italic''"])
       (simp add: same_letter_def)
  have i: "occurs_ignoring_case ''italic'' ''Times-BoldItalic''"
    unfolding occurs_ignoring_case_def
    by (intro exI[of _ "''Times-Bold''"] exI[of _ "''Italic''"] exI[of _ "''''"])
       (simp add: same_letter_def)
  have hx: "hex_nat 255 = ''ff''"
    by (simp add: hex_nat.simps digit_char_def)
  have rp: "replicate 4 (CHR ''0'') = ''0000''"
    by (simp add: numeral_eq_Suc)
  have f: "format_06x 255 = ''0000ff''"
    by (simp add: format_06x_def zero_pad_def hx rp)
  have st: \<open>style_attr (span_styles env0 (sd_font_info (extract_span demo_span))) =
      '' style="font-size: 10.5px; color: #0000ff"''\<close>
    by (simp add: style_attr_def span_styles_def extract_span_def demo_span_def env0_def
        dict_get_def f)
  have ls: "List.map_filter rb_lines [demo_block] = [[\<lparr> rl_bbox = [], rl_spans = [demo_span] \<rparr>]]"
    by (simp add: List.map_filter_def demo_block_def)
  have fn: "dict_get (rs_font demo_span) '''' = ''Times-BoldItalic''"
    and tx: "html_escape (dict_get (rs_text demo_span) '''') = ''a&lt;b''"
    by (simp_all add: demo_span_def dict_get_def html_escape_def replace_char_def)
  from span_bold_italic_classes[OF h, of "init True True" world0 env0]
  obtain text_blocks where
    run: "extract_text_blocks (init True True) demo_page world0 = (Inr text_blocks, world0)"
    and html: \<open>map (generate_text_block_html (init True True) env0) text_blocks =
        map (\<lambda>lines. text_block_with
               (\<lambda>sp. ''<span class="text-span''
                  @ (if occurs_ignoring_case ''bold'' (dict_get (rs_font sp) '''')
                     then '' bold'' else '''')
                  @ (if occurs_ignoring_case ''italic'' (dict_get (rs_font sp) '''')
                     then '' italic'' else '''')
                  @ ''"'' @ style_attr (span_styles env0 (sd_font_info (extract_span sp)))
                  @ ''>'' @ html_escape (dict_get (rs_text sp) '''') @ ''</span>'')
               (map rl_spans lines))
          (List.map_filter rb_lines [demo_block])\<close>
    and flags: "map (map (map (\<lambda>s. (fi_bold (sd_font_info s), fi_italic (sd_font_info s))) \<circ> ld_spans)
             \<circ> bd_lines) text_blocks =
        map (map (map (\<lambda>sp. (occurs_ignoring_case ''bold'' (dict_get (rs_font sp) ''''),
                               occurs_ignoring_case ''italic'' (dict_get (rs_font sp) '''')))
                  \<circ> rl_spans))
          (List.map_filter rb_lines [demo_block])"
    by blast
  have html': \<open>map (generate_text_block_html (init True True) env0) text_blocks =
          [''<div class="text-block">\<newline>''
           @ ''<span class="text-span bold italic" style="font-size: 10.5px; color: #0000ff">''
           @ ''a&lt;b</span>\<newline>''
           @ ''</div>'']\<close>
    unfolding html ls by (simp add: text_block_with_def fn tx st b i)
  have flags': "map (map (map (\<lambda>s. (fi_bold (sd_font_info s), fi_italic (sd_font_info s))) \<circ> ld_spans)
               \<circ> bd_lines) text_blocks = [[[(True, True)]]]"
    unfolding flags ls by (simp add: fn b i)
  from run html' flags' have \<open>\<exists>text_blocks.
        extract_text_blocks (init True True) demo_page world0 = (Inr text_blocks, world0)
      \<and> map (generate_text_block_html (init True True) env0) text_blocks =
          [''<div class="text-block">\<newline>''
           @ ''<span class="text-span bold italic" style="font-size: 10.5px; color: #0000ff">''
           @ ''a&lt;b</span>\<newline>''
           @ ''</div>'']
      \<and> map (map (map (\<lambda>s. (fi_bold (sd_font_info s), fi_italic (sd_font_info s))) \<circ> ld_spans)
               \<circ> bd_lines) text_blocks = [[[(True, True)]]]\<close>
    by (intro exI[of _ text_blocks] conjI)
  with h show ?thesis by (intro conjI)
qed

text \<open>
  C2.  The HTML that \<open>_generate_text_block_html\<close> gives for a block holds, for each line
  that has spans, the elements of its spans in order, and the element of a span carries
  the style attribute of the span's font information between its class attribute and
  \<open>>\<close>.  For font information whose colour is a packed RGB integer
  (\<open>0 \<le> color < 2\<^sup>2\<^sup>4\<close>), the style attribute is absent when the size equals 12 and
  the colour is 0; otherwise it lists \<open>font-size: <size>px\<close> when the size differs from 12
  and \<open>color: #\<close> followed by six hexadecimal digits when the colour differs from 0, in
  this order, separated by \<open>; \<close>.  The attribute contains \<open>font-size: \<close> exactly when
  the size differs from 12, and, the text of the size holding no \<open>#\<close>, it contains
  \<open>color: #\<close> exactly when the colour differs from 0.
\<close>

theorem span_inline_style:
  assumes "0 \<le> fi_color fi" and "fi_color fi < 2 ^ 24"
    and "CHR ''#'' \<notin> set (format_num E (fi_size fi))"
  shows \<open>generate_text_block_html self E block =
      text_block_with
        (\<lambda>sp. ''<span'' @ class_attr (span_classes (sd_font_info sp))
               @ style_attr (span_styles E (sd_font_info sp))
               @ ''>'' @ html_escape (sd_text sp) @ ''</span>'')
        (map ld_spans (bd_lines block))
    \<and> style_attr (span_styles E fi) =
      (if num_val (fi_size fi) \<noteq> 12 \<and> fi_color fi \<noteq> 0
       then '' style="font-size: '' @ format_num E (fi_size fi) @ ''px; color: #''
            @ format_06x (fi_color fi) @ ''"''
       else if num_val (fi_size fi) \<noteq> 12
       then '' style="font-size: '' @ format_num E (fi_size fi) @ ''px"''
       else if fi_color fi \<noteq> 0
       then '' style="color: #'' @ format_06x (fi_color fi) @ ''"''
       else '''')
    \<and> length (format_06x (fi_color fi)) = 6
    \<and> set (format_06x (fi_color fi)) \<subseteq> set ''0123456789abcdef''
    \<and> (py_in ''font-size: '' (style_attr (span_styles E fi)) \<longleftrightarrow> num_val (fi_size fi) \<noteq> 12)
    \<and> (py_in ''color: #'' (style_attr (span_styles E fi)) \<longleftrightarrow> fi_color fi \<noteq> 0)\<close>
proof -
  let ?h = "format_06x (fi_color fi)" and ?f = "format_num E (fi_size fi)"
  let ?st = "style_attr (span_styles E fi)"
  have block: \<open>generate_text_block_html self E block =
      text_block_with
        (\<lambda>sp. ''<span'' @ class_attr (span_classes (sd_font_info sp))
               @ style_attr (span_styles E (sd_font_info sp))
               @ ''>'' @ html_escape (sd_text sp) @ ''</span>'')
        (map ld_spans (bd_lines block))\<close>
  proof -
    have "span_html E =
        (\<lambda>sp. ''<span'' @ class_attr (span_classes (sd_font_info sp))
               @ style_attr (span_styles E (sd_font_info sp))
               @ ''>'' @ html_escape (sd_text sp) @ ''</span>'')"
      by (intro ext) (simp add: span_html_def Let_def)
    then show ?thesis by (simp only: generate_text_block_html_eq)
  qed
  have hex: "length ?h = 6 \<and> set ?h \<subseteq> set ''0123456789abcdef''"
    using assms(1,2) by (rule format_06x_packed)
  have eq: \<open>?st =
      (if num_val (fi_size fi) \<noteq> 12 \<and> fi_color fi \<noteq> 0
       then '' style="font-size: '' @ ?f @ ''px; color: #'' @ ?h @ ''"''
       else if num_val (fi_size fi) \<noteq> 12
       then '' style="font-size: '' @ ?f @ ''px"''
       else if fi_color fi \<noteq> 0
       then '' style="color: #'' @ ?h @ ''"''
       else '''')\<close>
    by (simp add: style_attr_def span_styles_def)
  have fs: "py_in ''font-size: '' ?st \<longleftrightarrow> num_val (fi_size fi) \<noteq> 12"
  proof (cases "num_val (fi_size fi) \<noteq> 12")
    case True
    have \<open>py_in ''font-size: '' ('' style="'' @ ''font-size: '' @ (?f @ rest))\<close> for rest
      by (rule py_in_mid)
    with True show ?thesis by (simp add: eq)
  next
    case False
    have "CHR ''n'' \<notin> set ?h" using hex by auto
    then have \<open>\<not> py_in ''font-size: '' ('' style="color: #'' @ ?h @ ''"'')\<close>
      by (intro not_py_in[of "CHR ''n''"]) simp_all
    with False show ?thesis by (simp add: eq)
  qed
  have col: "py_in ''color: #'' ?st \<longleftrightarrow> fi_color fi \<noteq> 0"
  proof (cases "fi_color fi \<noteq> 0")
    case True
    have a: \<open>py_in ''color: #'' (('' style="font-size: '' @ ?f @ ''px; '') @ ''color: #'' @ (?h @ ''"''))\<close>
      by (rule py_in_mid)
    have b: \<open>py_in ''color: #'' ('' style="'' @ ''color: #'' @ (?h @ ''"''))\<close>
      by (rule py_in_mid)
    from True a b show ?thesis by (simp add: eq)
  next
    case False
    have \<open>\<not> py_in ''color: #'' ('' style="font-size: '' @ ?f @ ''px"'')\<close>
      using assms(3) by (intro not_py_in[of "CHR ''#''"]) simp_all
    with False show ?thesis by (simp add: eq)
  qed
  from hex have h1: "length ?h = 6" and h2: "set ?h \<subseteq> set ''0123456789abcdef''"
    by simp_all
  show ?thesis by (intro conjI block eq h1 h2 fs col)
qed

text \<open>The example block: a red bold span of size 10.5, a span in the default size and
  colour, which gets no style attribute, and a line without spans, which gives no row.\<close>

theorem span_inline_style_witness:
  \<open>0 \<le> fi_color demo_font \<and> fi_color demo_font < 2 ^ 24
   \<and> CHR ''#'' \<notin> set (format_num env0 (fi_size demo_font))
   \<and> generate_text_block_html (init True True) env0 demo_text_block =
       ''<div class="text-block">\<newline>''
       @ ''<span class="text-span bold" style="font-size: 10.5px; color: #ff0000">a&lt;b</span>''
       @ ''<span class="text-span">c</span>\<newline>''
       @ ''</div>''
   \<and> style_attr (span_styles env0 demo_font) = '' style="font-size: 10.5px; color: #ff0000"''
   \<and> py_in ''color: #'' (style_attr (span_styles env0 demo_font))
   \<and> py_in ''font-size: '' (style_attr (span_styles env0 demo_font))\<close>
proof -
  have h1: "0 \<le> fi_color demo_font" and h2: "fi_color demo_font < 2 ^ 24"
    and h3: "CHR ''#'' \<notin> set (format_num env0 (fi_size demo_font))"
    by (simp_all add: demo_font_def env0_def)
  note t = span_inline_style[OF h1 h2 h3, of "init True True" demo_text_block]
  have nz: "fi_color demo_font \<noteq> 0" and ns: "num_val (fi_size demo_font) \<noteq> 12"
    by (simp_all add: demo_font_def)
  have f: "format_06x 0xFF0000 = ''ff0000''"
    by (simp add: format_06x_def zero_pad_def hex_nat.simps digit_char_def)
  have c: \<open>style_attr (span_styles env0 demo_font) = '' style="font-size: 10.5px; color: #ff0000"''\<close>
    by (simp add: style_attr_def span_styles_def env0_def demo_font_def f)
  have cl: \<open>class_attr (span_classes demo_font) = '' class="text-span bold"''\<close>
    by (simp add: class_attr_def span_classes_def demo_font_def)
  have g: \<open>generate_text_block_html (init True True) env0 demo_text_block =
       ''<div class="text-block">\<newline>''
       @ ''<span class="text-span bold" style="font-size: 10.5px; color: #ff0000">a&lt;b</span>''
       @ ''<span class="text-span">c</span>\<newline>''
       @ ''</div>''\<close>
    unfolding t[THEN conjunct1]
    by (simp add: text_block_with_def demo_text_block_def c cl)
       (simp add: class_attr_def span_classes_def style_attr_def span_styles_def
          html_escape_def replace_char_def)
  have p: "py_in ''color: #'' (style_attr (span_styles env0 demo_font))"
    using t[THEN conjunct2, THEN conjunct2, THEN conjunct2, THEN conjunct2, THEN conjunct2] nz
    by (rule iffD2)
  have q: "py_in ''font-size: '' (style_attr (span_styles env0 demo_font))"
    using t[THEN conjunct2, THEN conjunct2, THEN conjunct2, THEN conjunct2, THEN conjunct1] ns
    by (rule iffD2)
  show ?thesis by (intro conjI h1 h2 h3 g c p q)
qed

text \<open>
  C3, as the code has it.  In \<open>_extract_images\<close> an exception raised while one image is
  extracted is caught inside the loop: a warning is logged, the image is left out, and the
  remaining images are processed, so the loop itself never raises.  An exception of
  \<open>page.get_drawings()\<close> is caught in \<open>_extract_drawings\<close> as well: a warning, and an empty
  list of drawings.  Every other exception reaches the caller of \<open>convert_pdf_to_html\<close>:
  the result is the missing-file error, or else the first exception among opening the
  document, loading a page, \<open>page.get_text\<close>, \<open>page.get_images\<close> and opening the output
  file, and the output path when there is none.
\<close>

theorem image_failures_skipped_other_failures_raised:
  "images_loop self page page_num [] 0 xrefs w =
     (Inr (kept_images page page_num 0 xrefs),
      w\<lparr>logged := logged w @ image_warnings page page_num 0 xrefs\<rparr>)
   \<and> extract_drawings self page w =
       (Inr (kept_drawings page), w\<lparr>logged := logged w @ drawing_warnings page\<rparr>)
   \<and> fst (convert_pdf_to_html self E L pdf_path output_path w) =
       conversion_result E L pdf_path output_path w"
  by (simp add: images_loop_eq extract_drawings_eq convert_pdf_to_html_result)

text \<open>
  The claim as stated fails: on the example document \<open>page.get_drawings()\<close> raises, outside
  the per-image loop, and the conversion still returns the output path.
\<close>

theorem drawing_failure_not_raised:
  "get_drawings demo_page = Inl (RuntimeError ''no drawings'')
   \<and> doc_pages demo_doc = [Inr demo_page]
   \<and> fst (fitz_open libs0 ''pdf/a.pdf'' world0) = Inr demo_doc
   \<and> fst (convert_pdf_to_html (init True True) env0 libs0 ''pdf/a.pdf'' (Some ''a.html'') world0)
       = Inr ''a.html''"
proof -
  have "conversion_result env0 libs0 ''pdf/a.pdf'' (Some ''a.html'') world0 = Inr ''a.html''"
    by (simp add: conversion_result_def demo_open demo_first_failure)
       (simp add: world0_def os_path_exists_def open_w_def output_path_of_def)
  then show ?thesis
    by (simp add: convert_pdf_to_html_result demo_open) (simp add: demo_page_def demo_doc_def)
qed

text \<open>
  C4.  When the input path names no file, every conversion routine reports an error and
  writes no file: the contents of all files are as before, and the output path of the
  scripts that create their output folder first is a directory afterwards only if it was
  one before.  The class raises
  \<open>FileNotFoundError\<close> before the \<open>try\<close> and leaves the world untouched (for a directory
  the library's exception is logged and raised again); \<open>fritz_test.py\<close> prints the error to
  standard error and \<open>pdfplumber_test.py\<close> to standard output, returning \<open>None\<close>;
  \<open>new.py\<close> and \<open>pdf2htmlEX.py\<close> raise \<open>ValueError\<close>; \<open>pdfminer_test.py\<close> and
  \<open>poppdf_test.py\<close> print the error to standard error and raise it again.
\<close>

theorem missing_input_reported_nothing_written:
  assumes "fs_files w pdf_path = None"
  shows "convert_pdf_to_html self E L pdf_path output_path w =
       (if pdf_path \<in> fs_dirs w
        then (Inl (IsADirectoryError (''[Errno 21] Is a directory: '' @ quoted pdf_path)),
              w\<lparr>logged := logged w @
                  [(ERROR, ''Error converting PDF to HTML: ''
                           @ (''[Errno 21] Is a directory: '' @ quoted pdf_path))]\<rparr>)
        else (Inl (FileNotFoundError (''PDF file not found: '' @ pdf_path)), w))
    \<and> (fst (fritz_test_convert_pdf_to_html L pdf_path output_folder w) = Inr ()
       \<and> fs_files (snd (fritz_test_convert_pdf_to_html L pdf_path output_folder w)) = fs_files w
       \<and> stdout (snd (fritz_test_convert_pdf_to_html L pdf_path output_folder w)) = stdout w
       \<and> (\<exists>e. stderr (snd (fritz_test_convert_pdf_to_html L pdf_path output_folder w)) =
                stderr w @ [''An error occurred: '' @ str_exn e]))
    \<and> (fst (pdfplumber_test_convert_pdf_to_html L pdf_path output_folder w) = Inr None
       \<and> fs_files (snd (pdfplumber_test_convert_pdf_to_html L pdf_path output_folder w)) = fs_files w
       \<and> (\<exists>e. stdout (snd (pdfplumber_test_convert_pdf_to_html L pdf_path output_folder w)) =
                stdout w @ [''Error converting PDF: '' @ str_exn e]))
    \<and> (\<exists>e. new_convert_pdf_to_html L pdf_path out w =
              (Inl (ValueError (''Conversion failed: '' @ str_exn e)), w))
    \<and> (\<exists>e. fst (pdfminer_test_convert_pdf_to_html L pdf_path output_folder w) = Inl e
       \<and> fs_files (snd (pdfminer_test_convert_pdf_to_html L pdf_path output_folder w)) = fs_files w
       \<and> stderr (snd (pdfminer_test_convert_pdf_to_html L pdf_path output_folder w)) =
              stderr w @ [''An error occurred: '' @ str_exn e])
    \<and> (\<exists>e. fst (poppdf_test_convert_pdf_to_html L pdf_path output_folder w) = Inl e
       \<and> fs_files (snd (poppdf_test_convert_pdf_to_html L pdf_path output_folder w)) = fs_files w
       \<and> stderr (snd (poppdf_test_convert_pdf_to_html L pdf_path output_folder w)) =
              stderr w @ [''An error occurred: '' @ str_exn e])
    \<and> (\<exists>e. pdf2htmlEX_convert_pdf_to_html L pdf_path output_path w =
              (Inl (ValueError (''Conversion failed: '' @ str_exn e)), w))
    \<and> (folder_output_path pdf_path output_folder
          \<in> fs_dirs (snd (fritz_test_convert_pdf_to_html L pdf_path output_folder w))
        \<longleftrightarrow> folder_output_path pdf_path output_folder \<in> fs_dirs w)
    \<and> (folder_output_path pdf_path output_folder
          \<in> fs_dirs (snd (pdfplumber_test_convert_pdf_to_html L pdf_path output_folder w))
        \<longleftrightarrow> folder_output_path pdf_path output_folder \<in> fs_dirs w)
    \<and> (folder_output_path pdf_path output_folder
          \<in> fs_dirs (snd (pdfminer_test_convert_pdf_to_html L pdf_path output_folder w))
        \<longleftrightarrow> folder_output_path pdf_path output_folder \<in> fs_dirs w)
    \<and> (folder_output_path pdf_path output_folder
          \<in> fs_dirs (snd (poppdf_test_convert_pdf_to_html L pdf_path output_folder w))
        \<longleftrightarrow> folder_output_path pdf_path output_folder \<in> fs_dirs w)"
proof -
  note made = output_path_not_made[of pdf_path output_folder L w]
  show ?thesis
    by (intro conjI convert_pdf_to_html_missing[OF assms] fritz_test_missing[OF assms]
          pdfplumber_test_missing[OF assms] new_missing[OF assms] pdfminer_test_missing[OF assms]
          poppdf_test_missing[OF assms] pdf2htmlEX_missing[OF assms]
          made[THEN conjunct1] made[THEN conjunct2, THEN conjunct1]
          made[THEN conjunct2, THEN conjunct2, THEN conjunct1]
          made[THEN conjunct2, THEN conjunct2, THEN conjunct2])
qed

theorem missing_input_witness:
  "fs_files world0 ''pdf/b.pdf'' = None
   \<and> convert_pdf_to_html (init True True) env0 libs0 ''pdf/b.pdf'' None world0 =
       (Inl (FileNotFoundError ''PDF file not found: pdf/b.pdf''), world0)
   \<and> fs_files (snd (fritz_test_convert_pdf_to_html libs0 ''pdf/b.pdf'' ''output'' world0)) =
       fs_files world0
   \<and> fst (pdfplumber_test_convert_pdf_to_html libs0 ''pdf/b.pdf'' ''output'' world0) = Inr None"
proof -
  have h: "fs_files world0 ''pdf/b.pdf'' = None"
    by (simp add: world0_def)
  note t = missing_input_reported_nothing_written[OF h,
      of "init True True" env0 libs0 None "''output''" "''output/b.html''"]
  have d: "''pdf/b.pdf'' \<notin> fs_dirs world0"
    by (simp add: world0_def)
  from t[THEN conjunct1] d
  have a: "convert_pdf_to_html (init True True) env0 libs0 ''pdf/b.pdf'' None world0 =
       (Inl (FileNotFoundError ''PDF file not found: pdf/b.pdf''), world0)"
    by simp
  note b = t[THEN conjunct2, THEN conjunct1, THEN conjunct2, THEN conjunct1]
  note c = t[THEN conjunct2, THEN conjunct2, THEN conjunct1, THEN conjunct1]
  show ?thesis by (intro conjI h a b c)
qed

text \<open>
  C5 on \<open>pdfplumber_test.py\<close>, which puts the extracted text into the document as it is:
  for the one-page document whose text is \<open><div class="page" id="page-2">\<close> the text
  written holds two page containers.
\<close>

theorem pdfplumber_page_divs_miscounted:
  \<open>fs_files (snd (pdfplumber_test_convert_pdf_to_html libs0 ''pdf/a.pdf'' ''output'' world0))
       ''output/a.html'' = Some (pdfplumber_test_document [Some tag_text])
   \<and> (case plumber_parse libs0 ''%PDF-demo'' of Inl e \<Rightarrow> 0 | Inr pages \<Rightarrow> length pages) = 1
   \<and> count_occurrences ''<div class="page" id="page-'' (pdfplumber_test_document [Some tag_text]) = 2\<close>
proof -
  have a: "fs_files (snd (pdfplumber_test_convert_pdf_to_html libs0 ''pdf/a.pdf'' ''output'' world0))
       ''output/a.html'' = Some (pdfplumber_test_document [Some tag_text])"
    by (simp add: pdfplumber_demo_run)
  have b: "(case plumber_parse libs0 ''%PDF-demo'' of Inl e \<Rightarrow> 0 | Inr pages \<Rightarrow> length pages) = (1::nat)"
    by (simp add: libs0_def)
  have c: \<open>count_occurrences ''<div class="page" id="page-'' (pdfplumber_test_document [Some tag_text]) = 2\<close>
    by (simp add: pdfplumber_demo_document pdfplumber_test_header_def)
  show ?thesis by (intro conjI a b c)
qed

text \<open>
  C6 on \<open>pdfplumber_test.py\<close>: the text of the same document is written between
  \<open><pre>\<close> and \<open></pre>\<close> without escaping, and the escaped text does not occur in the
  output.
\<close>

theorem pdfplumber_text_not_escaped:
  \<open>fs_files (snd (pdfplumber_test_convert_pdf_to_html libs0 ''pdf/a.pdf'' ''output'' world0))
       ''output/a.html'' = Some (pdfplumber_test_document [Some tag_text])
   \<and> plumber_parse libs0 ''%PDF-demo'' = Inr [\<lparr> extract_text = Inr (Some tag_text) \<rparr>]
   \<and> html_escape tag_text = ''&lt;div class=&quot;page&quot; id=&quot;page-2&quot;&gt;''
   \<and> py_in (''<pre>'' @ tag_text @ ''</pre>'') (pdfplumber_test_document [Some tag_text])
   \<and> \<not> py_in (html_escape tag_text) (pdfplumber_test_document [Some tag_text])\<close>
proof -
  have a: "fs_files (snd (pdfplumber_test_convert_pdf_to_html libs0 ''pdf/a.pdf'' ''output'' world0))
       ''output/a.html'' = Some (pdfplumber_test_document [Some tag_text])"
    by (simp add: pdfplumber_demo_run)
  have b: "plumber_parse libs0 ''%PDF-demo'' = Inr [\<lparr> extract_text = Inr (Some tag_text) \<rparr>]"
    by (simp add: libs0_def)
  have c: \<open>html_escape tag_text = ''&lt;div class=&quot;page&quot; id=&quot;page-2&quot;&gt;''\<close>
    by (simp add: html_escape_def replace_char_def tag_text_def)
  have d: "py_in (''<pre>'' @ tag_text @ ''</pre>'') (pdfplumber_test_document [Some tag_text])"
    unfolding pdfplumber_demo_document
    by (simp add: pdfplumber_test_header_def tag_text_def)
  have e: "\<not> py_in (html_escape tag_text) (pdfplumber_test_document [Some tag_text])"
    by (rule not_py_in[of "CHR ''&''"])
       (simp_all add: c pdfplumber_demo_document pdfplumber_test_header_def)
  show ?thesis by (intro conjI a b c d e)
qed

text \<open>
  C7, as the code has it.  A document written by the class, by \<open>fritz_test.py\<close> or by
  \<open>pdfplumber_test.py\<close> is a head, one block per page of the PDF in page order, and a
  tail.  The head begins with \<open><!DOCTYPE html>\<close>, \<open><html>\<close> (\<open><html lang="en">\<close> for the
  class) and \<open><head>\<close> on successive lines (after an empty line in \<open>fritz_test.py\<close>) and
  ends with \<open></head>\<close> and \<open><body>\<close> (followed, for the class, by the container and the
  title); the block of page \<open>k\<close> opens with \<open><div class="page" id="page-k">\<close>
  (\<open>pdf-page\<close> for the class), has the marker \<open><div class="page-number">Page k</div>\<close>
  (the class) or \<open><h2>Page k</h2>\<close> (\<open>pdfplumber_test.py\<close>; \<open>fritz_test.py\<close> has the
  \<open>id\<close> only), then the text and images, and closes with \<open></div>\<close>; the tail is
  \<open></body>\<close> and \<open></html>\<close>.  \<open>new.py\<close> writes \<open><html><body>\<close>, the HTML of the pages
  and \<open></body></html>\<close>.
\<close>

theorem html_document_structure:
  \<open>(fst (convert_pdf_to_html self E L pdf_path output_path w) = Inr out \<longrightarrow>
      (\<exists>doc head.
         fst (fitz_open L pdf_path w) = Inr doc
         \<and> map pc_page_num (c_pages (content_of doc)) = [0..<length (doc_pages doc)]
         \<and> fs_files (snd (convert_pdf_to_html self E L pdf_path output_path w)) out =
             Some (head @ join ''\<newline>'' (map (class_page_block self E) (c_pages (content_of doc)))
                   @ ''\<newline>    </div>\<newline></body>\<newline></html>'')
         \<and> prefix ''<!DOCTYPE html>\<newline><html lang="en">\<newline><head>\<newline>'' head
         \<and> suffix (''</head>\<newline><body>\<newline>    <div class="pdf-container">\<newline>''
                   @ ''        <h1 class="pdf-title">'' @ html_escape (path_stem E pdf_path)
                   @ ''</h1>\<newline>'') head))
   \<and> (stdout (snd (fritz_test_convert_pdf_to_html L pdf_path output_folder w)) \<noteq> stdout w \<longrightarrow>
      (\<exists>doc hs.
         fst (fitz_open L pdf_path (snd (os_makedirs output_folder w))) = Inr doc
         \<and> page_htmls (doc_pages doc) = Inr hs \<and> length hs = length (doc_pages doc)
         \<and> fs_files (snd (fritz_test_convert_pdf_to_html L pdf_path output_folder w))
               (folder_output_path pdf_path output_folder) =
             Some (fritz_test_header @ concat (map fritz_test_page_block (List.enumerate 1 hs))
                   @ ''\<newline></body></html>'')))
   \<and> prefix ''\<newline><!DOCTYPE html>\<newline><html>\<newline><head>\<newline>'' fritz_test_header
   \<and> suffix ''</head>\<newline><body>\<newline>'' fritz_test_header
   \<and> (fst (pdfplumber_test_convert_pdf_to_html L pdf_path output_folder w) = Inr (Some out2) \<longrightarrow>
      (\<exists>pdf ts.
         fst (pdfplumber_open L pdf_path (snd (os_makedirs output_folder w))) = Inr pdf
         \<and> page_texts pdf = Inr ts \<and> length ts = length pdf
         \<and> fs_files (snd (pdfplumber_test_convert_pdf_to_html L pdf_path output_folder w)) out2 =
             Some (pdfplumber_test_header
                   @ concat (map pdfplumber_test_page_block (List.enumerate 1 ts))
                   @ ''\<newline></body>\<newline></html>'')))
   \<and> prefix ''<!DOCTYPE html>\<newline><html>\<newline><head>\<newline>'' pdfplumber_test_header
   \<and> suffix ''</head>\<newline><body>'' pdfplumber_test_header
   \<and> (fst (new_convert_pdf_to_html L pdf_path output_path3 w) = Inr out3 \<longrightarrow>
      (\<exists>doc hs.
         fst (fitz_open L pdf_path w) = Inr doc \<and> page_htmls (doc_pages doc) = Inr hs
         \<and> fs_files (snd (new_convert_pdf_to_html L pdf_path output_path3 w)) out3 =
             Some (''<html><body>'' @ concat hs @ ''</body></html>'')))\<close>
proof (intro conjI impI)
  assume ok: "fst (convert_pdf_to_html self E L pdf_path output_path w) = Inr out"
  from convert_pdf_to_html_written[OF ok] obtain doc where
    d: "fst (fitz_open L pdf_path w) = Inr doc" and ff: "first_failure (doc_pages doc) = None"
    and f: "fs_files (snd (convert_pdf_to_html self E L pdf_path output_path w)) =
             (fs_files w)(out \<mapsto> generate_complete_html self E (content_of doc) pdf_path)"
    by blast
  from generate_complete_html_parts[of self E "content_of doc" pdf_path] obtain head where
    h: \<open>generate_complete_html self E (content_of doc) pdf_path =
       head @ join ''\<newline>'' (map (class_page_block self E) (c_pages (content_of doc)))
       @ ''\<newline>    </div>\<newline></body>\<newline></html>''\<close>
    and p: \<open>prefix ''<!DOCTYPE html>\<newline><html lang="en">\<newline><head>\<newline>'' head\<close>
    and s: \<open>suffix (''</head>\<newline><body>\<newline>    <div class="pdf-container">\<newline>''
                 @ ''        <h1 class="pdf-title">'' @ html_escape (path_stem E pdf_path)
                 @ ''</h1>\<newline>'') head\<close>
    by blast
  have n: "map pc_page_num (c_pages (content_of doc)) = [0..<length (doc_pages doc)]"
    using length_contents_of[OF ff, of 0] by (simp add: content_of_def)
  have w: \<open>fs_files (snd (convert_pdf_to_html self E L pdf_path output_path w)) out =
           Some (head @ join ''\<newline>'' (map (class_page_block self E) (c_pages (content_of doc)))
                 @ ''\<newline>    </div>\<newline></body>\<newline></html>'')\<close>
    by (simp add: f h)
  show \<open>\<exists>doc head.
       fst (fitz_open L pdf_path w) = Inr doc
       \<and> map pc_page_num (c_pages (content_of doc)) = [0..<length (doc_pages doc)]
       \<and> fs_files (snd (convert_pdf_to_html self E L pdf_path output_path w)) out =
           Some (head @ join ''\<newline>'' (map (class_page_block self E) (c_pages (content_of doc)))
                 @ ''\<newline>    </div>\<newline></body>\<newline></html>'')
       \<and> prefix ''<!DOCTYPE html>\<newline><html lang="en">\<newline><head>\<newline>'' head
       \<and> suffix (''</head>\<newline><body>\<newline>    <div class="pdf-container">\<newline>''
                 @ ''        <h1 class="pdf-title">'' @ html_escape (path_stem E pdf_path)
                 @ ''</h1>\<newline>'') head\<close>
    by (intro exI[of _ doc] exI[of _ head] conjI d n w p s)
next
  assume ok: "stdout (snd (fritz_test_convert_pdf_to_html L pdf_path output_folder w)) \<noteq> stdout w"
  from fritz_test_written[OF ok] obtain doc hs where
    d: "fst (fitz_open L pdf_path (snd (os_makedirs output_folder w))) = Inr doc"
    and h: "page_htmls (doc_pages doc) = Inr hs"
    and f: "fs_files (snd (fritz_test_convert_pdf_to_html L pdf_path output_folder w)) =
             (fs_files w)(folder_output_path pdf_path output_folder \<mapsto> fritz_test_document hs)"
    by blast
  have w: \<open>fs_files (snd (fritz_test_convert_pdf_to_html L pdf_path output_folder w))
             (folder_output_path pdf_path output_folder) =
           Some (fritz_test_header @ concat (map fritz_test_page_block (List.enumerate 1 hs))
                 @ ''\<newline></body></html>'')\<close>
    by (simp add: f fritz_test_document_blocks)
  show \<open>\<exists>doc hs.
       fst (fitz_open L pdf_path (snd (os_makedirs output_folder w))) = Inr doc
       \<and> page_htmls (doc_pages doc) = Inr hs \<and> length hs = length (doc_pages doc)
       \<and> fs_files (snd (fritz_test_convert_pdf_to_html L pdf_path output_folder w))
             (folder_output_path pdf_path output_folder) =
           Some (fritz_test_header @ concat (map fritz_test_page_block (List.enumerate 1 hs))
                 @ ''\<newline></body></html>'')\<close>
    by (intro exI[of _ doc] exI[of _ hs] conjI d h length_page_htmls[OF h] w)
next
  show \<open>prefix ''\<newline><!DOCTYPE html>\<newline><html>\<newline><head>\<newline>'' fritz_test_header\<close>
    by (rule fritz_test_header_shape[THEN conjunct1])
next
  show \<open>suffix ''</head>\<newline><body>\<newline>'' fritz_test_header\<close>
    by (rule fritz_test_header_shape[THEN conjunct2])
next
  assume ok: "fst (pdfplumber_test_convert_pdf_to_html L pdf_path output_folder w) = Inr (Some out2)"
  from pdfplumber_test_written[OF ok] obtain pdf ts where
    d: "fst (pdfplumber_open L pdf_path (snd (os_makedirs output_folder w))) = Inr pdf"
    and h: "page_texts pdf = Inr ts"
    and f: "fs_files (snd (pdfplumber_test_convert_pdf_to_html L pdf_path output_folder w)) =
             (fs_files w)(out2 \<mapsto> pdfplumber_test_document ts)"
    by blast
  have w: \<open>fs_files (snd (pdfplumber_test_convert_pdf_to_html L pdf_path output_folder w)) out2 =
           Some (pdfplumber_test_header
                 @ concat (map pdfplumber_test_page_block (List.enumerate 1 ts))
                 @ ''\<newline></body>\<newline></html>'')\<close>
    by (simp add: f pdfplumber_test_document_blocks)
  show \<open>\<exists>pdf ts.
       fst (pdfplumber_open L pdf_path (snd (os_makedirs output_folder w))) = Inr pdf
       \<and> page_texts pdf = Inr ts \<and> length ts = length pdf
       \<and> fs_files (snd (pdfplumber_test_convert_pdf_to_html L pdf_path output_folder w)) out2 =
           Some (pdfplumber_test_header
                 @ concat (map pdfplumber_test_page_block (List.enumerate 1 ts))
                 @ ''\<newline></body>\<newline></html>'')\<close>
    by (intro exI[of _ pdf] exI[of _ ts] conjI d h length_page_texts[OF h] w)
next
  show \<open>prefix ''<!DOCTYPE html>\<newline><html>\<newline><head>\<newline>'' pdfplumber_test_header\<close>
    by (rule pdfplumber_test_header_shape[THEN conjunct1])
next
  show \<open>suffix ''</head>\<newline><body>'' pdfplumber_test_header\<close>
    by (rule pdfplumber_test_header_shape[THEN conjunct2])
next
  assume ok: "fst (new_convert_pdf_to_html L pdf_path output_path3 w) = Inr out3"
  from new_written[OF ok] obtain doc hs where
    d: "fst (fitz_open L pdf_path w) = Inr doc"
    and h: "page_htmls (doc_pages doc) = Inr hs"
    and f: "fs_files (snd (new_convert_pdf_to_html L pdf_path output_path3 w)) =
             (fs_files w)(out3 \<mapsto> new_document hs)"
    by blast
  have w: \<open>fs_files (snd (new_convert_pdf_to_html L pdf_path output_path3 w)) out3 =
           Some (''<html><body>'' @ concat hs @ ''</body></html>'')\<close>
    by (simp add: f new_document_def)
  show \<open>\<exists>doc hs.
       fst (fitz_open L pdf_path w) = Inr doc \<and> page_htmls (doc_pages doc) = Inr hs
       \<and> fs_files (snd (new_convert_pdf_to_html L pdf_path output_path3 w)) out3 =
           Some (''<html><body>'' @ concat hs @ ''</body></html>'')\<close>
    by (intro exI[of _ doc] exI[of _ hs] conjI d h w)
qed

theorem html_document_structure_witness:
  \<open>fst (convert_pdf_to_html (init True True) env0 libs0 ''pdf/a.pdf'' (Some ''a.html'') world0) =
     Inr ''a.html''
   \<and> (\<exists>d. fs_files (snd (convert_pdf_to_html (init True True) env0 libs0 ''pdf/a.pdf''
                            (Some ''a.html'') world0)) ''a.html'' = Some d
          \<and> prefix ''<!DOCTYPE html>\<newline><html lang="en">\<newline><head>\<newline>'' d
          \<and> suffix ''\<newline></body>\<newline></html>'' d)
   \<and> stdout (snd (fritz_test_convert_pdf_to_html libs0 ''pdf/a.pdf'' ''output'' world0)) \<noteq>
       stdout world0
   \<and> (\<exists>d. fs_files (snd (fritz_test_convert_pdf_to_html libs0 ''pdf/a.pdf'' ''output'' world0))
            ''output/a.html'' = Some d
          \<and> suffix ''\<newline></body></html>'' d)
   \<and> fst (pdfplumber_test_convert_pdf_to_html libs0 ''pdf/a.pdf'' ''output'' world0) =
       Inr (Some ''output/a.html'')
   \<and> (\<exists>d. fs_files (snd (pdfplumber_test_convert_pdf_to_html libs0 ''pdf/a.pdf'' ''output'' world0))
            ''output/a.html'' = Some d
          \<and> suffix ''\<newline></body>\<newline></html>'' d)
   \<and> fst (new_convert_pdf_to_html libs0 ''pdf/a.pdf'' ''a.html'' world0) = Inr ''a.html''
   \<and> (\<exists>d. fs_files (snd (new_convert_pdf_to_html libs0 ''pdf/a.pdf'' ''a.html'' world0)) ''a.html''
            = Some d
          \<and> prefix ''<html><body>'' d \<and> suffix ''</body></html>'' d)\<close>
proof -
  note t = html_document_structure[of "init True True" env0 libs0 "''pdf/a.pdf''"
      "Some ''a.html''" world0 "''a.html''" "''output''" "''output/a.html''" "''a.html''" "''a.html''"]
  have h1: "fst (convert_pdf_to_html (init True True) env0 libs0 ''pdf/a.pdf'' (Some ''a.html'') world0) =
     Inr ''a.html''"
    by (rule demo_class_run)
  have h2: "stdout (snd (fritz_test_convert_pdf_to_html libs0 ''pdf/a.pdf'' ''output'' world0)) \<noteq>
       stdout world0"
    by (rule fritz_test_demo_run)
  have h3: "fst (pdfplumber_test_convert_pdf_to_html libs0 ''pdf/a.pdf'' ''output'' world0) =
       Inr (Some ''output/a.html'')"
    by (simp add: pdfplumber_demo_run)
  have h4: "fst (new_convert_pdf_to_html libs0 ''pdf/a.pdf'' ''a.html'' world0) = Inr ''a.html''"
    by (simp add: new_demo_run)
  have c1: \<open>\<exists>d. fs_files (snd (convert_pdf_to_html (init True True) env0 libs0 ''pdf/a.pdf''
                            (Some ''a.html'') world0)) ''a.html'' = Some d
          \<and> prefix ''<!DOCTYPE html>\<newline><html lang="en">\<newline><head>\<newline>'' d
          \<and> suffix ''\<newline></body>\<newline></html>'' d\<close>
    using t[THEN conjunct1, THEN mp, OF h1]
    by (auto simp: suffix_def intro: prefix_prefix)
  have c2: \<open>\<exists>d. fs_files (snd (fritz_test_convert_pdf_to_html libs0 ''pdf/a.pdf'' ''output'' world0))
            ''output/a.html'' = Some d
          \<and> suffix ''\<newline></body></html>'' d\<close>
    using t[THEN conjunct2, THEN conjunct1, THEN mp, OF h2]
    by (auto simp: suffix_def demo_folder_output)
  have c3: \<open>\<exists>d. fs_files (snd (pdfplumber_test_convert_pdf_to_html libs0 ''pdf/a.pdf'' ''output'' world0))
            ''output/a.html'' = Some d
          \<and> suffix ''\<newline></body>\<newline></html>'' d\<close>
    using t[THEN conjunct2, THEN conjunct2, THEN conjunct2, THEN conjunct2, THEN conjunct1,
        THEN mp, OF h3]
    by (auto simp: suffix_def)
  have c4: \<open>\<exists>d. fs_files (snd (new_convert_pdf_to_html libs0 ''pdf/a.pdf'' ''a.html'' world0)) ''a.html''
            = Some d
          \<and> prefix ''<html><body>'' d \<and> suffix ''</body></html>'' d\<close>
    using t[THEN conjunct2, THEN conjunct2, THEN conjunct2, THEN conjunct2, THEN conjunct2,
        THEN conjunct2, THEN conjunct2, THEN mp, OF h4]
    by (auto simp: suffix_def)
  show ?thesis by (intro conjI h1 c1 h2 c2 h3 c3 h4 c4)
qed

text \<open>
  The claim as stated fails on \<open>new.py\<close>: its document for the one-page example has no
  document type, no head and no page container.
\<close>

theorem new_py_document_without_doctype:
  \<open>fst (fitz_open libs0 ''pdf/a.pdf'' world0) = Inr demo_doc
   \<and> length (doc_pages demo_doc) = 1
   \<and> fs_files (snd (new_convert_pdf_to_html libs0 ''pdf/a.pdf'' ''a.html'' world0)) ''a.html'' =
       Some ''<html><body><p>a&lt;b</p></body></html>''
   \<and> \<not> py_in ''<!DOCTYPE'' ''<html><body><p>a&lt;b</p></body></html>''
   \<and> \<not> py_in ''<head>'' ''<html><body><p>a&lt;b</p></body></html>''
   \<and> \<not> py_in ''<div'' ''<html><body><p>a&lt;b</p></body></html>''\<close>
  by (simp add: new_demo_run demo_open) (simp add: demo_doc_def)



text \<open>
  C9.  The two constructor flags do not influence a conversion: for all values of
  \<open>embed_fonts\<close> and \<open>preserve_layout\<close> the convenience function gives the same result and
  leaves the same world.
\<close>

theorem flags_do_not_interfere:
  "convert_pdf_to_html_fn E L pdf_path output_path ef pl w =
   convert_pdf_to_html_fn E L pdf_path output_path ef' pl' w"
  by (simp add: convert_pdf_to_html_fn_def Let_def convert_pdf_to_html_self[of "init ef pl" _ _ _ _ _ "init ef' pl'"])

text \<open>
  C10.  The drawing records of \<open>_extract_drawings\<close> are stored in the page record (when the
  extraction of the page succeeds its \<open>drawings\<close> are the records kept), and they are not
  rendered: the HTML of a page, and of a document, does not change when the drawings of
  its pages are replaced.
\<close>

theorem drawings_stored_not_rendered:
  "map_sum id pc_drawings (fst (extract_page_content self page page_num w)) =
     (case page_failure page of Some e \<Rightarrow> Inl e | None \<Rightarrow> Inr (kept_drawings page))
   \<and> fst (extract_drawings self page w) = Inr (kept_drawings page)
   \<and> generate_page_html self E (page_data\<lparr>pc_drawings := ds\<rparr>) =
       generate_page_html self E page_data
   \<and> generate_complete_html self E
         (content\<lparr>c_pages := map (\<lambda>p. p\<lparr>pc_drawings := f p\<rparr>) (c_pages content)\<rparr>) pdf_path =
       generate_complete_html self E content pdf_path"
proof -
  have page: "generate_page_html self E (p\<lparr>pc_drawings := d\<rparr>) = generate_page_html self E p"
    for p d
    by (simp add: generate_page_html_def)
  have body: "generate_body_html self E
         (content\<lparr>c_pages := map (\<lambda>p. p\<lparr>pc_drawings := f p\<rparr>) (c_pages content)\<rparr>) =
       generate_body_html self E content"
    by (simp add: generate_body_html_def page o_def)
  have css: "generate_css self (content\<lparr>c_pages := ps\<rparr>) = generate_css self content" for ps
    by (simp only: generate_css_def)
  have doc: "generate_complete_html self E
         (content\<lparr>c_pages := map (\<lambda>p. p\<lparr>pc_drawings := f p\<rparr>) (c_pages content)\<rparr>) pdf_path =
       generate_complete_html self E content pdf_path"
    by (simp only: generate_complete_html_def body css)
  have stored: "map_sum id pc_drawings (fst (extract_page_content self page page_num w)) =
     (case page_failure page of Some e \<Rightarrow> Inl e | None \<Rightarrow> Inr (kept_drawings page))"
    by (simp add: extract_page_content_eq page_content_of_def split: option.splits)
  have kept: "fst (extract_drawings self page w) = Inr (kept_drawings page)"
    by (simp add: extract_drawings_eq)
  show ?thesis by (intro conjI stored kept page doc)
qed


end
